(* ===== verification/Prelude.thy ===== *)
theory Prelude
  imports Complex_Main "HOL-Library.Char_ord" "HOL-Library.List_Lexorder"
begin

text \<open>
  Shared vocabulary of the development: the Python built-ins the agent in
  \<open>src/plugins/fleet-metrics/fleet_metrics.py\<close> calls on strings, lists and numbers,
  written as executable HOL functions. Strings are \<open>char list\<close>s holding the ASCII text
  the kernel interfaces and the diagnostic tools print; Python floats are modelled as
  exact \<open>real\<close> numbers, so \<open>round(x, 1)\<close> is exact round-half-even to one decimal.
  The collection \<open>py_simps\<close> gathers the equations that evaluate these built-ins on
  concrete text, for the witnesses of the component theories.
\<close>

named_theorems py_simps "evaluation rules of the Python built-in models"
named_theorems raises_intros "closure rules of the exception specifications"

section \<open>Exceptions\<close>

text \<open>
  The exception classes the source raises or catches. \<open>OSError\<close> is Python's
  \<open>IOError\<close>; \<open>FileNotFound\<close> is its subclass raised by \<open>subprocess.run\<close> for a missing
  binary; \<open>TimeoutExpired\<close> is raised by \<open>subprocess.run\<close> when its timeout passes;
  \<open>OverflowError\<close> is raised by \<open>socket.bind\<close> for a port outside 0--65535.
\<close>

datatype py_error = OSError | FileNotFound | ValueError | IndexError | TimeoutExpired | OverflowError

definition is_oserror :: "py_error \<Rightarrow> bool" where
  "is_oserror e \<longleftrightarrow> e = OSError \<or> e = FileNotFound"

type_synonym 'a result = "py_error + 'a"

text \<open>Evaluating a Python expression whose first part may raise: the exception
  propagates, otherwise evaluation goes on with the value.\<close>

definition rbind :: "'a result \<Rightarrow> ('a \<Rightarrow> 'b result) \<Rightarrow> 'b result" where
  "rbind r f = (case r of Inl e \<Rightarrow> Inl e | Inr x \<Rightarrow> f x)"

declare rbind_def [py_simps]

text \<open>\<open>res_raises S r\<close>: every exception \<open>r\<close> may carry is in the class \<open>S\<close>.\<close>

definition res_raises :: "(py_error \<Rightarrow> bool) \<Rightarrow> 'a result \<Rightarrow> bool" where
  "res_raises S r \<longleftrightarrow> (\<forall>e. r = Inl e \<longrightarrow> S e)"

section \<open>Characters\<close>

text \<open>\<open>str.isspace\<close> on ASCII: tab, newline, vertical tab, form feed, carriage return,
  the four separators 0x1c--0x1f, and space. Digits and letters are given by their
  tables, so that the kernel decides membership by comparing literals.\<close>

definition space_chars :: string where
  "space_chars = [CHR 0x09, CHR 0x0A, CHR 0x0B, CHR 0x0C, CHR 0x0D,
     CHR 0x1C, CHR 0x1D, CHR 0x1E, CHR 0x1F, CHR 0x20]"

definition decimal_digits :: string where
  "decimal_digits = ''0123456789''"

definition upper_letters :: string where
  "upper_letters = ''ABCDEFGHIJKLMNOPQRSTUVWXYZ''"

definition lower_letters :: string where
  "lower_letters = ''abcdefghijklmnopqrstuvwxyz''"

definition py_isspace :: "char \<Rightarrow> bool" where
  "py_isspace c \<longleftrightarrow> c \<in> set space_chars"

definition is_digit :: "char \<Rightarrow> bool" where
  "is_digit c \<longleftrightarrow> c \<in> set decimal_digits"

definition digit_val :: "char \<Rightarrow> nat" where
  "digit_val c = (case map_of (zip decimal_digits [0, 1, 2, 3, 4, 5, 6, 7, 8, 9]) c of Some d \<Rightarrow> d | None \<Rightarrow> 0)"

definition digit_char :: "nat \<Rightarrow> char" where
  "digit_char d = decimal_digits ! d"

definition py_lower_char :: "char \<Rightarrow> char" where
  "py_lower_char c = (case map_of (zip upper_letters lower_letters) c of Some l \<Rightarrow> l | None \<Rightarrow> c)"

declare space_chars_def [py_simps] decimal_digits_def [py_simps] upper_letters_def [py_simps]
  lower_letters_def [py_simps] py_isspace_def [py_simps] is_digit_def [py_simps]
  digit_val_def [py_simps] digit_char_def [py_simps] py_lower_char_def [py_simps]

section \<open>Strings\<close>

text \<open>\<open>s.strip()\<close>, \<open>s.rstrip(chars)\<close>, \<open>s.lower()\<close>, \<open>s.startswith(p)\<close> and
  \<open>sub in s\<close>.\<close>

definition py_strip :: "string \<Rightarrow> string" where
  "py_strip s = rev (dropWhile py_isspace (rev (dropWhile py_isspace s)))"

definition py_rstrip :: "string \<Rightarrow> string \<Rightarrow> string" where
  "py_rstrip cs s = rev (dropWhile (\<lambda>c. c \<in> set cs) (rev s))"

definition py_lower :: "string \<Rightarrow> string" where
  "py_lower s = map py_lower_char s"

definition py_startswith :: "string \<Rightarrow> string \<Rightarrow> bool" where
  "py_startswith s p \<longleftrightarrow> take (length p) s = p"

fun py_in :: "string \<Rightarrow> string \<Rightarrow> bool" where
  "py_in sub [] \<longleftrightarrow> sub = []"
| "py_in sub (c # cs) \<longleftrightarrow> py_startswith (c # cs) sub \<or> py_in sub cs"

text \<open>\<open>s.split()\<close>: the runs of non-whitespace, as CPython's loop collects them; the
  first argument is the token read so far, reversed.\<close>

fun split_ws :: "string \<Rightarrow> string \<Rightarrow> string list" where
  "split_ws cur [] = (if cur = [] then [] else [rev cur])"
| "split_ws cur (c # cs) =
     (if py_isspace c then (if cur = [] then split_ws [] cs else rev cur # split_ws [] cs)
      else split_ws (c # cur) cs)"

definition py_split :: "string \<Rightarrow> string list" where
  "py_split s = split_ws [] s"

text \<open>\<open>s.split(sep)\<close> for a one-character separator: empty fields are kept, and the
  result is never empty (\<open>''.split('\n') == ['']\<close>).\<close>

fun py_split_sep :: "char \<Rightarrow> string \<Rightarrow> string list" where
  "py_split_sep d [] = [[]]"
| "py_split_sep d (c # cs) =
     (if c = d then [] # py_split_sep d cs
      else (case py_split_sep d cs of [] \<Rightarrow> [[c]] | w # ws \<Rightarrow> (c # w) # ws))"

text \<open>\<open>sep.join(xs)\<close>.\<close>

fun py_join :: "string \<Rightarrow> string list \<Rightarrow> string" where
  "py_join sep [] = []"
| "py_join sep [x] = x"
| "py_join sep (x # y # zs) = x @ sep @ py_join sep (y # zs)"

text \<open>Iterating over a text file (\<open>for line in f\<close>): the lines keep their newline; a
  last line without one is kept as it is, an empty tail is no line.\<close>

definition py_lines :: "string \<Rightarrow> string list" where
  "py_lines s = (let ps = py_split_sep CHR ''\<newline>'' s
     in map (\<lambda>p. p @ ''\<newline>'') (butlast ps) @ (if last ps = [] then [] else [last ps]))"

text \<open>\<open>f.readline()\<close> on a freshly opened file: the first line with its newline.\<close>

definition py_readline :: "string \<Rightarrow> string" where
  "py_readline s = (case py_lines s of [] \<Rightarrow> [] | l # _ \<Rightarrow> l)"

declare py_strip_def [py_simps] py_rstrip_def [py_simps] py_lower_def [py_simps]
  py_startswith_def [py_simps] py_split_def [py_simps] py_lines_def [py_simps]
  py_readline_def [py_simps]

section \<open>Lists\<close>

text \<open>Indexing \<open>xs[i]\<close> and \<open>xs[-k]\<close> raise \<open>IndexError\<close> out of range; slicing
  \<open>xs[i:j]\<close> with non-negative bounds never raises.\<close>

definition py_index :: "'a list \<Rightarrow> nat \<Rightarrow> 'a result" where
  "py_index xs i = (if i < length xs then Inr (xs ! i) else Inl IndexError)"

definition py_index_neg :: "'a list \<Rightarrow> nat \<Rightarrow> 'a result" where
  "py_index_neg xs k = (if 0 < k \<and> k \<le> length xs then Inr (xs ! (length xs - k)) else Inl IndexError)"

definition py_slice :: "'a list \<Rightarrow> nat \<Rightarrow> nat \<Rightarrow> 'a list" where
  "py_slice xs i j = take (j - i) (drop i xs)"

declare py_index_def [py_simps] py_index_neg_def [py_simps] py_slice_def [py_simps]

section \<open>Dictionaries\<close>

text \<open>
  A Python \<open>dict\<close> keeps its keys in insertion order, and \<open>json.dumps\<close> writes them
  in that order, so a dictionary is an association list: \<open>d[k] = v\<close> replaces the value
  of a present key in place and appends a new key at the end; \<open>d.get(k, x)\<close> reads
  with a default.
\<close>

fun dict_set :: "('k \<times> 'v) list \<Rightarrow> 'k \<Rightarrow> 'v \<Rightarrow> ('k \<times> 'v) list" where
  "dict_set [] k v = [(k, v)]"
| "dict_set ((k', v') # d) k v = (if k' = k then (k, v) # d else (k', v') # dict_set d k v)"

definition dict_get :: "('k \<times> 'v) list \<Rightarrow> 'k \<Rightarrow> 'v \<Rightarrow> 'v" where
  "dict_get d k x = (case map_of d k of Some v \<Rightarrow> v | None \<Rightarrow> x)"

declare dict_get_def [py_simps]

section \<open>Numbers from text\<close>

text \<open>
  A digit part as \<open>int()\<close> and \<open>float()\<close> accept it: digits, with single underscores
  between digits (\<open>int('1_000') == 1000\<close>). The underscores split it into groups, each a
  non-empty run of digits.
\<close>

definition digits_ok :: "string \<Rightarrow> bool" where
  "digits_ok s \<longleftrightarrow> list_all (\<lambda>g. g \<noteq> [] \<and> list_all is_digit g) (py_split_sep CHR ''_'' s)"

definition digits_nat :: "string \<Rightarrow> nat" where
  "digits_nat s = foldl (\<lambda>n c. 10 * n + digit_val c) 0 (filter (\<lambda>c. c \<noteq> CHR ''_'') s)"

definition sign_split :: "string \<Rightarrow> int \<times> string" where
  "sign_split s = (case s of c # r \<Rightarrow>
       if c = CHR ''-'' then (-1, r) else if c = CHR ''+'' then (1, r) else (1, s)
     | [] \<Rightarrow> (1, []))"

text \<open>\<open>int(s)\<close> in base 10: surrounding whitespace, an optional sign, a digit part.\<close>

definition py_int :: "string \<Rightarrow> int result" where
  "py_int s = (let (sg, r) = sign_split (py_strip s)
     in if digits_ok r then Inr (sg * int (digits_nat r)) else Inl ValueError)"

text \<open>\<open>list(map(int, xs))\<close>: the conversions run left to right and the first that
  fails raises.\<close>

fun py_map_int :: "string list \<Rightarrow> int list result" where
  "py_map_int [] = Inr []"
| "py_map_int (t # ts) = rbind (py_int t) (\<lambda>v. rbind (py_map_int ts) (\<lambda>vs. Inr (v # vs)))"

text \<open>
  \<open>float(s)\<close> on the decimal syntax: an optional sign, digits with an optional fraction
  (at least one digit on one side of the point), an optional exponent. The value is the
  exact decimal the text denotes. The spellings \<open>inf\<close>, \<open>infinity\<close> and \<open>nan\<close>, which
  Python accepts, denote no real number: the model rejects them like other text.
\<close>

definition mantissa_val :: "string \<Rightarrow> string \<Rightarrow> real" where
  "mantissa_val ip fp = real (digits_nat ip) + real (digits_nat fp) / 10 ^ length (filter is_digit fp)"

definition exp10 :: "int \<Rightarrow> real" where
  "exp10 k = (if 0 \<le> k then 10 ^ nat k else 1 / 10 ^ nat (- k))"

definition py_float_parts :: "string \<Rightarrow> (string \<times> string) option" where
  "py_float_parts m = (case py_split_sep CHR ''.'' m of
       [ip] \<Rightarrow> if digits_ok ip then Some (ip, []) else None
     | [ip, fp] \<Rightarrow>
         if (ip = [] \<or> digits_ok ip) \<and> (fp = [] \<or> digits_ok fp) \<and> (ip \<noteq> [] \<or> fp \<noteq> [])
         then Some (ip, fp) else None
     | _ \<Rightarrow> None)"

definition py_float_exp :: "string \<Rightarrow> int option" where
  "py_float_exp e = (let (sg, r) = sign_split e in if digits_ok r then Some (sg * int (digits_nat r)) else None)"

definition py_float :: "string \<Rightarrow> real result" where
  "py_float s = (let (sg, r) = sign_split (py_strip s);
       (m, ex) = (case py_split_sep CHR ''e'' (map py_lower_char r) of
                    [m] \<Rightarrow> (m, Some 0)
                  | [m, e] \<Rightarrow> (m, py_float_exp e)
                  | _ \<Rightarrow> ([], None))
     in case (py_float_parts m, ex) of
          (Some (ip, fp), Some k) \<Rightarrow> Inr (of_int sg * mantissa_val ip fp * exp10 k)
        | _ \<Rightarrow> Inl ValueError)"

declare digits_ok_def [py_simps] digits_nat_def [py_simps] sign_split_def [py_simps] exp10_def [py_simps]
  py_int_def [py_simps] mantissa_val_def [py_simps] py_float_parts_def [py_simps]
  py_float_exp_def [py_simps] py_float_def [py_simps]

section \<open>Numbers to text\<close>

text \<open>\<open>str(n)\<close> for an \<open>int\<close>: the decimal digits, a minus sign before a negative
  number, no padding.\<close>

fun nat_digits :: "nat \<Rightarrow> string" where
  "nat_digits n = (if n < 10 then [digit_char n] else nat_digits (n div 10) @ [digit_char (n mod 10)])"

declare nat_digits.simps [simp del]

definition py_str_int :: "int \<Rightarrow> string" where
  "py_str_int i = (if i < 0 then CHR ''-'' # nat_digits (nat (- i)) else nat_digits (nat i))"

section \<open>Rounding\<close>

text \<open>\<open>round(x, 1)\<close>: the nearest multiple of \<open>1/10\<close>, ties to the even multiple
  (Python rounds half to even).\<close>

definition round_half_even :: "real \<Rightarrow> int" where
  "round_half_even y = (let f = \<lfloor>y\<rfloor>; d = y - of_int f in
     if d < 1/2 then f else if 1/2 < d then f + 1 else if even f then f else f + 1)"

definition py_round1 :: "real \<Rightarrow> real" where
  "py_round1 x = of_int (round_half_even (x * 10)) / 10"

declare round_half_even_def [py_simps] py_round1_def [py_simps]

section \<open>Lemmas on the built-ins\<close>

subsection \<open>Splitting and joining\<close>

lemma py_split_sep_not_Nil [simp]: "py_split_sep d s \<noteq> []"
  by (induction s) (auto split: list.split)

lemma py_join_Cons: "ws \<noteq> [] \<Longrightarrow> py_join sep (w # ws) = w @ sep @ py_join sep ws"
  by (cases ws) simp_all

lemma py_join_Cons_hd: "py_join sep ((c # w) # ws) = c # py_join sep (w # ws)"
  by (cases ws) simp_all

lemma py_join_split_sep: "py_join [d] (py_split_sep d s) = s"
proof (induction s)
  case Nil
  then show ?case by simp
next
  case (Cons c cs)
  show ?case
  proof (cases "c = d")
    case True
    with Cons.IH show ?thesis by (simp add: py_join_Cons)
  next
    case False
    then obtain w ws where sp: "py_split_sep d cs = w # ws"
      by (cases "py_split_sep d cs") auto
    with Cons.IH have "py_join [d] (w # ws) = cs" by simp
    with False sp show ?thesis by (simp only: py_split_sep.simps if_False list.case py_join_Cons_hd)
  qed
qed

lemma py_split_sep_append:
  "d \<notin> set w \<Longrightarrow> py_split_sep d (w @ s) =
     (case py_split_sep d s of v # vs \<Rightarrow> (w @ v) # vs | [] \<Rightarrow> [w])"
  by (induction w) (auto split: list.split)

lemma py_split_sep_join:
  "ws \<noteq> [] \<Longrightarrow> \<forall>w\<in>set ws. d \<notin> set w \<Longrightarrow> py_split_sep d (py_join [d] ws) = ws"
proof (induction ws)
  case Nil
  then show ?case by simp
next
  case (Cons x rest)
  show ?case
  proof (cases rest)
    case Nil
    with Cons.prems show ?thesis using py_split_sep_append [of d x "[]"] by simp
  next
    case (Cons y zs)
    with Cons.IH Cons.prems have "py_split_sep d (py_join [d] rest) = rest" by simp
    with Cons Cons.prems show ?thesis
      using py_split_sep_append [of d x "d # py_join [d] rest"] by simp
  qed
qed

lemma py_split_sep_no_sep: "w \<in> set (py_split_sep d s) \<Longrightarrow> d \<notin> set w"
  by (induction s arbitrary: w) (auto split: list.splits if_splits)

lemma split_ws_tokens:
  "t \<in> set (split_ws cur s) \<Longrightarrow> \<forall>c\<in>set cur. \<not> py_isspace c \<Longrightarrow>
     t \<noteq> [] \<and> (\<forall>c\<in>set t. \<not> py_isspace c)"
proof (induction cur s rule: split_ws.induct)
  case (1 cur)
  then show ?case by (cases "cur = []") auto
next
  case (2 cur c cs)
  show ?case
  proof (cases "py_isspace c")
    case sp: True
    show ?thesis
    proof (cases "cur = []")
      case True
      with sp "2.prems"(1) have "t \<in> set (split_ws [] cs)" by simp
      with sp True "2.IH"(1) show ?thesis by simp
    next
      case False
      with sp "2.prems"(1) have "t = rev cur \<or> t \<in> set (split_ws [] cs)" by simp
      with sp False "2.IH"(2) "2.prems"(2) show ?thesis by auto
    qed
  next
    case False
    with "2.prems"(1) have "t \<in> set (split_ws (c # cur) cs)" by simp
    with False "2.IH"(3) "2.prems"(2) show ?thesis by simp
  qed
qed

lemma py_split_tokens:
  "t \<in> set (py_split s) \<Longrightarrow> t \<noteq> [] \<and> (\<forall>c\<in>set t. \<not> py_isspace c)"
  unfolding py_split_def by (rule split_ws_tokens) auto

subsection \<open>Substrings and case\<close>

lemma py_in_hd: "py_in (c # s) t \<Longrightarrow> c \<in> set t"
proof (induction t)
  case Nil
  then show ?case by simp
next
  case (Cons a t)
  show ?case
  proof (cases "py_startswith (a # t) (c # s)")
    case True
    then have "c = a" by (simp add: py_startswith_def)
    then show ?thesis by simp
  next
    case False
    with Cons.prems have "py_in (c # s) t" by simp
    then show ?thesis using Cons.IH by simp
  qed
qed

lemma lower_not_upper: "c \<notin> set upper_letters \<Longrightarrow> py_lower_char c = c"
  by (simp add: py_lower_char_def map_of_zip_is_None upper_letters_def lower_letters_def)

lemma digit_not_upper: "is_digit c \<Longrightarrow> c \<notin> set upper_letters"
  by (auto simp: is_digit_def decimal_digits_def upper_letters_def)

lemma lower_digit: "is_digit c \<Longrightarrow> py_lower_char c = c"
  by (intro lower_not_upper digit_not_upper)

subsection \<open>Dictionaries\<close>

lemma keys_dict_set_image: "fst ` set (dict_set d k v) = insert k (fst ` set d)"
  by (induction d) (auto simp: rev_image_eqI split: if_splits)

lemma map_of_dict_set [simp]: "map_of (dict_set d k v) = (map_of d)(k \<mapsto> v)"
  by (induction d) (auto simp: fun_eq_iff)

lemma keys_dict_set: "map fst (dict_set d k v) = (if k \<in> set (map fst d) then map fst d else map fst d @ [k])"
  by (induction d) (auto simp: rev_image_eqI split: if_splits)

lemma distinct_dict_set: "distinct (map fst d) \<Longrightarrow> distinct (map fst (dict_set d k v))"
  by (simp add: keys_dict_set)

lemma dict_get_set: "dict_get (dict_set d k v) k' x = (if k' = k then v else dict_get d k' x)"
  by (simp add: dict_get_def)

subsection \<open>Rounding\<close>

lemma round_half_even_cases:
  "round_half_even y = \<lfloor>y\<rfloor> \<or> round_half_even y = \<lfloor>y\<rfloor> + 1"
  by (simp add: round_half_even_def Let_def)

lemma round_half_even_near: "\<bar>of_int (round_half_even y) - y\<bar> \<le> 1/2"
proof -
  have f: "of_int \<lfloor>y\<rfloor> \<le> y" "y < of_int \<lfloor>y\<rfloor> + 1" by linarith+
  then show ?thesis by (auto simp: round_half_even_def Let_def)
qed

lemma round_half_even_of_int [simp]: "round_half_even (of_int k) = k"
  by (simp add: round_half_even_def)

lemma round_half_even_mono:
  assumes "y \<le> z" shows "round_half_even y \<le> round_half_even z"
proof (cases "\<lfloor>y\<rfloor> < \<lfloor>z\<rfloor>")
  case True
  then show ?thesis using round_half_even_cases [of y] round_half_even_cases [of z] by linarith
next
  case False
  with assms have eq: "\<lfloor>y\<rfloor> = \<lfloor>z\<rfloor>" by (meson floor_mono not_less order.antisym)
  with assms have "y - of_int \<lfloor>y\<rfloor> \<le> z - of_int \<lfloor>z\<rfloor>" by simp
  with eq show ?thesis by (auto simp: round_half_even_def Let_def)
qed

lemma py_round1_mono: "x \<le> y \<Longrightarrow> py_round1 x \<le> py_round1 y"
  unfolding py_round1_def by (simp add: divide_right_mono round_half_even_mono)

lemma py_round1_tenth [simp]: "py_round1 (of_int k / 10) = of_int k / 10"
  by (simp add: py_round1_def)

lemma py_round1_int [simp]: "py_round1 (of_int k) = of_int k"
  using py_round1_tenth [of "10 * k"] by simp

lemma py_round1_near: "\<bar>py_round1 x - x\<bar> \<le> 1/20"
proof -
  have "\<bar>of_int (round_half_even (x * 10)) - x * 10\<bar> \<le> 1/2"
    by (rule round_half_even_near)
  then show ?thesis by (simp add: py_round1_def field_simps abs_le_iff)
qed

lemma py_round1_nonneg: "0 \<le> x \<Longrightarrow> 0 \<le> py_round1 x"
  using py_round1_mono [of 0 x] py_round1_int [of 0] by simp

lemma py_round1_le_int: "x \<le> of_int k \<Longrightarrow> py_round1 x \<le> of_int k"
  using py_round1_mono [of x "of_int k"] by simp


lemma py_round1_tenths: "\<exists>k. py_round1 x = of_int k / 10"
  by (auto simp: py_round1_def)

text \<open>Rounding a difference and taking the difference of the roundings agree up to one
  unit of the last place: both are multiples of a tenth, and they lie within three
  twentieths of each other.\<close>

lemma py_round1_diff: "\<bar>py_round1 (x - y) - (py_round1 x - py_round1 y)\<bar> \<le> 1/10"
proof -
  define a b c where "a = round_half_even ((x - y) * 10)" and "b = round_half_even (x * 10)"
    and "c = round_half_even (y * 10)"
  have "\<bar>of_int a - (x - y) * 10\<bar> \<le> 1/2" "\<bar>of_int b - x * 10\<bar> \<le> 1/2"
    "\<bar>of_int c - y * 10\<bar> \<le> 1/2"
    unfolding a_def b_def c_def by (rule round_half_even_near)+
  then have "\<bar>of_int (a - (b - c)) :: real\<bar> \<le> 3/2"
    by (simp only: abs_le_iff of_int_diff left_diff_distrib) arith
  then have "\<bar>a - (b - c)\<bar> \<le> 1" by linarith
  then have "\<bar>of_int (a - (b - c)) :: real\<bar> \<le> 1" by linarith
  then show ?thesis unfolding py_round1_def a_def [symmetric] b_def [symmetric] c_def [symmetric]
    by (simp add: abs_le_iff field_simps)
qed

subsection \<open>Integers and their decimal text\<close>

lemma py_int_error: "py_int s = Inl e \<Longrightarrow> e = ValueError"
  by (simp add: py_int_def split: prod.splits if_splits)

lemma py_float_error: "py_float s = Inl e \<Longrightarrow> e = ValueError"
  by (simp add: py_float_def split: prod.splits option.splits list.splits)

lemma py_index_split_sep: "py_index (py_split_sep d s) 0 = Inr (hd (py_split_sep d s))"
  by (cases "py_split_sep d s") (simp_all add: py_index_def)

lemma remdups_filter_eq: "remdups (filter (\<lambda>p. p = x) xs) = (if x \<in> set xs then [x] else [])"
  by (induction xs) auto

lemma find_append_skip: "\<forall>x\<in>set xs. \<not> P x \<Longrightarrow> find P (xs @ ys) = find P ys"
  by (induction xs) simp_all


lemma py_split_sep_no_d: "d \<notin> set s \<Longrightarrow> py_split_sep d s = [s]"
  by (induction s) auto

lemma digit_table: "list_all (\<lambda>d. digit_val (digit_char d) = d \<and> is_digit (digit_char d)) [0..<10]"
  by (simp add: py_simps upt_rec)

lemma digit_char_val: "d < 10 \<Longrightarrow> digit_val (digit_char d) = d"
  using digit_table by (simp add: list_all_iff)

lemma digit_char_is_digit: "d < 10 \<Longrightarrow> is_digit (digit_char d)"
  using digit_table by (simp add: list_all_iff)

lemma digit_not_space: "is_digit c \<Longrightarrow> \<not> py_isspace c"
  by (auto simp: py_simps)

lemma digit_not_sign: "is_digit c \<Longrightarrow> c \<noteq> CHR ''-'' \<and> c \<noteq> CHR ''+'' \<and> c \<noteq> CHR ''_''"
  by (auto simp: py_simps)

lemma nat_digits_digits: "list_all is_digit (nat_digits n)"
proof (induction n rule: nat_digits.induct)
  case (1 n)
  then show ?case by (subst nat_digits.simps) (simp add: digit_char_is_digit)
qed

lemma nat_digits_not_Nil: "nat_digits n \<noteq> []"
  by (subst nat_digits.simps) simp

lemma digits_nat_snoc:
  "c \<noteq> CHR ''_'' \<Longrightarrow> digits_nat (s @ [c]) = 10 * digits_nat s + digit_val c"
  by (simp add: digits_nat_def)

lemma digits_nat_nat_digits: "digits_nat (nat_digits n) = n"
proof (induction n rule: nat_digits.induct)
  case (1 n)
  show ?case
  proof (cases "n < 10")
    case True
    then show ?thesis
      by (subst nat_digits.simps) (simp add: digits_nat_def digit_char_val digit_not_sign digit_char_is_digit)
  next
    case False
    have c: "digit_char (n mod 10) \<noteq> CHR ''_''"
      using digit_not_sign digit_char_is_digit by simp
    from False "1.IH" c show ?thesis
      by (subst nat_digits.simps) (simp add: digits_nat_snoc digit_char_val)
  qed
qed

lemma digits_ok_nat_digits: "digits_ok (nat_digits n)"
proof -
  have "CHR ''_'' \<notin> set (nat_digits n)"
    using nat_digits_digits digit_not_sign by (fastforce simp: list_all_iff)
  then show ?thesis
    using nat_digits_digits nat_digits_not_Nil by (simp add: digits_ok_def py_split_sep_no_d)
qed

lemma dropWhile_hd: "xs = [] \<or> \<not> P (hd xs) \<Longrightarrow> dropWhile P xs = xs"
  by (cases xs) auto

lemma py_strip_id:
  "s = [] \<or> (\<not> py_isspace (hd s) \<and> \<not> py_isspace (last s)) \<Longrightarrow> py_strip s = s"
  unfolding py_strip_def
  by (auto simp: dropWhile_hd hd_rev)

lemma last_digit: "list_all is_digit s \<Longrightarrow> s \<noteq> [] \<Longrightarrow> is_digit (last s)"
  by (induction s) auto

lemma py_int_py_str_int: "py_int (py_str_int i) = Inr i"
proof -
  let ?s = "nat_digits (nat \<bar>i\<bar>)"
  have ds: "list_all is_digit ?s" by (rule nat_digits_digits)
  have ne: "?s \<noteq> []" by (rule nat_digits_not_Nil)
  obtain c r where cr: "?s = c # r" using ne by (cases ?s) auto
  with ds have c: "is_digit c" by simp
  have l: "\<not> py_isspace (last ?s)" using last_digit [OF ds ne] by (rule digit_not_space)
  have m: "\<not> py_isspace CHR ''-''" by (simp add: py_simps)
  show ?thesis
  proof (cases "i < 0")
    case True
    have "py_strip (CHR ''-'' # ?s) = CHR ''-'' # ?s"
      by (rule py_strip_id) (simp add: m l ne)
    with True show ?thesis
      by (simp add: py_int_def py_str_int_def sign_split_def digits_ok_nat_digits digits_nat_nat_digits)
  next
    case False
    have h: "\<not> py_isspace (hd ?s)" using cr c digit_not_space by simp
    have "py_strip ?s = ?s"
      by (rule py_strip_id) (simp add: h l)
    moreover have "sign_split ?s = (1, ?s)" using cr c digit_not_sign by (simp add: sign_split_def)
    ultimately show ?thesis using False
      by (simp add: py_int_def py_str_int_def digits_ok_nat_digits digits_nat_nat_digits)
  qed
qed

lemma py_strip_pad:
  assumes "\<forall>c\<in>set ws1. py_isspace c" and "\<forall>c\<in>set ws2. py_isspace c"
  shows "py_strip (ws1 @ s @ ws2) = py_strip s"
proof -
  have a: "dropWhile py_isspace (ws1 @ s @ ws2) = dropWhile py_isspace (s @ ws2)"
    using assms(1) by (simp add: dropWhile_append2)
  show ?thesis
  proof (cases "\<forall>c\<in>set s. py_isspace c")
    case True
    with assms(2) have d: "dropWhile py_isspace s = []" "dropWhile py_isspace (s @ ws2) = []"
      by (simp_all add: dropWhile_eq_Nil_conv)
    show ?thesis unfolding py_strip_def a d by simp
  next
    case False
    then obtain c where "c \<in> set s" "\<not> py_isspace c" by blast
    then have "dropWhile py_isspace (s @ ws2) = dropWhile py_isspace s @ ws2"
      by (rule dropWhile_append1)
    moreover have "dropWhile py_isspace (rev ws2 @ X) = dropWhile py_isspace X" for X
      by (rule dropWhile_append2) (use assms(2) in simp)
    ultimately show ?thesis by (simp add: py_strip_def a)
  qed
qed

lemma py_round1_small: "0 \<le> x \<Longrightarrow> x < 1/20 \<Longrightarrow> py_round1 x = 0"
proof -
  assume x: "0 \<le> x" "x < 1/20"
  obtain k where k: "py_round1 x = of_int k / 10" using py_round1_tenths by blast
  have "\<bar>of_int k / 10 - x\<bar> \<le> 1/20" using py_round1_near [of x] k by simp
  then have "of_int k / 10 - x \<le> 1/20" "- (of_int k / 10 - x) \<le> 1/20"
    by (simp_all only: abs_le_iff)
  with x have "- 1 < real_of_int k" "real_of_int k < 1" by linarith+
  then have "k = 0" by simp
  with k show ?thesis by simp
qed

lemma py_int_pad:
  "\<forall>c\<in>set ws1. py_isspace c \<Longrightarrow> \<forall>c\<in>set ws2. py_isspace c \<Longrightarrow> py_int (ws1 @ s @ ws2) = py_int s"
  by (simp add: py_int_def py_strip_pad)

lemma py_str_int_inj:
  assumes "py_str_int a = py_str_int b" shows "a = b"
proof -
  have "(Inr a :: int result) = Inr b" by (metis assms py_int_py_str_int)
  then show ?thesis by simp
qed


section \<open>Lemmas: exception specifications\<close>

lemma res_raises_Inr [raises_intros]: "res_raises S (Inr x)"
  by (simp add: res_raises_def)

lemma res_raises_rbind [raises_intros]:
  "res_raises S r \<Longrightarrow> (\<And>x. res_raises S (f x)) \<Longrightarrow> res_raises S (rbind r f)"
  by (cases r) (simp_all add: res_raises_def rbind_def)

lemma res_raises_if [raises_intros]:
  "res_raises S a \<Longrightarrow> res_raises S b \<Longrightarrow> res_raises S (if c then a else b)"
  by simp

lemma res_raises_py_int [raises_intros]: "S ValueError \<Longrightarrow> res_raises S (py_int s)"
  by (auto simp: res_raises_def dest: py_int_error)

lemma res_raises_py_float [raises_intros]: "S ValueError \<Longrightarrow> res_raises S (py_float s)"
  by (auto simp: res_raises_def dest: py_float_error)

lemma res_raises_py_index [raises_intros]: "S IndexError \<Longrightarrow> res_raises S (py_index xs i)"
  by (simp add: res_raises_def py_index_def)

lemma res_raises_py_index_neg [raises_intros]: "S IndexError \<Longrightarrow> res_raises S (py_index_neg xs i)"
  by (simp add: res_raises_def py_index_neg_def)

lemma res_raises_py_map_int [raises_intros]: "S ValueError \<Longrightarrow> res_raises S (py_map_int ts)"
  by (induction ts) (simp_all add: res_raises_Inr res_raises_rbind res_raises_py_int)

end
