(* ===== verification/OsWorld.thy ===== *)
theory OsWorld
  imports Prelude
begin

text \<open>
  The operating system as the agent sees it. Every interaction of the agent with the
  machine is one of six primitives: reading a whole file (\<open>open(p).read()\<close>), listing the
  paths that match a glob pattern (\<open>glob.glob\<close>), running a diagnostic tool with a
  timeout (\<open>subprocess.run\<close>), reading the wall clock (\<open>time.time\<close>), sleeping
  (\<open>time.sleep\<close>) and querying file-system statistics (\<open>os.statvfs\<close>). None of them
  writes. The world answers the \<open>k\<close>-th interaction from the state of the machine at
  logical instant \<open>k\<close>: the fields \<open>fs_at\<close>, \<open>cmd_at\<close>, \<open>clock_at\<close> and \<open>statvfs_at\<close>
  say what the machine shows at each instant, \<open>tick\<close> counts the interactions so far and
  \<open>io_log\<close> records them in order. Two reads of the same file therefore may differ, as
  two reads of \<open>/proc/stat\<close> a tenth of a second apart do.

  An operation of the agent is a function \<open>'a io\<close> from the world to a result (an
  exception or a value) and the world after it: the exception and state monad of the
  Python code, with \<open>io_bind\<close> for sequencing and \<open>io_catch\<close> for \<open>try\<close>/\<open>except\<close>.
  The predicate \<open>io_ok\<close> says an operation only advances the clock and appends to the
  log; \<open>io_events\<close> is the part of the log an operation appends.
\<close>

named_theorems io_ok_intros "closure rules of the frame predicate"

datatype cmd_outcome =
    CmdNotFound
  | CmdTimeout
  | CmdSpawnError
  | CmdExit int string

record statvfs_result =
  f_blocks :: nat
  f_bfree :: nat
  f_frsize :: nat

datatype io_event =
    ReadFile string
  | GlobPaths string
  | RunCmd "string list" nat
  | Sleep real
  | TimeNow
  | StatVfs string

record world =
  tick :: nat
  fs_at :: "nat \<Rightarrow> (string \<times> string option) list"
  cmd_at :: "nat \<Rightarrow> string list \<Rightarrow> cmd_outcome"
  clock_at :: "nat \<Rightarrow> real"
  statvfs_at :: "nat \<Rightarrow> string \<Rightarrow> statvfs_result option"
  io_log :: "io_event list"

type_synonym 'a io = "world \<Rightarrow> 'a result \<times> world"

section \<open>The exception and state monad\<close>

definition io_return :: "'a \<Rightarrow> 'a io" where
  "io_return x w = (Inr x, w)"

definition io_raise :: "py_error \<Rightarrow> 'a io" where
  "io_raise e w = (Inl e, w)"

definition io_lift :: "'a result \<Rightarrow> 'a io" where
  "io_lift r w = (r, w)"

definition io_bind :: "'a io \<Rightarrow> ('a \<Rightarrow> 'b io) \<Rightarrow> 'b io" where
  "io_bind m f w = (case m w of (Inl e, w') \<Rightarrow> (Inl e, w') | (Inr x, w') \<Rightarrow> f x w')"

text \<open>\<open>try: m except E: h\<close>, where \<open>P\<close> says which exceptions the clause names.\<close>

definition io_catch :: "'a io \<Rightarrow> (py_error \<Rightarrow> bool) \<Rightarrow> 'a io \<Rightarrow> 'a io" where
  "io_catch m P h w = (case m w of (Inl e, w') \<Rightarrow> if P e then h w' else (Inl e, w') | r \<Rightarrow> r)"

definition io_map :: "('a \<Rightarrow> 'b) \<Rightarrow> 'a io \<Rightarrow> 'b io" where
  "io_map f m = io_bind m (\<lambda>x. io_return (f x))"

section \<open>The primitives\<close>

text \<open>One interaction: the answer is read at the current instant, then the clock
  advances and the interaction is logged.\<close>

definition advance :: "world \<Rightarrow> io_event \<Rightarrow> world" where
  "advance w ev = w\<lparr>tick := Suc (tick w), io_log := io_log w @ [ev]\<rparr>"

definition io_effect :: "io_event \<Rightarrow> (world \<Rightarrow> 'a result) \<Rightarrow> 'a io" where
  "io_effect ev f w = (f w, advance w ev)"

text \<open>\<open>with open(p) as f: f.read()\<close>: a path that does not exist or cannot be read
  raises \<open>OSError\<close>.\<close>

definition read_at :: "world \<Rightarrow> nat \<Rightarrow> string \<Rightarrow> string result" where
  "read_at w k p = (case map_of (fs_at w k) p of Some (Some c) \<Rightarrow> Inr c | _ \<Rightarrow> Inl OSError)"

definition file_at :: "world \<Rightarrow> string \<Rightarrow> string result" where
  "file_at w p = read_at w (tick w) p"

definition read_file :: "string \<Rightarrow> string io" where
  "read_file p = io_effect (ReadFile p) (\<lambda>w. file_at w p)"

text \<open>Glob patterns with \<open>*\<close>, the only wildcard the agent uses: it matches any run of
  characters within one path component.\<close>

fun glob_match :: "string \<Rightarrow> string \<Rightarrow> bool" where
  "glob_match [] s \<longleftrightarrow> s = []"
| "glob_match (p # ps) s \<longleftrightarrow>
     (if p = CHR ''*''
      then glob_match ps s \<or> (case s of [] \<Rightarrow> False | c # cs \<Rightarrow> c \<noteq> CHR ''/'' \<and> glob_match (p # ps) cs)
      else (case s of [] \<Rightarrow> False | c # cs \<Rightarrow> c = p \<and> glob_match ps cs))"

text \<open>\<open>glob.glob(pat)\<close>: the existing paths that match, each once, in directory order.\<close>

definition glob :: "string \<Rightarrow> string list io" where
  "glob pat = io_effect (GlobPaths pat)
     (\<lambda>w. Inr (remdups (filter (glob_match pat) (map fst (fs_at w (tick w))))))"

text \<open>\<open>subprocess.run(argv, capture_output=True, text=True, timeout=t)\<close>: a missing
  binary raises \<open>FileNotFoundError\<close>, an expired timeout \<open>TimeoutExpired\<close>, another
  failure to start the process \<open>OSError\<close>; otherwise the exit status and the output.\<close>

definition cmd_result :: "cmd_outcome \<Rightarrow> (int \<times> string) result" where
  "cmd_result c = (case c of
       CmdNotFound \<Rightarrow> Inl FileNotFound
     | CmdTimeout \<Rightarrow> Inl TimeoutExpired
     | CmdSpawnError \<Rightarrow> Inl OSError
     | CmdExit rc out \<Rightarrow> Inr (rc, out))"

definition run_cmd :: "string list \<Rightarrow> nat \<Rightarrow> (int \<times> string) io" where
  "run_cmd argv t = io_effect (RunCmd argv t) (\<lambda>w. cmd_result (cmd_at w (tick w) argv))"

definition time_time :: "real io" where
  "time_time = io_effect TimeNow (\<lambda>w. Inr (clock_at w (tick w)))"

definition time_sleep :: "real \<Rightarrow> unit io" where
  "time_sleep d = io_effect (Sleep d) (\<lambda>w. Inr ())"

definition os_statvfs :: "string \<Rightarrow> statvfs_result io" where
  "os_statvfs p = io_effect (StatVfs p)
     (\<lambda>w. case statvfs_at w (tick w) p of None \<Rightarrow> Inl OSError | Some st \<Rightarrow> Inr st)"

section \<open>Frame and log\<close>

text \<open>\<open>same_env w w'\<close>: the machine the two worlds describe is the same one.\<close>

definition same_env :: "world \<Rightarrow> world \<Rightarrow> bool" where
  "same_env w w' \<longleftrightarrow> fs_at w' = fs_at w \<and> cmd_at w' = cmd_at w \<and> clock_at w' = clock_at w
     \<and> statvfs_at w' = statvfs_at w"

definition io_ok :: "'a io \<Rightarrow> bool" where
  "io_ok m \<longleftrightarrow> (\<forall>w. same_env w (snd (m w)) \<and>
     (\<exists>evs. io_log (snd (m w)) = io_log w @ evs \<and> tick (snd (m w)) = tick w + length evs))"

definition io_events :: "'a io \<Rightarrow> world \<Rightarrow> io_event list" where
  "io_events m w = drop (length (io_log w)) (io_log (snd (m w)))"

definition io_all :: "(io_event \<Rightarrow> bool) \<Rightarrow> 'a io \<Rightarrow> bool" where
  "io_all P m \<longleftrightarrow> io_ok m \<and> (\<forall>w. list_all P (io_events m w))"

text \<open>Postconditions, in the manner of a partial-correctness Hoare triple: from every
  machine satisfying \<open>E\<close>, a value the operation returns satisfies \<open>Q\<close>. \<open>E\<close> speaks
  of the machine's oracles only (\<open>env_inv\<close>), so it still holds after any operation
  that keeps the environment, and postconditions compose along \<open>io_bind\<close>.\<close>

definition env_inv :: "(world \<Rightarrow> bool) \<Rightarrow> bool" where
  "env_inv E \<longleftrightarrow> (\<forall>w w'. E w \<longrightarrow> same_env w w' \<longrightarrow> E w')"

definition io_post :: "(world \<Rightarrow> bool) \<Rightarrow> ('a \<Rightarrow> bool) \<Rightarrow> 'a io \<Rightarrow> bool" where
  "io_post E Q m \<longleftrightarrow> (\<forall>w x. E w \<longrightarrow> fst (m w) = Inr x \<longrightarrow> Q x)"

text \<open>\<open>io_raises S m\<close>: every exception \<open>m\<close> lets out, from any machine, is in the
  class \<open>S\<close>: the exception specification of an operation.\<close>

definition io_raises :: "(py_error \<Rightarrow> bool) \<Rightarrow> 'a io \<Rightarrow> bool" where
  "io_raises S m \<longleftrightarrow> (\<forall>w e. fst (m w) = Inl e \<longrightarrow> S e)"

section \<open>Lemmas: the frame, the log\<close>

lemma io_ok_return [io_ok_intros]: "io_ok (io_return x)"
  by (auto simp: io_ok_def io_return_def same_env_def)

lemma io_ok_raise [io_ok_intros]: "io_ok (io_raise e)"
  by (auto simp: io_ok_def io_raise_def same_env_def)

lemma io_ok_lift [io_ok_intros]: "io_ok (io_lift r)"
  by (auto simp: io_ok_def io_lift_def same_env_def)

lemma io_ok_effect [io_ok_intros]: "io_ok (io_effect ev f)"
  by (auto simp: io_ok_def io_effect_def advance_def same_env_def)

lemma io_okD:
  assumes "io_ok m"
  obtains evs where "same_env w (snd (m w))" "io_log (snd (m w)) = io_log w @ evs"
    "tick (snd (m w)) = tick w + length evs"
  using assms unfolding io_ok_def by blast

lemma same_env_trans: "same_env w1 w2 \<Longrightarrow> same_env w2 w3 \<Longrightarrow> same_env w1 w3"
  by (simp add: same_env_def)

lemma io_ok_bind [io_ok_intros]:
  assumes m: "io_ok m" and f: "\<And>x. io_ok (f x)"
  shows "io_ok (io_bind m f)"
  unfolding io_ok_def
proof
  fix w
  obtain r w1 where mw: "m w = (r, w1)" by (cases "m w")
  from m obtain evs where e1: "same_env w w1" "io_log w1 = io_log w @ evs" "tick w1 = tick w + length evs"
    by (rule io_okD [where w = w]) (simp add: mw)
  show "same_env w (snd (io_bind m f w)) \<and>
    (\<exists>evs. io_log (snd (io_bind m f w)) = io_log w @ evs \<and> tick (snd (io_bind m f w)) = tick w + length evs)"
  proof (cases r)
    case (Inl e)
    with mw e1 show ?thesis by (auto simp: io_bind_def)
  next
    case (Inr x)
    from f obtain evs2 where e2: "same_env w1 (snd (f x w1))" "io_log (snd (f x w1)) = io_log w1 @ evs2"
        "tick (snd (f x w1)) = tick w1 + length evs2"
      by (rule io_okD)
    with Inr mw e1 show ?thesis
      by (auto simp: io_bind_def intro: same_env_trans intro!: exI [of _ "evs @ evs2"])
  qed
qed

lemma io_ok_catch [io_ok_intros]:
  assumes m: "io_ok m" and h: "io_ok h"
  shows "io_ok (io_catch m P h)"
  unfolding io_ok_def
proof
  fix w
  obtain r w1 where mw: "m w = (r, w1)" by (cases "m w")
  from m obtain evs where e1: "same_env w w1" "io_log w1 = io_log w @ evs" "tick w1 = tick w + length evs"
    by (rule io_okD [where w = w]) (simp add: mw)
  show "same_env w (snd (io_catch m P h w)) \<and>
    (\<exists>evs. io_log (snd (io_catch m P h w)) = io_log w @ evs \<and> tick (snd (io_catch m P h w)) = tick w + length evs)"
  proof (cases "\<exists>e. r = Inl e \<and> P e")
    case True
    from h obtain evs2 where e2: "same_env w1 (snd (h w1))" "io_log (snd (h w1)) = io_log w1 @ evs2"
        "tick (snd (h w1)) = tick w1 + length evs2"
      by (rule io_okD)
    with True mw e1 show ?thesis
      by (auto simp: io_catch_def intro: same_env_trans intro!: exI [of _ "evs @ evs2"])
  next
    case False
    with mw e1 show ?thesis by (cases r) (auto simp: io_catch_def)
  qed
qed

lemma io_ok_if [io_ok_intros]: "io_ok a \<Longrightarrow> io_ok b \<Longrightarrow> io_ok (if c then a else b)"
  by simp

lemma io_ok_case_prod [io_ok_intros]: "(\<And>x y. io_ok (f x y)) \<Longrightarrow> io_ok (case_prod f p)"
  by (cases p) simp

lemma io_ok_case_option [io_ok_intros]:
  "io_ok a \<Longrightarrow> (\<And>x. io_ok (f x)) \<Longrightarrow> io_ok (case_option a f r)"
  by (cases r) simp_all

lemma io_ok_read_file [io_ok_intros]: "io_ok (read_file p)"
  by (simp add: read_file_def io_ok_effect)

lemma io_ok_glob [io_ok_intros]: "io_ok (glob p)"
  by (simp add: glob_def io_ok_effect)

lemma io_ok_run_cmd [io_ok_intros]: "io_ok (run_cmd argv t)"
  by (simp add: run_cmd_def io_ok_effect)

lemma io_ok_time_time [io_ok_intros]: "io_ok time_time"
  by (simp add: time_time_def io_ok_effect)

lemma io_ok_time_sleep [io_ok_intros]: "io_ok (time_sleep d)"
  by (simp add: time_sleep_def io_ok_effect)

lemma io_ok_os_statvfs [io_ok_intros]: "io_ok (os_statvfs p)"
  by (simp add: os_statvfs_def io_ok_effect)

lemma io_ok_map [io_ok_intros]: "io_ok m \<Longrightarrow> io_ok (io_map f m)"
  unfolding io_map_def by (intro io_ok_intros)

lemma io_events_effect [simp]: "io_events (io_effect ev f) w = [ev]"
  by (simp add: io_events_def io_effect_def advance_def)

lemma io_events_return [simp]: "io_events (io_return x) w = []"
  by (simp add: io_events_def io_return_def)

lemma io_events_raise [simp]: "io_events (io_raise e) w = []"
  by (simp add: io_events_def io_raise_def)

lemma io_events_lift [simp]: "io_events (io_lift r) w = []"
  by (simp add: io_events_def io_lift_def)

lemma io_events_bind:
  assumes "io_ok m" and "\<And>x. io_ok (f x)"
  shows "io_events (io_bind m f) w = io_events m w @
    (case fst (m w) of Inl e \<Rightarrow> [] | Inr x \<Rightarrow> io_events (f x) (snd (m w)))"
proof -
  obtain r w1 where mw: "m w = (r, w1)" by (cases "m w")
  from assms(1) obtain evs where e1: "io_log w1 = io_log w @ evs"
    by (rule io_okD [where w = w]) (simp add: mw)
  show ?thesis
  proof (cases r)
    case (Inl e)
    with mw e1 show ?thesis by (simp add: io_events_def io_bind_def)
  next
    case (Inr x)
    from assms(2) obtain evs2 where e2: "io_log (snd (f x w1)) = io_log w1 @ evs2"
      by (rule io_okD)
    with Inr mw e1 show ?thesis
      by (simp add: io_events_def io_bind_def)
  qed
qed

lemma io_events_catch:
  assumes "io_ok m" and "io_ok h"
  shows "io_events (io_catch m P h) w = io_events m w @
    (case fst (m w) of Inl e \<Rightarrow> if P e then io_events h (snd (m w)) else [] | Inr x \<Rightarrow> [])"
proof -
  obtain r w1 where mw: "m w = (r, w1)" by (cases "m w")
  from assms(1) obtain evs where e1: "io_log w1 = io_log w @ evs"
    by (rule io_okD [where w = w]) (simp add: mw)
  from assms(2) obtain evs2 where e2: "io_log (snd (h w1)) = io_log w1 @ evs2"
    by (rule io_okD)
  show ?thesis
    using mw e1 e2 by (cases r) (simp_all add: io_events_def io_catch_def)
qed

subsection \<open>Glob patterns\<close>

text \<open>The equation for a non-empty pattern unfolds forever on a string that is not
  known; it is replaced by one rule per shape of pattern and string.\<close>

declare glob_match.simps(2) [simp del]

lemma glob_match_star_Nil [simp]: "glob_match (CHR ''*'' # q) [] \<longleftrightarrow> glob_match q []"
  by (simp add: glob_match.simps(2))

lemma glob_match_star_Cons [simp]:
  "glob_match (CHR ''*'' # q) (c # cs) \<longleftrightarrow>
     glob_match q (c # cs) \<or> (c \<noteq> CHR ''/'' \<and> glob_match (CHR ''*'' # q) cs)"
  by (simp add: glob_match.simps(2))

lemma glob_match_lit_Nil [simp]: "p \<noteq> CHR ''*'' \<Longrightarrow> \<not> glob_match (p # ps) []"
  by (simp add: glob_match.simps(2))

lemma glob_match_lit_Cons [simp]:
  "p \<noteq> CHR ''*'' \<Longrightarrow> glob_match (p # ps) (c # cs) \<longleftrightarrow> c = p \<and> glob_match ps cs"
  by (simp add: glob_match.simps(2))

lemma glob_match_lit:
  "CHR ''*'' \<notin> set p \<Longrightarrow> glob_match (p @ r) s \<longleftrightarrow> (\<exists>s'. s = p @ s' \<and> glob_match r s')"
proof (induction p arbitrary: s)
  case Nil
  then show ?case by simp
next
  case (Cons a p)
  then show ?case by (cases s) auto
qed

lemma glob_match_star:
  "glob_match (CHR ''*'' # q) s \<longleftrightarrow> (\<exists>x y. s = x @ y \<and> CHR ''/'' \<notin> set x \<and> glob_match q y)"
proof (induction s)
  case Nil
  then show ?case by simp
next
  case (Cons c cs)
  show ?case
  proof
    assume "glob_match (CHR ''*'' # q) (c # cs)"
    then have "glob_match q (c # cs) \<or> (c \<noteq> CHR ''/'' \<and> glob_match (CHR ''*'' # q) cs)" by simp
    then show "\<exists>x y. c # cs = x @ y \<and> CHR ''/'' \<notin> set x \<and> glob_match q y"
    proof
      assume "glob_match q (c # cs)"
      then have "c # cs = [] @ (c # cs) \<and> CHR ''/'' \<notin> set [] \<and> glob_match q (c # cs)" by simp
      then show ?thesis by blast
    next
      assume "c \<noteq> CHR ''/'' \<and> glob_match (CHR ''*'' # q) cs"
      with Cons.IH obtain x y where "cs = x @ y" "CHR ''/'' \<notin> set x" "glob_match q y" by blast
      with \<open>c \<noteq> CHR ''/'' \<and> _\<close>
      have "c # cs = (c # x) @ y \<and> CHR ''/'' \<notin> set (c # x) \<and> glob_match q y" by auto
      then show ?thesis by blast
    qed
  next
    assume "\<exists>x y. c # cs = x @ y \<and> CHR ''/'' \<notin> set x \<and> glob_match q y"
    then obtain x y where xy: "c # cs = x @ y" "CHR ''/'' \<notin> set x" "glob_match q y" by blast
    show "glob_match (CHR ''*'' # q) (c # cs)"
    proof (cases x)
      case Nil
      with xy have "glob_match q (c # cs)" by simp
      then show ?thesis by simp
    next
      case (Cons c' x')
      with xy have "c \<noteq> CHR ''/''" "cs = x' @ y" "CHR ''/'' \<notin> set x'" by auto
      with xy(3) Cons.IH show ?thesis by auto
    qed
  qed
qed

lemma glob_match_plain: "CHR ''*'' \<notin> set q \<Longrightarrow> glob_match q s \<longleftrightarrow> s = q"
  using glob_match_lit [of q "[]" s] by simp

subsection \<open>Advancing the clock\<close>

lemma run_cmd_eq: "run_cmd argv t w = (cmd_result (cmd_at w (tick w) argv), advance w (RunCmd argv t))"
  by (simp add: run_cmd_def io_effect_def)

lemma glob_eq:
  "glob pat w = (Inr (remdups (filter (glob_match pat) (map fst (fs_at w (tick w))))), advance w (GlobPaths pat))"
  by (simp add: glob_def io_effect_def)

lemma read_file_eq: "read_file p w = (file_at w p, advance w (ReadFile p))"
  by (simp add: read_file_def io_effect_def)

lemma file_at_advance [simp]: "file_at (advance w ev) p = read_at w (Suc (tick w)) p"
  by (simp add: file_at_def read_at_def advance_def)

lemma fs_at_advance [simp]: "fs_at (advance w ev) = fs_at w"
  by (simp add: advance_def)

lemma cmd_at_advance [simp]: "cmd_at (advance w ev) = cmd_at w"
  by (simp add: advance_def)

lemma clock_at_advance [simp]: "clock_at (advance w ev) = clock_at w"
  by (simp add: advance_def)

lemma statvfs_at_advance [simp]: "statvfs_at (advance w ev) = statvfs_at w"
  by (simp add: advance_def)

lemma file_at_error: "file_at w p = Inl e \<Longrightarrow> e = OSError"
  by (simp add: file_at_def read_at_def split: option.splits)


lemma tick_advance [simp]: "tick (advance w ev) = Suc (tick w)"
  by (simp add: advance_def)

lemma io_log_advance [simp]: "io_log (advance w ev) = io_log w @ [ev]"
  by (simp add: advance_def)

lemma same_env_advance [simp]: "same_env w (advance w ev)"
  by (simp add: advance_def same_env_def)

text \<open>Reading a file and parsing its text: the result is the parse of what the file
  holds at the current instant, and the world has advanced by the one read.\<close>

lemma read_then_lift:
  "io_bind (read_file p) (\<lambda>s. io_lift (f s)) w = (rbind (file_at w p) f, advance w (ReadFile p))"
  by (simp add: io_bind_def read_file_def io_effect_def io_lift_def rbind_def split: sum.split)

lemma io_map_effect:
  "io_map g (io_effect ev f) w = (case f w of Inl e \<Rightarrow> Inl e | Inr x \<Rightarrow> Inr (g x), advance w ev)"
  by (simp add: io_map_def io_bind_def io_effect_def io_return_def split: sum.split)

text \<open>An operation that starts with an interaction logs that interaction first,
  whatever follows and whatever handler catches its failure.\<close>

lemma effect_event_first:
  assumes g: "\<And>x. io_ok (g x)" and h: "io_ok h"
  shows "ev \<in> set (io_events (io_catch (io_bind (io_effect ev f) g) P h) w)"
proof -
  have ok: "io_ok (io_bind (io_effect ev f) g)" using g by (intro io_ok_intros)
  have e1: "io_events (io_bind (io_effect ev f) g) w = [ev] @
      (case fst (io_effect ev f w) of Inl e \<Rightarrow> [] | Inr x \<Rightarrow> io_events (g x) (snd (io_effect ev f w)))"
    using io_events_bind [where m = "io_effect ev f" and f = g, OF io_ok_effect g] by simp
  have e2: "io_events (io_catch (io_bind (io_effect ev f) g) P h) w =
      io_events (io_bind (io_effect ev f) g) w @
      (case fst (io_bind (io_effect ev f) g w) of Inl e \<Rightarrow> if P e then io_events h (snd (io_bind (io_effect ev f) g w)) else []
       | Inr x \<Rightarrow> [])"
    by (rule io_events_catch [OF ok h])
  show ?thesis using e1 e2 by simp
qed

lemma io_all_ok: "io_all P m \<Longrightarrow> io_ok m"
  by (simp add: io_all_def)

lemma io_all_return [io_ok_intros]: "io_all P (io_return x)"
  by (simp add: io_all_def io_ok_return)

lemma io_all_raise [io_ok_intros]: "io_all P (io_raise e)"
  by (simp add: io_all_def io_ok_raise)

lemma io_all_lift [io_ok_intros]: "io_all P (io_lift r)"
  by (simp add: io_all_def io_ok_lift)

lemma io_all_effect [io_ok_intros]: "P ev \<Longrightarrow> io_all P (io_effect ev f)"
  by (simp add: io_all_def io_ok_effect)

lemma io_all_bind [io_ok_intros]:
  "io_all P m \<Longrightarrow> (\<And>x. io_all P (f x)) \<Longrightarrow> io_all P (io_bind m f)"
  unfolding io_all_def
  by (auto simp: io_events_bind io_ok_bind split: sum.split)

lemma io_all_catch [io_ok_intros]:
  "io_all P m \<Longrightarrow> io_all P h \<Longrightarrow> io_all P (io_catch m Q h)"
  unfolding io_all_def
  by (auto simp: io_events_catch io_ok_catch split: sum.split)

lemma io_all_if [io_ok_intros]: "io_all P a \<Longrightarrow> io_all P b \<Longrightarrow> io_all P (if c then a else b)"
  by simp

lemma io_all_case_prod [io_ok_intros]: "(\<And>x y. io_all P (f x y)) \<Longrightarrow> io_all P (case_prod f p)"
  by (cases p) simp

lemma io_all_case_option [io_ok_intros]:
  "io_all P a \<Longrightarrow> (\<And>x. io_all P (f x)) \<Longrightarrow> io_all P (case_option a f r)"
  by (cases r) simp_all

lemma io_all_map [io_ok_intros]: "io_all P m \<Longrightarrow> io_all P (io_map f m)"
  unfolding io_map_def by (intro io_ok_intros)

section \<open>Lemmas: postconditions\<close>

lemma io_postI: "(\<And>w x. E w \<Longrightarrow> fst (m w) = Inr x \<Longrightarrow> Q x) \<Longrightarrow> io_post E Q m"
  by (simp add: io_post_def)

lemma io_postD: "io_post E Q m \<Longrightarrow> E w \<Longrightarrow> fst (m w) = Inr x \<Longrightarrow> Q x"
  by (simp add: io_post_def)

lemma io_post_true: "io_post E (\<lambda>_. True) m"
  by (simp add: io_post_def)

lemma io_post_return: "Q x \<Longrightarrow> io_post E Q (io_return x)"
  by (simp add: io_post_def io_return_def)

lemma io_post_bind:
  assumes e: "env_inv E" and ok: "io_ok m" and pm: "io_post E P m"
    and pf: "\<And>x. P x \<Longrightarrow> io_post E Q (f x)"
  shows "io_post E Q (io_bind m f)"
proof (rule io_postI)
  fix w y
  assume ew: "E w" and r: "fst (io_bind m f w) = Inr y"
  obtain x w' where mw: "m w = (Inr x, w')"
    using r by (cases "m w" rule: prod.exhaust) (auto simp: io_bind_def split: sum.splits)
  from ok obtain evs where "same_env w (snd (m w))" by (rule io_okD)
  with mw e ew have ew': "E w'" by (auto simp: env_inv_def)
  from pm ew mw have "P x" by (auto dest: io_postD)
  moreover from r mw have "fst (f x w') = Inr y" by (simp add: io_bind_def)
  ultimately show "Q y" using pf ew' by (blast dest: io_postD)
qed

lemma io_post_weaken: "io_post F Q m \<Longrightarrow> (\<And>w. E w \<Longrightarrow> F w) \<Longrightarrow> io_post E Q m"
  unfolding io_post_def by blast

lemma io_post_bind_any:
  "env_inv E \<Longrightarrow> io_ok m \<Longrightarrow> (\<And>x. io_post E Q (f x)) \<Longrightarrow> io_post E Q (io_bind m f)"
  by (rule io_post_bind [OF _ _ io_post_true])

lemma env_inv_cmd: "env_inv (\<lambda>w. \<forall>k. P (cmd_at w k))"
  by (simp add: env_inv_def same_env_def)

lemma env_inv_fs: "env_inv (\<lambda>w. \<forall>k. P (fs_at w k))"
  by (simp add: env_inv_def same_env_def)

lemma env_inv_conj: "env_inv E \<Longrightarrow> env_inv F \<Longrightarrow> env_inv (\<lambda>w. E w \<and> F w)"
  unfolding env_inv_def by blast


section \<open>Lemmas: exception specifications\<close>

lemma io_raises_return [raises_intros]: "io_raises S (io_return x)"
  by (simp add: io_raises_def io_return_def)

lemma io_raises_lift [raises_intros]: "res_raises S r \<Longrightarrow> io_raises S (io_lift r)"
  by (simp add: io_raises_def res_raises_def io_lift_def)

lemma io_raises_bind [raises_intros]:
  assumes m: "io_raises S m" and f: "\<And>x. io_raises S (f x)"
  shows "io_raises S (io_bind m f)"
  unfolding io_raises_def
proof (intro allI impI)
  fix w e
  assume r: "fst (io_bind m f w) = Inl e"
  have mw: "fst (m w) = Inl e' \<Longrightarrow> S e'" for e' using m by (simp add: io_raises_def)
  have fw: "fst (f x w' ) = Inl e' \<Longrightarrow> S e'" for x w' e' using f by (simp add: io_raises_def)
  show "S e"
  proof (cases "m w" rule: prod.exhaust)
    case (Pair r1 w1)
    then show ?thesis
      using r mw fw by (cases r1) (auto simp: io_bind_def)
  qed
qed

lemma io_raises_catch [raises_intros]:
  assumes m: "io_raises (\<lambda>e. S e \<or> P e) m" and h: "io_raises S h"
  shows "io_raises S (io_catch m P h)"
  unfolding io_raises_def
proof (intro allI impI)
  fix w e
  assume r: "fst (io_catch m P h w) = Inl e"
  have mw: "fst (m w) = Inl e' \<Longrightarrow> S e' \<or> P e'" for e' using m by (simp add: io_raises_def)
  have hw: "fst (h w') = Inl e' \<Longrightarrow> S e'" for w' e' using h by (simp add: io_raises_def)
  show "S e"
  proof (cases "m w" rule: prod.exhaust)
    case (Pair r1 w1)
    then show ?thesis
      using r mw hw by (cases r1) (auto simp: io_catch_def split: if_splits)
  qed
qed

lemma io_raises_if [raises_intros]:
  "io_raises S a \<Longrightarrow> io_raises S b \<Longrightarrow> io_raises S (if c then a else b)"
  by simp

lemma io_raises_case_prod [raises_intros]:
  "(\<And>x y. io_raises S (f x y)) \<Longrightarrow> io_raises S (case_prod f p)"
  by (cases p) simp

lemma io_raises_case_option [raises_intros]:
  "io_raises S a \<Longrightarrow> (\<And>x. io_raises S (f x)) \<Longrightarrow> io_raises S (case_option a f r)"
  by (cases r) simp_all

lemma io_raises_map [raises_intros]: "io_raises S m \<Longrightarrow> io_raises S (io_map f m)"
  unfolding io_map_def by (rule io_raises_bind, assumption, rule io_raises_return)

lemma io_raises_read_file [raises_intros]: "S OSError \<Longrightarrow> io_raises S (read_file p)"
  by (simp add: io_raises_def read_file_eq file_at_def read_at_def split: option.split)

lemma io_raises_glob [raises_intros]: "io_raises S (glob p)"
  by (simp add: io_raises_def glob_eq)

lemma io_raises_time [raises_intros]: "io_raises S time_time" "io_raises S (time_sleep d)"
  by (simp_all add: io_raises_def time_time_def time_sleep_def io_effect_def)

lemma io_raises_statvfs [raises_intros]: "S OSError \<Longrightarrow> io_raises S (os_statvfs p)"
  by (simp add: io_raises_def os_statvfs_def io_effect_def split: option.split)

lemma io_raises_run_cmd [raises_intros]:
  "S FileNotFound \<Longrightarrow> S TimeoutExpired \<Longrightarrow> S OSError \<Longrightarrow> io_raises S (run_cmd argv t)"
  by (simp add: io_raises_def run_cmd_eq cmd_result_def split: cmd_outcome.split)

end
