(* ===== verification/Thermal.thy ===== *)
theory Thermal
  imports OsWorld
begin

text \<open>
  \<open>get_temperatures\<close> (lines 35--61). The thermal zones matching
  \<open>/sys/class/thermal/thermal_zone*/temp\<close> are read in sorted order; a zone whose file
  cannot be read or does not hold an integer is skipped, an empty one too; the others
  map the zone's directory name to milli-degrees divided by 1000. When no key contains
  \<open>gpu\<close> (case-insensitively), \<open>nvidia-smi\<close> is asked for temperatures with a 3 s timeout
  and each non-blank output line \<open>i\<close> becomes \<open>gpu{i}\<close>. The \<open>except\<close> around the tool
  names only \<open>FileNotFoundError\<close> and \<open>TimeoutExpired\<close>: a line that is not a number
  raises \<open>ValueError\<close> out of the reader. The result is an insertion-ordered dict, an
  association list. The lemmas show which keys come from where, that the GPU fallback
  guard holds for every key the zone loop produces under the kernel's naming, and the
  error paths.
\<close>

section \<open>Thermal zones\<close>

definition thermal_glob :: string where
  "thermal_glob = ''/sys/class/thermal/thermal_zone*/temp''"

text \<open>\<open>zone.split("/")[-2]\<close>, evaluated outside the \<open>try\<close>.\<close>

definition zone_name :: "string \<Rightarrow> string result" where
  "zone_name zone = py_index_neg (py_split_sep CHR ''/'' zone) 2"

text \<open>The body of the \<open>try\<close> for one zone: read, strip, and if non-empty store
  \<open>int(val) / 1000.0\<close>.\<close>

definition read_zone :: "(string \<times> real) list \<Rightarrow> string \<Rightarrow> string \<Rightarrow> (string \<times> real) list io" where
  "read_zone temps name zone =
     io_bind (read_file zone) (\<lambda>raw.
       let val = py_strip raw in
       if val \<noteq> [] then io_bind (io_lift (py_int val)) (\<lambda>n. io_return (dict_set temps name (of_int n / 1000)))
       else io_return temps)"

fun zones_loop :: "(string \<times> real) list \<Rightarrow> string list \<Rightarrow> (string \<times> real) list io" where
  "zones_loop temps [] = io_return temps"
| "zones_loop temps (zone # zones) =
     io_bind (io_lift (zone_name zone)) (\<lambda>name.
     io_bind (io_catch (read_zone temps name zone) (\<lambda>e. e = ValueError \<or> is_oserror e) (io_return temps))
       (\<lambda>temps'. zones_loop temps' zones))"

section \<open>The NVIDIA fallback\<close>

definition has_gpu_key :: "(string \<times> real) list \<Rightarrow> bool" where
  "has_gpu_key temps \<longleftrightarrow> list_ex (\<lambda>(k, v). py_in ''gpu'' (py_lower k)) temps"

definition nvidia_temp_argv :: "string list" where
  "nvidia_temp_argv = [''nvidia-smi'', ''--query-gpu=temperature.gpu'', ''--format=csv,noheader,nounits'']"

text \<open>\<open>for i, line in enumerate(stdout.strip().split("\n")): if line.strip():
  temps[f"gpu{i}"] = float(line.strip())\<close>; the index counts blank lines too.\<close>

fun gpu_temp_lines :: "(string \<times> real) list \<Rightarrow> nat \<Rightarrow> string list \<Rightarrow> (string \<times> real) list result" where
  "gpu_temp_lines temps i [] = Inr temps"
| "gpu_temp_lines temps i (line # lines) =
     (if py_strip line \<noteq> []
      then rbind (py_float (py_strip line)) (\<lambda>x.
             gpu_temp_lines (dict_set temps (''gpu'' @ py_str_int (int i)) x) (Suc i) lines)
      else gpu_temp_lines temps (Suc i) lines)"

definition gpu_temp_fallback :: "(string \<times> real) list \<Rightarrow> (string \<times> real) list io" where
  "gpu_temp_fallback temps =
     (if \<not> has_gpu_key temps
      then io_catch
             (io_bind (run_cmd nvidia_temp_argv 3) (\<lambda>(rc, out).
                if rc = 0 then io_lift (gpu_temp_lines temps 0 (py_split_sep CHR ''\<newline>'' (py_strip out)))
                else io_return temps))
             (\<lambda>e. e = FileNotFound \<or> e = TimeoutExpired) (io_return temps)
      else io_return temps)"

definition get_temperatures :: "(string \<times> real) list io" where
  "get_temperatures =
     io_bind (glob thermal_glob) (\<lambda>zones.
     io_bind (zones_loop [] (sort zones)) gpu_temp_fallback)"

section \<open>Machines for the scenarios\<close>

text \<open>\<open>na_world\<close>: no thermal zone, and \<open>nvidia-smi\<close> prints \<open>[N/A]\<close>.
  \<open>zone_world\<close>: one zone at 45.5 degrees, and \<open>nvidia-smi\<close> prints two readings around
  a blank line.\<close>

definition na_world :: world where
  "na_world = \<lparr>tick = 0, fs_at = (\<lambda>k. []),
     cmd_at = (\<lambda>k argv. if argv = nvidia_temp_argv then CmdExit 0 ''[N/A]\<newline>'' else CmdNotFound),
     clock_at = (\<lambda>k. 0), statvfs_at = (\<lambda>k p. None), io_log = []\<rparr>"

definition zone_world :: world where
  "zone_world = \<lparr>tick = 0,
     fs_at = (\<lambda>k. [(''/sys/class/thermal/thermal_zone0/temp'', Some ''45500\<newline>'')]),
     cmd_at = (\<lambda>k argv. if argv = nvidia_temp_argv then CmdExit 0 ''52\<newline>\<newline>48\<newline>'' else CmdNotFound),
     clock_at = (\<lambda>k. 0), statvfs_at = (\<lambda>k p. None), io_log = []\<rparr>"

section \<open>Lemmas\<close>

lemma thermal_glob_split: "thermal_glob = ''/sys/class/thermal/thermal_zone'' @ CHR ''*'' # ''/temp''"
  by (simp add: thermal_glob_def)

lemma glob_thermal:
  "glob_match thermal_glob p \<longleftrightarrow>
     (\<exists>x. p = ''/sys/class/thermal/thermal_zone'' @ x @ ''/temp'' \<and> CHR ''/'' \<notin> set x)"
proof -
  have h1: "CHR ''*'' \<notin> set ''/sys/class/thermal/thermal_zone''" and h2: "CHR ''*'' \<notin> set ''/temp''"
    by simp_all
  show ?thesis
    unfolding thermal_glob_split glob_match_lit [OF h1] glob_match_star glob_match_plain [OF h2]
    by blast
qed

lemma zone_name_thermal:
  "CHR ''/'' \<notin> set x \<Longrightarrow>
     zone_name (''/sys/class/thermal/thermal_zone'' @ x @ ''/temp'') = Inr (''thermal_zone'' @ x)"
  by (simp add: zone_name_def py_split_sep_append py_index_neg_def)

lemma read_zone_caught:
  "\<exists>t'. fst (io_catch (read_zone temps n z) (\<lambda>e. e = ValueError \<or> is_oserror e) (io_return temps) w) = Inr t'
     \<and> (t' = temps \<or> (\<exists>v. t' = dict_set temps n v))"
proof (cases "file_at w z")
  case (Inl e)
  then have "e = OSError" by (rule file_at_error)
  with Inl show ?thesis
    by (simp add: read_zone_def io_catch_def io_bind_def read_file_def io_effect_def io_return_def is_oserror_def)
next
  case (Inr raw)
  show ?thesis
  proof (cases "py_int (py_strip raw)")
    case (Inl e)
    then have "e = ValueError" by (rule py_int_error)
    with Inr Inl show ?thesis
      by (simp add: read_zone_def io_catch_def io_bind_def read_file_def io_effect_def io_return_def
          io_lift_def Let_def)
  next
    case (Inr n')
    with \<open>file_at w z = Inr raw\<close> show ?thesis
      by (auto simp: read_zone_def io_catch_def io_bind_def read_file_def io_effect_def io_return_def
          io_lift_def Let_def)
  qed
qed

lemma io_ok_read_zone [io_ok_intros]: "io_ok (read_zone temps n z)"
  unfolding read_zone_def Let_def by (intro io_ok_intros)

lemma io_ok_zones_loop [io_ok_intros]: "io_ok (zones_loop temps zs)"
proof (induction zs arbitrary: temps)
  case Nil
  then show ?case by (simp add: io_ok_return)
next
  case (Cons z zs)
  then show ?case by (simp only: zones_loop.simps) (intro io_ok_intros Cons.IH)
qed

lemma io_ok_gpu_temp_fallback [io_ok_intros]: "io_ok (gpu_temp_fallback temps)"
  unfolding gpu_temp_fallback_def by (intro io_ok_intros)

lemma zones_loop_keys:
  assumes "\<forall>z\<in>set zs. \<exists>n. zone_name z = Inr n"
  shows "\<exists>t. fst (zones_loop temps zs w) = Inr t \<and>
    set (map fst t) \<subseteq> set (map fst temps) \<union> {n. \<exists>z\<in>set zs. zone_name z = Inr n}"
  using assms
proof (induction zs arbitrary: temps w)
  case Nil
  then show ?case by (simp add: io_return_def)
next
  case (Cons z zs)
  then obtain n where n: "zone_name z = Inr n" by auto
  let ?c = "io_catch (read_zone temps n z) (\<lambda>e. e = ValueError \<or> is_oserror e) (io_return temps)"
  obtain t' where t': "fst (?c w) = Inr t'" and tk: "t' = temps \<or> (\<exists>v. t' = dict_set temps n v)"
    using read_zone_caught by blast
  have "fst ` set (dict_set temps n v) = insert n (fst ` set temps)" for v
    by (rule keys_dict_set_image)
  with tk have keys': "set (map fst t') \<subseteq> set (map fst temps) \<union> {n}"
    by auto
  obtain w' where cw: "?c w = (Inr t', w')" using t' by (cases "?c w") auto
  from Cons.prems Cons.IH [of t' w'] obtain t where
    t: "fst (zones_loop t' zs w') = Inr t" and
    kt: "set (map fst t) \<subseteq> set (map fst t') \<union> {n. \<exists>z\<in>set zs. zone_name z = Inr n}"
    by auto
  have "zones_loop temps (z # zs) w = zones_loop t' zs w'"
    using n cw by (simp add: io_bind_def io_lift_def)
  with t kt keys' n show ?case by auto
qed

lemma no_gpu_in_zone_name: "list_all is_digit ds \<Longrightarrow> \<not> py_in ''gpu'' (py_lower (''thermal_zone'' @ ds))"
proof
  assume d: "list_all is_digit ds" and g: "py_in ''gpu'' (py_lower (''thermal_zone'' @ ds))"
  from d have m: "map py_lower_char ds = ds" by (induction ds) (simp_all add: lower_digit)
  have "py_lower (''thermal_zone'' @ ds) = ''thermal_zone'' @ ds"
    by (simp add: py_lower_def m py_lower_char_def upper_letters_def lower_letters_def)
  with g have "CHR ''g'' \<in> set (''thermal_zone'' @ ds)" using py_in_hd by metis
  then have "CHR ''g'' \<in> set ds" by simp
  with d show False by (auto simp: list_all_iff is_digit_def decimal_digits_def)
qed

lemma digits_no_slash: "list_all is_digit ds \<Longrightarrow> CHR ''/'' \<notin> set ds"
  by (auto simp: list_all_iff is_digit_def decimal_digits_def)

text \<open>C14: On a machine whose thermal zones carry the kernel's names
  (\<open>thermal_zone\<close> and a number), \<open>get_temperatures\<close> always runs \<open>nvidia-smi\<close>: the
  guard "no key contains a GPU marker" never skips the fallback, because the keys are
  the zones' directory names, not their types.\<close>

theorem get_temperatures_queries_nvidia:
  assumes names: "\<forall>p\<in>set (map fst (fs_at w (tick w))). glob_match thermal_glob p \<longrightarrow>
      (\<exists>ds. p = ''/sys/class/thermal/thermal_zone'' @ ds @ ''/temp'' \<and> list_all is_digit ds)"
  shows "RunCmd nvidia_temp_argv 3 \<in> set (io_events get_temperatures w)"
proof -
  define zs where "zs = remdups (filter (glob_match thermal_glob) (map fst (fs_at w (tick w))))"
  define w1 where "w1 = advance w (GlobPaths thermal_glob)"
  have g: "glob thermal_glob w = (Inr zs, w1)" by (simp add: glob_def io_effect_def zs_def w1_def)
  have zn: "\<exists>ds. zone_name z = Inr (''thermal_zone'' @ ds) \<and> list_all is_digit ds"
    if "z \<in> set (sort zs)" for z
  proof -
    from that have "z \<in> set (map fst (fs_at w (tick w)))" "glob_match thermal_glob z"
      by (auto simp: zs_def)
    with names obtain ds where "z = ''/sys/class/thermal/thermal_zone'' @ ds @ ''/temp''"
        "list_all is_digit ds" by blast
    then show ?thesis using zone_name_thermal digits_no_slash by blast
  qed
  then have "\<forall>z\<in>set (sort zs). \<exists>n. zone_name z = Inr n" by blast
  from zones_loop_keys [OF this, of "[]" w1] obtain t where
    t: "fst (zones_loop [] (sort zs) w1) = Inr t" and
    kt: "set (map fst t) \<subseteq> {n. \<exists>z\<in>set (sort zs). zone_name z = Inr n}" by auto
  have nog: "\<not> has_gpu_key t"
  proof
    assume "has_gpu_key t"
    then obtain k v where kv: "(k, v) \<in> set t" and gk: "py_in ''gpu'' (py_lower k)"
      by (auto simp: has_gpu_key_def list_ex_iff)
    from kv have "k \<in> set (map fst t)" by force
    with kt obtain z where "z \<in> set (sort zs)" "zone_name z = Inr k" by auto
    with zn obtain ds where "k = ''thermal_zone'' @ ds" "list_all is_digit ds" by fastforce
    with gk no_gpu_in_zone_name show False by blast
  qed
  define w2 where "w2 = snd (zones_loop [] (sort zs) w1)"
  have run: "RunCmd nvidia_temp_argv 3 \<in> set (io_events (gpu_temp_fallback t) w2)"
    unfolding gpu_temp_fallback_def run_cmd_def using nog
    by (simp only: not_False_eq_True if_True) (intro effect_event_first io_ok_intros)
  have "io_events get_temperatures w = io_events (glob thermal_glob) w @
      (case fst (glob thermal_glob w) of Inl e \<Rightarrow> []
       | Inr x \<Rightarrow> io_events (io_bind (zones_loop [] (sort x)) gpu_temp_fallback) (snd (glob thermal_glob w)))"
    unfolding get_temperatures_def by (rule io_events_bind) (intro io_ok_intros)+
  then have e1: "io_events get_temperatures w =
      [GlobPaths thermal_glob] @ io_events (io_bind (zones_loop [] (sort zs)) gpu_temp_fallback) w1"
    using g by (simp add: glob_def)
  have e2: "io_events (io_bind (zones_loop [] (sort zs)) gpu_temp_fallback) w1 =
      io_events (zones_loop [] (sort zs)) w1 @ io_events (gpu_temp_fallback t) w2"
    using io_events_bind [OF io_ok_zones_loop io_ok_gpu_temp_fallback] t by (simp add: w2_def)
  show ?thesis using e1 e2 run by simp
qed

theorem get_temperatures_queries_nvidia_witness:
  "RunCmd nvidia_temp_argv 3 \<in> set (io_events get_temperatures zone_world)"
proof -
  have p: "''/sys/class/thermal/thermal_zone0/temp'' = ''/sys/class/thermal/thermal_zone'' @ ''0'' @ ''/temp''"
    by simp
  have d: "list_all is_digit ''0''" by (simp add: py_simps)
  have "\<forall>p\<in>set (map fst (fs_at zone_world (tick zone_world))). glob_match thermal_glob p \<longrightarrow>
      (\<exists>ds. p = ''/sys/class/thermal/thermal_zone'' @ ds @ ''/temp'' \<and> list_all is_digit ds)"
    using p d by (auto simp: zone_world_def)
  then show ?thesis by (rule get_temperatures_queries_nvidia)
qed

lemma get_temperatures_split:
  "\<exists>t w2. get_temperatures w = gpu_temp_fallback t w2 \<and> same_env w w2 \<and>
     (\<forall>k\<in>set (map fst t). \<exists>x. k = ''thermal_zone'' @ x \<and> CHR ''/'' \<notin> set x \<and>
        ''/sys/class/thermal/thermal_zone'' @ x @ ''/temp'' \<in> set (map fst (fs_at w (tick w))))"
proof -
  define zs where "zs = remdups (filter (glob_match thermal_glob) (map fst (fs_at w (tick w))))"
  define w1 where "w1 = advance w (GlobPaths thermal_glob)"
  have g: "glob thermal_glob w = (Inr zs, w1)" by (simp add: glob_eq zs_def w1_def)
  have zn: "\<exists>x. zone_name z = Inr (''thermal_zone'' @ x) \<and> CHR ''/'' \<notin> set x \<and>
      ''/sys/class/thermal/thermal_zone'' @ x @ ''/temp'' \<in> set (map fst (fs_at w (tick w)))"
    if "z \<in> set (sort zs)" for z
  proof -
    from that have z: "z \<in> set (map fst (fs_at w (tick w)))" "glob_match thermal_glob z"
      by (auto simp: zs_def)
    from z(2) obtain x where "z = ''/sys/class/thermal/thermal_zone'' @ x @ ''/temp''" "CHR ''/'' \<notin> set x"
      unfolding glob_thermal by blast
    with z zone_name_thermal show ?thesis by blast
  qed
  then have "\<forall>z\<in>set (sort zs). \<exists>n. zone_name z = Inr n" by blast
  from zones_loop_keys [OF this, of "[]" w1] obtain t where
    t: "fst (zones_loop [] (sort zs) w1) = Inr t" and
    kt: "set (map fst t) \<subseteq> {n. \<exists>z\<in>set (sort zs). zone_name z = Inr n}" by auto
  obtain w2 where zl: "zones_loop [] (sort zs) w1 = (Inr t, w2)"
    using t by (cases "zones_loop [] (sort zs) w1") auto
  have "get_temperatures w = gpu_temp_fallback t w2"
    by (simp add: get_temperatures_def io_bind_def g zl)
  moreover have "same_env w w2"
  proof -
    obtain evs where "same_env w1 (snd (zones_loop [] (sort zs) w1))"
      using io_ok_zones_loop by (rule io_okD)
    with zl have "same_env w1 w2" by simp
    then show ?thesis using same_env_trans [of w w1 w2] by (simp add: w1_def)
  qed
  moreover have "\<forall>k\<in>set (map fst t). \<exists>x. k = ''thermal_zone'' @ x \<and> CHR ''/'' \<notin> set x \<and>
      ''/sys/class/thermal/thermal_zone'' @ x @ ''/temp'' \<in> set (map fst (fs_at w (tick w)))"
  proof
    fix k assume "k \<in> set (map fst t)"
    with kt obtain z where z: "z \<in> set (sort zs)" "zone_name z = Inr k" by auto
    from zn [OF z(1)] obtain x where "zone_name z = Inr (''thermal_zone'' @ x)" "CHR ''/'' \<notin> set x"
      "''/sys/class/thermal/thermal_zone'' @ x @ ''/temp'' \<in> set (map fst (fs_at w (tick w)))" by blast
    with z(2) show "\<exists>x. k = ''thermal_zone'' @ x \<and> CHR ''/'' \<notin> set x \<and>
        ''/sys/class/thermal/thermal_zone'' @ x @ ''/temp'' \<in> set (map fst (fs_at w (tick w)))"
      by auto
  qed
  ultimately show ?thesis by blast
qed

lemma gpu_temp_fallback_no_tool:
  "cmd_at w (tick w) nvidia_temp_argv \<in> {CmdNotFound, CmdTimeout} \<Longrightarrow>
     fst (gpu_temp_fallback temps w) = Inr temps"
  by (auto simp: gpu_temp_fallback_def io_catch_def io_bind_def run_cmd_eq cmd_result_def io_return_def)

lemma get_temperatures_no_tool:
  "io_post (\<lambda>w. \<forall>k. cmd_at w k nvidia_temp_argv \<in> {CmdNotFound, CmdTimeout})
     (list_all (\<lambda>(k, v). py_startswith k ''thermal_zone'')) get_temperatures"
proof (rule io_postI)
  fix w t'
  assume c: "\<forall>k. cmd_at w k nvidia_temp_argv \<in> {CmdNotFound, CmdTimeout}"
    and r: "fst (get_temperatures w) = Inr t'"
  obtain t w2 where e: "get_temperatures w = gpu_temp_fallback t w2" and s: "same_env w w2" and
    k: "\<forall>k\<in>set (map fst t). \<exists>x. k = ''thermal_zone'' @ x \<and> CHR ''/'' \<notin> set x \<and>
        ''/sys/class/thermal/thermal_zone'' @ x @ ''/temp'' \<in> set (map fst (fs_at w (tick w)))"
    using get_temperatures_split by blast
  from s c have "cmd_at w2 (tick w2) nvidia_temp_argv \<in> {CmdNotFound, CmdTimeout}"
    by (simp add: same_env_def)
  then have "fst (gpu_temp_fallback t w2) = Inr t" by (rule gpu_temp_fallback_no_tool)
  with r e have "t' = t" by simp
  with k show "list_all (\<lambda>(k, v). py_startswith k ''thermal_zone'') t'"
    by (fastforce simp: list_all_iff py_startswith_def)
qed

lemma gpu_temp_lines_error:
  "\<exists>l\<in>set ls. py_strip l \<noteq> [] \<and> (\<forall>x. py_float (py_strip l) \<noteq> Inr x) \<Longrightarrow>
     gpu_temp_lines temps i ls = Inl ValueError"
proof (induction ls arbitrary: temps i)
  case Nil
  then show ?case by simp
next
  case (Cons line lines)
  show ?case
  proof (cases "py_strip line \<noteq> [] \<and> (\<forall>x. py_float (py_strip line) \<noteq> Inr x)")
    case True
    then obtain e where e: "py_float (py_strip line) = Inl e" by (cases "py_float (py_strip line)") auto
    then have "e = ValueError" by (rule py_float_error)
    with e True show ?thesis by (simp add: rbind_def)
  next
    case False
    with Cons.prems have l: "\<exists>l\<in>set lines. py_strip l \<noteq> [] \<and> (\<forall>x. py_float (py_strip l) \<noteq> Inr x)"
      by auto
    show ?thesis
    proof (cases "py_strip line = []")
      case True
      with Cons.IH [OF l] show ?thesis by simp
    next
      case nb: False
      with False obtain x where x: "py_float (py_strip line) = Inr x" by auto
      with nb Cons.IH [OF l] show ?thesis by (simp add: rbind_def)
    qed
  qed
qed

lemma gpu_temp_fallback_bad:
  "\<not> has_gpu_key t \<Longrightarrow> cmd_at w (tick w) nvidia_temp_argv = CmdExit 0 out \<Longrightarrow>
     gpu_temp_lines t 0 (py_split_sep CHR ''\<newline>'' (py_strip out)) = Inl ValueError \<Longrightarrow>
     fst (gpu_temp_fallback t w) = Inl ValueError"
  by (simp add: gpu_temp_fallback_def io_catch_def io_bind_def run_cmd_eq cmd_result_def io_lift_def)

text \<open>C23: A GPU tool that exits 0 but prints a line that is not a number (such as
  \<open>[N/A]\<close>) makes \<open>get_temperatures\<close> raise \<open>ValueError\<close> on every machine whose zones
  carry the kernel's names: the fallback runs, and its handler names only
  \<open>FileNotFoundError\<close> and \<open>TimeoutExpired\<close>, so the reader aborts instead of
  degrading.\<close>

theorem get_temperatures_bad_gpu_line:
  assumes names: "\<forall>p\<in>set (map fst (fs_at w (tick w))). glob_match thermal_glob p \<longrightarrow>
      (\<exists>ds. p = ''/sys/class/thermal/thermal_zone'' @ ds @ ''/temp'' \<and> list_all is_digit ds)"
    and cmd: "\<And>k. cmd_at w k nvidia_temp_argv = CmdExit 0 out"
    and bad: "\<exists>l\<in>set (py_split_sep CHR ''\<newline>'' (py_strip out)).
      py_strip l \<noteq> [] \<and> (\<forall>x. py_float (py_strip l) \<noteq> Inr x)"
  shows "fst (get_temperatures w) = Inl ValueError"
proof -
  obtain t w2 where e: "get_temperatures w = gpu_temp_fallback t w2" and s: "same_env w w2" and
    k: "\<forall>k\<in>set (map fst t). \<exists>x. k = ''thermal_zone'' @ x \<and> CHR ''/'' \<notin> set x \<and>
        ''/sys/class/thermal/thermal_zone'' @ x @ ''/temp'' \<in> set (map fst (fs_at w (tick w)))"
    using get_temperatures_split by blast
  have "\<not> has_gpu_key t"
  proof
    assume "has_gpu_key t"
    then obtain kk v where kv: "(kk, v) \<in> set t" and gk: "py_in ''gpu'' (py_lower kk)"
      by (auto simp: has_gpu_key_def list_ex_iff)
    from kv have "kk \<in> set (map fst t)" by force
    with k obtain x where x: "kk = ''thermal_zone'' @ x" "CHR ''/'' \<notin> set x"
      "''/sys/class/thermal/thermal_zone'' @ x @ ''/temp'' \<in> set (map fst (fs_at w (tick w)))" by blast
    from x(2) have "glob_match thermal_glob (''/sys/class/thermal/thermal_zone'' @ x @ ''/temp'')"
      unfolding glob_thermal by blast
    with names x(3) obtain ds where
      "''/sys/class/thermal/thermal_zone'' @ x @ ''/temp'' = ''/sys/class/thermal/thermal_zone'' @ ds @ ''/temp''"
      "list_all is_digit ds" by blast
    then have "x = ds" "list_all is_digit ds" by simp_all
    with x(1) gk no_gpu_in_zone_name show False by blast
  qed
  moreover from s cmd have "cmd_at w2 (tick w2) nvidia_temp_argv = CmdExit 0 out"
    by (simp add: same_env_def)
  moreover have "gpu_temp_lines t 0 (py_split_sep CHR ''\<newline>'' (py_strip out)) = Inl ValueError"
    using bad by (rule gpu_temp_lines_error)
  ultimately have "fst (gpu_temp_fallback t w2) = Inl ValueError" by (rule gpu_temp_fallback_bad)
  with e show ?thesis by simp
qed

theorem get_temperatures_bad_gpu_line_witness: "fst (get_temperatures na_world) = Inl ValueError"
proof (rule get_temperatures_bad_gpu_line)
  show "\<forall>p\<in>set (map fst (fs_at na_world (tick na_world))). glob_match thermal_glob p \<longrightarrow>
      (\<exists>ds. p = ''/sys/class/thermal/thermal_zone'' @ ds @ ''/temp'' \<and> list_all is_digit ds)"
    by (simp add: na_world_def)
  show "cmd_at na_world k nvidia_temp_argv = CmdExit 0 ''[N/A]\<newline>''" for k
    by (simp add: na_world_def)
  show "\<exists>l\<in>set (py_split_sep CHR ''\<newline>'' (py_strip ''[N/A]\<newline>'')).
      py_strip l \<noteq> [] \<and> (\<forall>x. py_float (py_strip l) \<noteq> Inr x)"
    by (simp add: py_simps)
qed

lemma gpu_temp_lines_ok:
  "list_all (\<lambda>l. py_strip l = [] \<or> (\<exists>x. py_float (py_strip l) = Inr x)) ls \<Longrightarrow>
     \<exists>t. gpu_temp_lines temps j ls = Inr t"
proof (induction ls arbitrary: temps j)
  case Nil
  then show ?case by simp
next
  case (Cons l ls)
  then have r: "list_all (\<lambda>l. py_strip l = [] \<or> (\<exists>x. py_float (py_strip l) = Inr x)) ls"
    and h: "py_strip l = [] \<or> (\<exists>x. py_float (py_strip l) = Inr x)" by simp_all
  show ?case
  proof (cases "py_strip l = []")
    case True
    with Cons.IH [OF r] show ?thesis by simp
  next
    case False
    with h obtain x where "py_float (py_strip l) = Inr x" by blast
    with False Cons.IH [OF r] show ?thesis by (simp add: rbind_def)
  qed
qed

lemma gpu_temp_lines_frame:
  "gpu_temp_lines temps j ls = Inr t \<Longrightarrow> (\<And>j'. j \<le> j' \<Longrightarrow> k \<noteq> ''gpu'' @ py_str_int (int j')) \<Longrightarrow>
     map_of t k = map_of temps k"
proof (induction ls arbitrary: temps j)
  case Nil
  then show ?case by simp
next
  case (Cons l ls)
  have k: "\<And>j'. Suc j \<le> j' \<Longrightarrow> k \<noteq> ''gpu'' @ py_str_int (int j')" using Cons.prems(2) by simp
  show ?case
  proof (cases "py_strip l = []")
    case True
    with Cons.prems(1) Cons.IH [OF _ k] show ?thesis by simp
  next
    case False
    with Cons.prems(1) obtain x where x: "py_float (py_strip l) = Inr x"
      by (cases "py_float (py_strip l)") (auto simp: rbind_def)
    with False Cons.prems(1)
    have "gpu_temp_lines (dict_set temps (''gpu'' @ py_str_int (int j)) x) (Suc j) ls = Inr t"
      by (simp add: rbind_def)
    from Cons.IH [OF this k] Cons.prems(2) [of j] show ?thesis by simp
  qed
qed

text \<open>C28: The GPU keys count every line of the tool's output, blank ones included: when
  every non-blank line is a number, the reading on line \<open>i\<close> (from 0) is stored under
  \<open>gpu{i}\<close>, whatever lines come before or after it.\<close>

theorem gpu_temp_lines_index:
  assumes all: "list_all (\<lambda>l. py_strip l = [] \<or> (\<exists>x. py_float (py_strip l) = Inr x)) ls"
    and i: "i < length ls" and nb: "py_strip (ls ! i) \<noteq> []" and x: "py_float (py_strip (ls ! i)) = Inr x"
  shows "\<exists>t. gpu_temp_lines temps 0 ls = Inr t \<and> map_of t (''gpu'' @ py_str_int (int i)) = Some x"
proof -
  have "\<exists>t. gpu_temp_lines temps j ls = Inr t \<and> map_of t (''gpu'' @ py_str_int (int (j + i))) = Some x"
    for j
    using all i nb x
  proof (induction ls arbitrary: temps j i)
    case Nil
    then show ?case by simp
  next
    case (Cons l ls)
    from Cons.prems(1) have rest: "list_all (\<lambda>l. py_strip l = [] \<or> (\<exists>x. py_float (py_strip l) = Inr x)) ls"
      by simp
    show ?case
    proof (cases i)
      case 0
      with Cons.prems have l: "py_strip l \<noteq> []" "py_float (py_strip l) = Inr x" by simp_all
      let ?d = "dict_set temps (''gpu'' @ py_str_int (int j)) x"
      obtain t where t: "gpu_temp_lines ?d (Suc j) ls = Inr t" using gpu_temp_lines_ok [OF rest] by blast
      have "map_of t (''gpu'' @ py_str_int (int j)) = map_of ?d (''gpu'' @ py_str_int (int j))"
        by (rule gpu_temp_lines_frame [OF t]) (auto dest: py_str_int_inj)
      with t l 0 show ?thesis by (simp add: rbind_def)
    next
      case (Suc i')
      with Cons.prems have p: "i' < length ls" "py_strip (ls ! i') \<noteq> []"
        "py_float (py_strip (ls ! i')) = Inr x" by simp_all
      show ?thesis
      proof (cases "py_strip l = []")
        case True
        from Cons.IH [OF rest p, of temps "Suc j"] True Suc show ?thesis by simp
      next
        case False
        with Cons.prems(1) obtain y where y: "py_float (py_strip l) = Inr y" by auto
        from Cons.IH [OF rest p, of "dict_set temps (''gpu'' @ py_str_int (int j)) y" "Suc j"] False y Suc
        show ?thesis by (simp add: rbind_def)
      qed
    qed
  qed
  from this [of 0] show ?thesis by simp
qed

theorem gpu_temp_lines_index_witness:
  "\<exists>t. gpu_temp_lines [] 0 [''52'', '''', ''48''] = Inr t \<and> map_of t (''gpu'' @ py_str_int (int 2)) = Some 48"
  by (rule gpu_temp_lines_index) (simp_all add: py_simps)

lemma res_raises_gpu_temp_lines [raises_intros]: "S ValueError \<Longrightarrow> res_raises S (gpu_temp_lines t i ls)"
  by (induction t i ls rule: gpu_temp_lines.induct) (simp_all add: raises_intros)

lemma io_raises_zones_loop [raises_intros]: "S IndexError \<Longrightarrow> io_raises S (zones_loop t zs)"
proof (induction t zs rule: zones_loop.induct)
  case (1 temps)
  then show ?case by (simp add: raises_intros)
next
  case (2 temps zone zones)
  then show ?case
    unfolding zones_loop.simps read_zone_def zone_name_def Let_def
    by (intro raises_intros) (simp_all add: is_oserror_def)
qed

end
