(* ===== verification/Gpu.thy ===== *)
theory Gpu
  imports OsWorld
begin

text \<open>
  \<open>get_gpu_percent\<close> (lines 114--136). First \<open>nvidia-smi\<close> is asked for the
  utilisation with a 3 s timeout: an exit status 0 with non-blank output returns the
  first line as a float. A missing tool or an expired timeout falls through, and so does
  a non-zero status or blank output; a first line that is not a number raises
  \<open>ValueError\<close>, which the handler does not name. Then the Jetson file
  \<open>/sys/devices/gpu.0/load\<close> is read, if it exists, and a non-blank value is divided by
  10; any \<open>ValueError\<close> or \<open>OSError\<close> in that second block gives \<open>None\<close>, as does a
  missing or blank file. The lemmas give the result on each branch: both sources
  missing gives \<open>None\<close>, the Jetson value is scaled, only a malformed tool output or a
  tool that cannot be started makes the reader raise.
\<close>

section \<open>NVIDIA tool\<close>

definition nvidia_util_argv :: "string list" where
  "nvidia_util_argv = [''nvidia-smi'', ''--query-gpu=utilization.gpu'', ''--format=csv,noheader,nounits'']"

text \<open>The first \<open>try\<close> block: \<open>Some x\<close> is its \<open>return\<close>, \<open>None\<close> falling through to the
  second block.\<close>

definition nvidia_util :: "real option io" where
  "nvidia_util =
     io_catch
       (io_bind (run_cmd nvidia_util_argv 3) (\<lambda>(rc, out).
          if rc = 0 \<and> py_strip out \<noteq> []
          then io_bind (io_lift (rbind (py_index (py_split_sep CHR ''\<newline>'' (py_strip out)) 0) py_float))
                 (\<lambda>x. io_return (Some x))
          else io_return None))
       (\<lambda>e. e = FileNotFound \<or> e = TimeoutExpired) (io_return None)"

section \<open>Jetson fallback\<close>

definition jetson_load_path :: string where
  "jetson_load_path = ''/sys/devices/gpu.0/load''"

fun jetson_loop :: "string list \<Rightarrow> real option io" where
  "jetson_loop [] = io_return None"
| "jetson_loop (path # paths) =
     io_bind (read_file path) (\<lambda>raw.
       let val = py_strip raw in
       if val \<noteq> [] then io_bind (io_lift (py_float val)) (\<lambda>x. io_return (Some (x / 10)))
       else jetson_loop paths)"

definition jetson_fallback :: "real option io" where
  "jetson_fallback =
     io_catch (io_bind (glob jetson_load_path) jetson_loop)
       (\<lambda>e. e = ValueError \<or> is_oserror e) (io_return None)"

definition get_gpu_percent :: "real option io" where
  "get_gpu_percent =
     io_bind nvidia_util (\<lambda>r. case r of Some x \<Rightarrow> io_return (Some x) | None \<Rightarrow> jetson_fallback)"

section \<open>Machines for the scenarios\<close>

text \<open>\<open>gpu_none_world\<close>: no tool and no Jetson file. \<open>jetson_world\<close>: the tool fails
  with status 9 and the Jetson file holds 523. \<open>gpu_na_world\<close>: the tool prints
  \<open>[N/A]\<close>.\<close>

definition gpu_none_world :: world where
  "gpu_none_world = \<lparr>tick = 0, fs_at = (\<lambda>k. []), cmd_at = (\<lambda>k argv. CmdNotFound),
     clock_at = (\<lambda>k. 0), statvfs_at = (\<lambda>k p. None), io_log = []\<rparr>"

definition jetson_world :: world where
  "jetson_world = \<lparr>tick = 0, fs_at = (\<lambda>k. [(''/sys/devices/gpu.0/load'', Some ''523\<newline>'')]),
     cmd_at = (\<lambda>k argv. CmdExit 9 ''NVIDIA-SMI has failed\<newline>''),
     clock_at = (\<lambda>k. 0), statvfs_at = (\<lambda>k p. None), io_log = []\<rparr>"

definition gpu_na_world :: world where
  "gpu_na_world = \<lparr>tick = 0, fs_at = (\<lambda>k. [(''/sys/devices/gpu.0/load'', Some ''523\<newline>'')]),
     cmd_at = (\<lambda>k argv. CmdExit 0 ''[N/A]\<newline>''),
     clock_at = (\<lambda>k. 0), statvfs_at = (\<lambda>k p. None), io_log = []\<rparr>"

section \<open>Lemmas\<close>

lemma nvidia_util_eq:
  "nvidia_util w =
     ((case cmd_at w (tick w) nvidia_util_argv of
         CmdSpawnError \<Rightarrow> Inl OSError
       | CmdExit rc out \<Rightarrow>
           if rc = 0 \<and> py_strip out \<noteq> []
           then (case py_float (hd (py_split_sep CHR ''\<newline>'' (py_strip out))) of
                   Inl e \<Rightarrow> Inl e | Inr x \<Rightarrow> Inr (Some x))
           else Inr None
       | _ \<Rightarrow> Inr None),
      advance w (RunCmd nvidia_util_argv 3))"
proof (cases "cmd_at w (tick w) nvidia_util_argv")
  case (CmdExit rc out)
  show ?thesis
  proof (cases "rc = 0 \<and> py_strip out \<noteq> []")
    case True
    show ?thesis
    proof (cases "py_float (hd (py_split_sep CHR ''\<newline>'' (py_strip out)))")
      case (Inl e)
      then have "e = ValueError" by (rule py_float_error)
      with CmdExit True Inl show ?thesis
        by (simp add: nvidia_util_def io_catch_def io_bind_def run_cmd_eq cmd_result_def io_lift_def
            rbind_def py_index_split_sep)
    next
      case (Inr x)
      with CmdExit True show ?thesis
        by (simp add: nvidia_util_def io_catch_def io_bind_def run_cmd_eq cmd_result_def io_lift_def
            io_return_def rbind_def py_index_split_sep)
    qed
  next
    case False
    then consider "rc \<noteq> 0" | "py_strip out = []" by blast
    then show ?thesis
      by cases (simp_all add: CmdExit nvidia_util_def io_catch_def io_bind_def run_cmd_eq cmd_result_def
          io_return_def)
  qed
qed (simp_all add: nvidia_util_def io_catch_def io_bind_def run_cmd_eq cmd_result_def io_return_def)

lemma jetson_glob: "glob jetson_load_path w =
    (Inr (if jetson_load_path \<in> set (map fst (fs_at w (tick w))) then [jetson_load_path] else []),
     advance w (GlobPaths jetson_load_path))"
proof -
  have "glob_match jetson_load_path = (\<lambda>p. p = jetson_load_path)"
    by (simp add: fun_eq_iff jetson_load_path_def glob_match_plain)
  then show ?thesis by (simp add: glob_eq remdups_filter_eq)
qed

lemma jetson_fallback_eq:
  "fst (jetson_fallback w) =
     (if jetson_load_path \<in> set (map fst (fs_at w (tick w)))
      then (case read_at w (Suc (tick w)) jetson_load_path of
              Inl _ \<Rightarrow> Inr None
            | Inr raw \<Rightarrow> if py_strip raw = [] then Inr None
                         else (case py_float (py_strip raw) of Inl _ \<Rightarrow> Inr None | Inr x \<Rightarrow> Inr (Some (x / 10))))
      else Inr None)"
proof (cases "jetson_load_path \<in> set (map fst (fs_at w (tick w)))")
  case False
  then show ?thesis by (simp add: jetson_fallback_def io_catch_def io_bind_def jetson_glob io_return_def)
next
  case True
  show ?thesis
  proof (cases "read_at w (Suc (tick w)) jetson_load_path")
    case (Inl e)
    then have "e = OSError" by (simp add: read_at_def split: option.splits)
    with True Inl show ?thesis
      by (simp add: jetson_fallback_def io_catch_def io_bind_def jetson_glob read_file_eq io_return_def
          is_oserror_def)
  next
    case (Inr raw)
    show ?thesis
    proof (cases "py_float (py_strip raw)")
      case (Inl e)
      then have "e = ValueError" by (rule py_float_error)
      with True Inr Inl show ?thesis
        by (simp add: jetson_fallback_def io_catch_def io_bind_def jetson_glob read_file_eq io_return_def
            io_lift_def Let_def)
    next
      case (Inr x)
      with True \<open>read_at w (Suc (tick w)) jetson_load_path = Inr raw\<close> show ?thesis
        by (simp add: jetson_fallback_def io_catch_def io_bind_def jetson_glob read_file_eq io_return_def
            io_lift_def Let_def)
    qed
  qed
qed

lemma get_gpu_percent_fst:
  "fst (get_gpu_percent w) =
     (case fst (nvidia_util w) of
        Inl e \<Rightarrow> Inl e
      | Inr (Some x) \<Rightarrow> Inr (Some x)
      | Inr None \<Rightarrow> fst (jetson_fallback (advance w (RunCmd nvidia_util_argv 3))))"
  by (simp add: get_gpu_percent_def io_bind_def nvidia_util_eq io_return_def
      split: sum.split option.split cmd_outcome.split)

text \<open>C12: The spec's scenario: with no \<open>nvidia-smi\<close> (missing, or timing out) and no
  \<open>/sys/devices/gpu.0/load\<close>, the GPU utilisation is absent (\<open>None\<close>).\<close>

theorem get_gpu_percent_no_sources:
  assumes "cmd_at w (tick w) nvidia_util_argv \<in> {CmdNotFound, CmdTimeout}"
    and "jetson_load_path \<notin> set (map fst (fs_at w (Suc (tick w))))"
  shows "fst (get_gpu_percent w) = Inr None"
proof -
  from assms(1) have "fst (nvidia_util w) = Inr None" by (auto simp: nvidia_util_eq)
  with assms(2) show ?thesis by (simp add: get_gpu_percent_fst jetson_fallback_eq)
qed

theorem get_gpu_percent_no_sources_witness: "fst (get_gpu_percent gpu_none_world) = Inr None"
  by (rule get_gpu_percent_no_sources) (simp_all add: gpu_none_world_def)

text \<open>C13: Exactly when \<open>get_gpu_percent\<close> raises: when \<open>nvidia-smi\<close> cannot be
  started for a reason other than its absence (\<open>OSError\<close>), or when it exits 0 with
  non-blank output whose first line is not a float (\<open>ValueError\<close>). Every other
  failure of either source degrades to the other source or to \<open>None\<close>.\<close>

theorem get_gpu_percent_raises:
  "fst (get_gpu_percent w) = Inl e \<longleftrightarrow>
     (cmd_at w (tick w) nvidia_util_argv = CmdSpawnError \<and> e = OSError) \<or>
     (e = ValueError \<and> (\<exists>out. cmd_at w (tick w) nvidia_util_argv = CmdExit 0 out \<and> py_strip out \<noteq> [] \<and>
        py_float (hd (py_split_sep CHR ''\<newline>'' (py_strip out))) = Inl ValueError))"
proof (cases "cmd_at w (tick w) nvidia_util_argv")
  case (CmdExit rc out)
  then show ?thesis
    by (cases "py_float (hd (py_split_sep CHR ''\<newline>'' (py_strip out)))")
      (auto simp: get_gpu_percent_fst nvidia_util_eq jetson_fallback_eq dest: py_float_error
        split: sum.split option.split)
qed (auto simp: get_gpu_percent_fst nvidia_util_eq jetson_fallback_eq split: sum.split option.split)

text \<open>C29: When \<open>nvidia-smi\<close> gives nothing usable (it is missing, times out, exits
  non-zero or prints only blanks) and the Jetson load file exists and holds a number
  \<open>v\<close>, the utilisation is \<open>v / 10\<close>, read from the file as it is after the glob.\<close>

theorem get_gpu_percent_jetson:
  assumes nv: "cmd_at w (tick w) nvidia_util_argv \<in> {CmdNotFound, CmdTimeout} \<or>
      (\<exists>rc out. cmd_at w (tick w) nvidia_util_argv = CmdExit rc out \<and> (rc \<noteq> 0 \<or> py_strip out = []))"
    and ex: "jetson_load_path \<in> set (map fst (fs_at w (Suc (tick w))))"
    and rd: "read_at w (Suc (Suc (tick w))) jetson_load_path = Inr raw"
    and v: "py_strip raw \<noteq> []" "py_float (py_strip raw) = Inr v"
  shows "fst (get_gpu_percent w) = Inr (Some (v / 10))"
proof -
  from nv have "fst (nvidia_util w) = Inr None" by (auto simp: nvidia_util_eq)
  moreover have "read_at (advance w (RunCmd nvidia_util_argv 3)) (Suc (Suc (tick w))) jetson_load_path = Inr raw"
    using rd by (simp add: read_at_def)
  ultimately show ?thesis using ex v by (simp add: get_gpu_percent_fst jetson_fallback_eq)
qed

theorem get_gpu_percent_jetson_witness: "fst (get_gpu_percent jetson_world) = Inr (Some (523 / 10))"
  by (rule get_gpu_percent_jetson [where raw = "''523\<newline>''"])
    (simp_all add: jetson_world_def jetson_load_path_def read_at_def py_simps)

text \<open>C24: When \<open>nvidia-smi\<close> exits 0 with output whose first line is not a number (such
  as \<open>[N/A]\<close>, printed for a GPU that does not report utilisation), \<open>get_gpu_percent\<close>
  raises \<open>ValueError\<close> and its only interaction is that run: the Jetson file is never
  looked at.\<close>

theorem get_gpu_percent_bad_line:
  assumes "cmd_at w (tick w) nvidia_util_argv = CmdExit 0 out" and "py_strip out \<noteq> []"
    and "\<forall>x. py_float (hd (py_split_sep CHR ''\<newline>'' (py_strip out))) \<noteq> Inr x"
  shows "get_gpu_percent w = (Inl ValueError, advance w (RunCmd nvidia_util_argv 3))"
proof -
  obtain e where e: "py_float (hd (py_split_sep CHR ''\<newline>'' (py_strip out))) = Inl e"
    using assms(3) by (cases "py_float (hd (py_split_sep CHR ''\<newline>'' (py_strip out)))") auto
  then have "e = ValueError" by (rule py_float_error)
  with e assms(1,2) have "nvidia_util w = (Inl ValueError, advance w (RunCmd nvidia_util_argv 3))"
    by (simp add: nvidia_util_eq)
  then show ?thesis by (simp add: get_gpu_percent_def io_bind_def)
qed

theorem get_gpu_percent_bad_line_witness:
  "get_gpu_percent gpu_na_world = (Inl ValueError, advance gpu_na_world (RunCmd nvidia_util_argv 3))"
  by (rule get_gpu_percent_bad_line [where out = "''[N/A]\<newline>''"]) (simp_all add: gpu_na_world_def py_simps)

lemma get_gpu_percent_none_post:
  "io_post (\<lambda>w. \<forall>k. cmd_at w k nvidia_util_argv \<in> {CmdNotFound, CmdTimeout} \<and>
       jetson_load_path \<notin> set (map fst (fs_at w k))) (\<lambda>g. g = None) get_gpu_percent"
proof (rule io_postI)
  fix w g
  assume h: "\<forall>k. cmd_at w k nvidia_util_argv \<in> {CmdNotFound, CmdTimeout} \<and>
      jetson_load_path \<notin> set (map fst (fs_at w k))" and r: "fst (get_gpu_percent w) = Inr g"
  from h have "cmd_at w (tick w) nvidia_util_argv \<in> {CmdNotFound, CmdTimeout}" by blast
  then have "fst (nvidia_util w) = Inr None" by (auto simp: nvidia_util_eq)
  with h have "fst (get_gpu_percent w) = Inr None" by (simp add: get_gpu_percent_fst jetson_fallback_eq)
  with r show "g = None" by simp
qed

lemma io_raises_jetson_loop [raises_intros]:
  "S OSError \<Longrightarrow> S ValueError \<Longrightarrow> io_raises S (jetson_loop ps)"
  by (induction ps) (simp_all add: Let_def raises_intros)

end
