(* ===== verification/BootLog.thy ===== *)
theory BootLog
  imports OsWorld
begin

text \<open>
  \<open>get_recent_boots\<close> (lines 139--157) and \<open>get_reboot_causes\<close> (lines 160--176).
  Each runs \<open>last reboot -F\<close> with a 5 s timeout, on its own: the agent starts the tool
  twice per request. The boot list takes every output line that starts with
  \<open>reboot\<close>, joins its tokens 4 to 8 with spaces and keeps the first ten; the causes map
  holds at most the key \<open>last\<close>, for the first such line, with the cause fixed to
  \<open>unknown\<close>. A missing tool or an expired timeout gives the empty list or map; the exit
  status is not looked at. The lemmas show the bound of ten, the shape of the causes
  map, the loop as a map over a filter, and what the two separate runs allow.
\<close>

definition last_argv :: "string list" where
  "last_argv = [''last'', ''reboot'', ''-F'']"

section \<open>Recent boots\<close>

text \<open>The loop over the lines; \<open>parts[4:9]\<close> never raises, so the \<open>except IndexError\<close>
  around it never runs.\<close>

fun boot_dates :: "string list \<Rightarrow> string list" where
  "boot_dates [] = []"
| "boot_dates (line # lines) =
     (if py_startswith line ''reboot''
      then py_join '' '' (py_slice (py_split line) 4 9) # boot_dates lines
      else boot_dates lines)"

definition get_recent_boots :: "string list io" where
  "get_recent_boots =
     io_catch
       (io_bind (run_cmd last_argv 5) (\<lambda>(rc, out).
          io_return (take 10 (boot_dates (py_split_sep CHR ''\<newline>'' (py_strip out))))))
       (\<lambda>e. e = FileNotFound \<or> e = TimeoutExpired) (io_return [])"

section \<open>Reboot causes\<close>

record reboot_cause =
  cause :: string
  detail :: string

text \<open>The loop with its \<open>break\<close>: the first line that starts with \<open>reboot\<close>.\<close>

definition causes_of :: "string list \<Rightarrow> (string \<times> reboot_cause) list" where
  "causes_of lines =
     (case find (\<lambda>l. py_startswith l ''reboot'') lines of
        None \<Rightarrow> []
      | Some l \<Rightarrow> dict_set [] ''last'' \<lparr>cause = ''unknown'', detail = py_strip l\<rparr>)"

definition get_reboot_causes :: "(string \<times> reboot_cause) list io" where
  "get_reboot_causes =
     io_catch
       (io_bind (run_cmd last_argv 5) (\<lambda>(rc, out).
          io_return (causes_of (py_split_sep CHR ''\<newline>'' (py_strip out)))))
       (\<lambda>e. e = FileNotFound \<or> e = TimeoutExpired) (io_return [])"

section \<open>Machines for the scenarios\<close>

text \<open>\<open>boots_world\<close>: \<open>last\<close> prints a full reboot line, a truncated one, a blank
  line and the \<open>wtmp\<close> trailer, the same at every instant.\<close>

definition boots_world :: world where
  "boots_world = \<lparr>tick = 0, fs_at = (\<lambda>k. []),
     cmd_at = (\<lambda>k argv. CmdExit 0
       (''reboot   system boot  6.8.0-45-generic Mon Nov  4 09:12:33 2024   still running\<newline>'' @
        ''reboot   system boot\<newline>\<newline>'' @
        ''wtmp begins Fri Nov  1 08:00:00 2024\<newline>'')),
     clock_at = (\<lambda>k. 0), statvfs_at = (\<lambda>k p. None), io_log = []\<rparr>"

section \<open>Lemmas\<close>

lemma get_recent_boots_eq:
  "get_recent_boots w =
     ((case cmd_at w (tick w) last_argv of
         CmdSpawnError \<Rightarrow> Inl OSError
       | CmdExit rc out \<Rightarrow> Inr (take 10 (boot_dates (py_split_sep CHR ''\<newline>'' (py_strip out))))
       | _ \<Rightarrow> Inr []),
      advance w (RunCmd last_argv 5))"
  by (simp add: get_recent_boots_def io_catch_def io_bind_def run_cmd_eq cmd_result_def io_return_def
      split: cmd_outcome.split)

lemma get_reboot_causes_eq:
  "get_reboot_causes w =
     ((case cmd_at w (tick w) last_argv of
         CmdSpawnError \<Rightarrow> Inl OSError
       | CmdExit rc out \<Rightarrow> Inr (causes_of (py_split_sep CHR ''\<newline>'' (py_strip out)))
       | _ \<Rightarrow> Inr []),
      advance w (RunCmd last_argv 5))"
  by (simp add: get_reboot_causes_def io_catch_def io_bind_def run_cmd_eq cmd_result_def io_return_def
      split: cmd_outcome.split)

text \<open>The boot loop is a map over a filter: one date string for each output line that
  starts with \<open>reboot\<close>, in the order of the output.\<close>

lemma boot_dates_filter:
  "boot_dates lines =
     map (\<lambda>l. py_join '' '' (py_slice (py_split l) 4 9)) (filter (\<lambda>l. py_startswith l ''reboot'') lines)"
  by (induction lines) simp_all

lemma causes_of_empty: "causes_of lines = [] \<longleftrightarrow> \<not> (\<exists>l\<in>set lines. py_startswith l ''reboot'')"
  by (induction lines) (simp_all add: causes_of_def)

text \<open>C5: \<open>get_recent_boots\<close> returns at most ten entries, whatever the tool prints,
  and raises only \<open>OSError\<close> (a tool that exists but cannot be started).\<close>

theorem get_recent_boots_bounded:
  "case fst (get_recent_boots w) of Inl e \<Rightarrow> e = OSError | Inr bs \<Rightarrow> length bs \<le> 10"
  by (simp add: get_recent_boots_def io_catch_def io_bind_def run_cmd_eq cmd_result_def io_return_def
      split: cmd_outcome.split)

text \<open>C17: The causes map is empty or holds the single key \<open>last\<close>, whose cause is
  \<open>unknown\<close> and whose detail is a stripped line of the tool's output that starts with
  \<open>reboot\<close>; the reader raises only \<open>OSError\<close>.\<close>

theorem get_reboot_causes_shape:
  "case fst (get_reboot_causes w) of
     Inl e \<Rightarrow> e = OSError
   | Inr c \<Rightarrow> c = [] \<or> (\<exists>l. py_startswith l ''reboot'' \<and> c = [(''last'', \<lparr>cause = ''unknown'', detail = py_strip l\<rparr>)])"
  by (auto simp: get_reboot_causes_eq causes_of_def dest: find_Some_iff [THEN iffD1]
      split: cmd_outcome.split option.split)

text \<open>C22: The detail is the first line starting with \<open>reboot\<close>: the loop breaks there,
  whatever the later lines hold.\<close>

theorem causes_of_first_reboot:
  assumes "\<forall>x\<in>set pre. \<not> py_startswith x ''reboot''" and "py_startswith l ''reboot''"
  shows "causes_of (pre @ l # post) = [(''last'', \<lparr>cause = ''unknown'', detail = py_strip l\<rparr>)]"
  using assms by (simp add: causes_of_def find_append_skip)

theorem causes_of_first_reboot_witness:
  "causes_of [''wtmp begins'', ''reboot  system boot 6.8 '', ''reboot x''] =
     [(''last'', \<lparr>cause = ''unknown'', detail = ''reboot  system boot 6.8''\<rparr>)]"
  using causes_of_first_reboot [of "[''wtmp begins'']" "''reboot  system boot 6.8 ''" "[''reboot x'']"]
  by (simp add: py_simps)

text \<open>C30: No reboot line is skipped: when \<open>last\<close> runs, the boot list has one entry for
  each of the first ten output lines that start with \<open>reboot\<close>, however few tokens
  such a line has (the slice \<open>parts[4:9]\<close> never raises, so the \<open>except IndexError\<close>
  branch is dead and a short line gives an empty string); a missing or timed-out tool
  gives no entry, and only \<open>OSError\<close> escapes.\<close>

theorem get_recent_boots_count:
  "case fst (get_recent_boots w) of
     Inl e \<Rightarrow> e = OSError
   | Inr bs \<Rightarrow> (case cmd_at w (tick w) last_argv of
       CmdExit rc out \<Rightarrow>
         length bs = min 10 (length (filter (\<lambda>l. py_startswith l ''reboot'')
                                       (py_split_sep CHR ''\<newline>'' (py_strip out))))
     | _ \<Rightarrow> bs = [])"
  by (simp add: get_recent_boots_def io_catch_def io_bind_def run_cmd_eq cmd_result_def io_return_def
      boot_dates_filter min.commute split: cmd_outcome.split)

text \<open>C31: The two readers run \<open>last\<close> separately. When the tool answers the second run
  as it answered the first, they agree: both raise the same exception, or the boot list
  is empty exactly when the causes map is. When it does not (an answer, then a
  timeout), a reboot can appear in one and not the other; the spec asks for one shared
  invocation.\<close>

theorem boots_causes_agree:
  assumes "cmd_at w (Suc (tick w)) last_argv = cmd_at w (tick w) last_argv"
  shows "map_sum id (\<lambda>bs. bs = []) (fst (get_recent_boots w)) =
    map_sum id (\<lambda>cs. cs = []) (fst (get_reboot_causes (snd (get_recent_boots w))))"
  using assms
  by (simp add: get_recent_boots_eq get_reboot_causes_eq boot_dates_filter causes_of_empty
      filter_empty_conv split: cmd_outcome.split)

theorem boots_causes_agree_witness:
  "map_sum id (\<lambda>bs. bs = []) (fst (get_recent_boots boots_world)) =
    map_sum id (\<lambda>cs. cs = []) (fst (get_reboot_causes (snd (get_recent_boots boots_world))))"
  by (rule boots_causes_agree) (simp add: boots_world_def)

end
