(* ===== verification/Readers.thy ===== *)
theory Readers
  imports OsWorld
begin

text \<open>
  The source readers of \<open>fleet_metrics.py\<close> that read one kernel interface each and
  let every failure propagate: \<open>get_hostname\<close>, \<open>get_uptime\<close>, \<open>get_memory\<close>,
  \<open>get_load_avg\<close> and \<open>get_disk\<close>. Each is an \<open>io\<close> operation built from the
  primitives of \<open>OsWorld\<close>; the parsing steps are separate functions of the text read,
  so that their behaviour is stated on text. The lemmas give each reader's result on
  every branch, the arithmetic relations the spec names for memory and disk, and the
  frame property (readers only read).
\<close>

section \<open>Hostname and uptime\<close>

text \<open>\<open>get_hostname\<close> (lines 20--22): the stripped content of \<open>/etc/hostname\<close>.\<close>

definition get_hostname :: "string io" where
  "get_hostname = io_map py_strip (read_file ''/etc/hostname'')"

text \<open>\<open>get_uptime\<close> (lines 25--27): the first whitespace-separated token of
  \<open>/proc/uptime\<close>, as a float.\<close>

definition parse_uptime :: "string \<Rightarrow> real result" where
  "parse_uptime s = rbind (py_index (py_split s) 0) py_float"

definition get_uptime :: "real io" where
  "get_uptime = io_bind (read_file ''/proc/uptime'') (\<lambda>s. io_lift (parse_uptime s))"

section \<open>Memory\<close>

text \<open>\<open>get_memory\<close> (lines 64--83): every line of \<open>/proc/meminfo\<close> with at least two
  tokens sets \<open>info[key] = int(value)\<close>, the key with its trailing colons removed; an
  integer that does not parse raises \<open>ValueError\<close> out of the reader.\<close>

fun meminfo_loop :: "(string \<times> int) list \<Rightarrow> string list \<Rightarrow> (string \<times> int) list result" where
  "meminfo_loop info [] = Inr info"
| "meminfo_loop info (line # lines) =
     (let parts = py_split line in
      if 2 \<le> length parts
      then rbind (py_int (parts ! 1)) (\<lambda>n. meminfo_loop (dict_set info (py_rstrip '':'' (parts ! 0)) n) lines)
      else meminfo_loop info lines)"

record memory =
  total_mb :: real
  used_mb :: real
  available_mb :: real
  swap_total_mb :: real
  swap_used_mb :: real

definition memory_of_info :: "(string \<times> int) list \<Rightarrow> memory" where
  "memory_of_info info =
     (let total = of_int (dict_get info ''MemTotal'' 0) / 1024;
          available = of_int (dict_get info ''MemAvailable'' 0) / 1024;
          swap_total = of_int (dict_get info ''SwapTotal'' 0) / 1024;
          swap_free = of_int (dict_get info ''SwapFree'' 0) / 1024
      in \<lparr>total_mb = py_round1 total,
          used_mb = py_round1 (total - available),
          available_mb = py_round1 available,
          swap_total_mb = py_round1 swap_total,
          swap_used_mb = py_round1 (swap_total - swap_free)\<rparr>)"

definition parse_meminfo :: "string \<Rightarrow> memory result" where
  "parse_meminfo s = rbind (meminfo_loop [] (py_lines s)) (\<lambda>info. Inr (memory_of_info info))"

definition get_memory :: "memory io" where
  "get_memory = io_bind (read_file ''/proc/meminfo'') (\<lambda>s. io_lift (parse_meminfo s))"

section \<open>Load average\<close>

text \<open>\<open>get_load_avg\<close> (lines 86--89): the first three tokens of \<open>/proc/loadavg\<close> as
  floats, evaluated left to right as the list display does.\<close>

definition parse_loadavg :: "string \<Rightarrow> real list result" where
  "parse_loadavg s =
     (let parts = py_split s in
      rbind (rbind (py_index parts 0) py_float) (\<lambda>a.
      rbind (rbind (py_index parts 1) py_float) (\<lambda>b.
      rbind (rbind (py_index parts 2) py_float) (\<lambda>c. Inr [a, b, c]))))"

definition get_load_avg :: "real list io" where
  "get_load_avg = io_bind (read_file ''/proc/loadavg'') (\<lambda>s. io_lift (parse_loadavg s))"

section \<open>Disk\<close>

text \<open>\<open>get_disk\<close> (lines 179--188): byte counts from \<open>os.statvfs('/')\<close> as Python
  integers, converted to GiB and rounded. \<open>used\<close> is an integer difference: counters
  with more free than total blocks give a negative value, passed through.\<close>

record disk =
  total_gb :: real
  used_gb :: real
  free_gb :: real

definition disk_of :: "statvfs_result \<Rightarrow> disk" where
  "disk_of st =
     (let total = int (f_blocks st * f_frsize st);
          free = int (f_bfree st * f_frsize st);
          used = total - free
      in \<lparr>total_gb = py_round1 (of_int total / 1024 ^ 3),
          used_gb = py_round1 (of_int used / 1024 ^ 3),
          free_gb = py_round1 (of_int free / 1024 ^ 3)\<rparr>)"

definition get_disk :: "disk io" where
  "get_disk = io_map disk_of (os_statvfs ''/'')"

section \<open>Lemmas\<close>

lemma get_hostname_eq:
  "get_hostname w = (case file_at w ''/etc/hostname'' of Inl e \<Rightarrow> Inl e | Inr s \<Rightarrow> Inr (py_strip s),
     advance w (ReadFile ''/etc/hostname''))"
  by (simp add: get_hostname_def read_file_def io_map_effect)

lemma get_uptime_eq:
  "get_uptime w = (rbind (file_at w ''/proc/uptime'') parse_uptime, advance w (ReadFile ''/proc/uptime''))"
  by (simp add: get_uptime_def read_then_lift)

lemma get_memory_eq:
  "get_memory w = (rbind (file_at w ''/proc/meminfo'') parse_meminfo, advance w (ReadFile ''/proc/meminfo''))"
  by (simp add: get_memory_def read_then_lift)

lemma get_load_avg_eq:
  "get_load_avg w = (rbind (file_at w ''/proc/loadavg'') parse_loadavg, advance w (ReadFile ''/proc/loadavg''))"
  by (simp add: get_load_avg_def read_then_lift)

lemma get_disk_eq:
  "get_disk w = (case statvfs_at w (tick w) ''/'' of None \<Rightarrow> Inl OSError | Some st \<Rightarrow> Inr (disk_of st),
     advance w (StatVfs ''/''))"
  by (simp add: get_disk_def os_statvfs_def io_map_effect split: option.split)

lemma meminfo_loop_error: "meminfo_loop info ls = Inl e \<Longrightarrow> e = ValueError"
  by (induction info ls rule: meminfo_loop.induct)
     (auto simp: rbind_def Let_def py_int_error split: sum.splits if_splits)

lemma meminfo_loop_ok:
  "(\<exists>i. meminfo_loop info ls = Inr i) \<longleftrightarrow>
     (\<forall>l\<in>set ls. 2 \<le> length (py_split l) \<longrightarrow> \<not> isl (py_int (py_split l ! 1)))"
  by (induction info ls rule: meminfo_loop.induct) (auto simp: rbind_def Let_def split: sum.splits)

text \<open>C6: The reported used memory is the reported total minus the reported available memory, up to the last rounded digit (0.1 MiB).\<close>

theorem memory_of_info_used:
  "\<bar>used_mb (memory_of_info info) - (total_mb (memory_of_info info) - available_mb (memory_of_info info))\<bar> \<le> 1/10"
proof -
  let ?t = "of_int (dict_get info ''MemTotal'' 0) / 1024 :: real"
  let ?a = "of_int (dict_get info ''MemAvailable'' 0) / 1024 :: real"
  have "\<bar>py_round1 (?t - ?a) - (py_round1 ?t - py_round1 ?a)\<bar> \<le> 1/10"
    by (rule py_round1_diff)
  then show ?thesis by (simp add: memory_of_info_def Let_def)
qed

lemma memory_of_info_swap_used:
  "\<bar>swap_used_mb (memory_of_info info) -
     (swap_total_mb (memory_of_info info) - py_round1 (of_int (dict_get info ''SwapFree'' 0) / 1024))\<bar> \<le> 1/10"
proof -
  let ?t = "of_int (dict_get info ''SwapTotal'' 0) / 1024 :: real"
  let ?f = "of_int (dict_get info ''SwapFree'' 0) / 1024 :: real"
  have "\<bar>py_round1 (?t - ?f) - (py_round1 ?t - py_round1 ?f)\<bar> \<le> 1/10"
    by (rule py_round1_diff)
  then show ?thesis by (simp add: memory_of_info_def Let_def)
qed

text \<open>C19: Parsing \<open>/proc/meminfo\<close> succeeds exactly when every line with at least two tokens has an integer second token; otherwise \<open>get_memory\<close> raises out of the reader.\<close>

theorem parse_meminfo_ok:
  "(\<exists>m. parse_meminfo s = Inr m) \<longleftrightarrow>
     (\<forall>l\<in>set (py_lines s). 2 \<le> length (py_split l) \<longrightarrow> \<not> isl (py_int (py_split l ! 1)))"
  using meminfo_loop_ok [of "[]" "py_lines s"]
  by (auto simp: parse_meminfo_def rbind_def split: sum.splits)

lemma parse_meminfo_error: "parse_meminfo s = Inl e \<Longrightarrow> e = ValueError"
  by (auto simp: parse_meminfo_def rbind_def dest: meminfo_loop_error split: sum.splits)

lemma disk_of_fields:
  "total_gb (disk_of st) = py_round1 (real (f_blocks st * f_frsize st) / 1024 ^ 3)"
  "free_gb (disk_of st) = py_round1 (real (f_bfree st * f_frsize st) / 1024 ^ 3)"
  "used_gb (disk_of st) =
     py_round1 ((real (f_blocks st * f_frsize st) - real (f_bfree st * f_frsize st)) / 1024 ^ 3)"
  by (simp_all add: disk_of_def Let_def del: of_nat_mult)

text \<open>C7: The reported used disk space is the reported total minus the reported free space, up to the last rounded digit (0.1 GiB).\<close>

theorem disk_of_used:
  "\<bar>used_gb (disk_of st) - (total_gb (disk_of st) - free_gb (disk_of st))\<bar> \<le> 1/10"
  using py_round1_diff [of "real (f_blocks st * f_frsize st) / 1024 ^ 3"
      "real (f_bfree st * f_frsize st) / 1024 ^ 3"]
  by (simp add: disk_of_def Let_def diff_divide_distrib del: of_nat_mult)

text \<open>C21: When the file system reports no more free blocks than blocks, the reported used space lies between 0 and the reported total.\<close>

theorem disk_of_used_range:
  assumes "f_bfree st \<le> f_blocks st"
  shows "0 \<le> used_gb (disk_of st) \<and> used_gb (disk_of st) \<le> total_gb (disk_of st)"
proof -
  let ?T = "real (f_blocks st * f_frsize st)" and ?F = "real (f_bfree st * f_frsize st)"
  have "f_bfree st * f_frsize st \<le> f_blocks st * f_frsize st" using assms by (rule mult_le_mono1)
  then have "?F \<le> ?T" by (simp only: of_nat_le_iff)
  then have "0 \<le> (?T - ?F) / 1024 ^ 3" "(?T - ?F) / 1024 ^ 3 \<le> ?T / 1024 ^ 3"
    by (simp_all add: divide_right_mono)
  then show ?thesis
    by (simp only: disk_of_fields) (blast intro: py_round1_nonneg py_round1_mono)
qed

text \<open>C20: A load average that parses is three numbers, the first three tokens of \<open>/proc/loadavg\<close> in their order.\<close>

theorem parse_loadavg_ok:
  "parse_loadavg s = Inr xs \<Longrightarrow> length xs = 3 \<and> (\<forall>i<3. py_float (py_split s ! i) = Inr (xs ! i))"
  by (auto simp: parse_loadavg_def Let_def rbind_def py_index_def less_Suc_eq numeral_3_eq_3 numeral_2_eq_2
      split: sum.splits if_splits)

text \<open>C27: A \<open>/proc/loadavg\<close> with fewer than three tokens, each of which parses as a
  float, makes \<open>get_load_avg\<close> raise \<open>IndexError\<close> (a token that is not a float raises
  \<open>ValueError\<close> before the missing index is reached).\<close>

theorem parse_loadavg_short:
  assumes "length (py_split s) < 3" and "\<forall>t\<in>set (py_split s). \<exists>x. py_float t = Inr x"
  shows "parse_loadavg s = Inl IndexError"
proof (cases "py_split s")
  case Nil
  then show ?thesis by (simp add: parse_loadavg_def py_index_def rbind_def)
next
  case (Cons a r)
  with assms(2) obtain x where a: "py_float a = Inr x" by auto
  show ?thesis
  proof (cases r)
    case Nil
    with Cons a show ?thesis by (simp add: parse_loadavg_def py_index_def rbind_def)
  next
    case (Cons b r')
    with \<open>py_split s = a # r\<close> assms(2) obtain y where b: "py_float b = Inr y" by auto
    from assms(1) Cons \<open>py_split s = a # r\<close> have "r' = []" by simp
    with Cons \<open>py_split s = a # r\<close> a b show ?thesis
      by (simp add: parse_loadavg_def py_index_def rbind_def)
  qed
qed

theorem parse_meminfo_ok_witness:
  "\<not> (\<exists>m. parse_meminfo ''MemTotal: 12x kB\<newline>'' = Inr m)"
  using parse_meminfo_ok [of "''MemTotal: 12x kB\<newline>''"] by (simp add: py_simps)

theorem disk_of_used_range_witness:
  "0 \<le> used_gb (disk_of \<lparr>f_blocks = 3000000, f_bfree = 1000000, f_frsize = 4096\<rparr>) \<and>
   used_gb (disk_of \<lparr>f_blocks = 3000000, f_bfree = 1000000, f_frsize = 4096\<rparr>) \<le>
   total_gb (disk_of \<lparr>f_blocks = 3000000, f_bfree = 1000000, f_frsize = 4096\<rparr>)"
  using disk_of_used_range [of "\<lparr>f_blocks = 3000000, f_bfree = 1000000, f_frsize = 4096\<rparr>"] by simp

theorem parse_loadavg_ok_witness:
  "length [0.52, 0.58, 0.59 :: real] = 3 \<and>
   py_float (py_split ''0.52 0.58 0.59 1/467 12345\<newline>'' ! 0) = Inr 0.52 \<and>
   py_float (py_split ''0.52 0.58 0.59 1/467 12345\<newline>'' ! 1) = Inr 0.58 \<and>
   py_float (py_split ''0.52 0.58 0.59 1/467 12345\<newline>'' ! 2) = Inr 0.59"
  using parse_loadavg_ok [of "''0.52 0.58 0.59 1/467 12345\<newline>''" "[0.52, 0.58, 0.59]"]
  by (simp add: parse_loadavg_def py_simps)

theorem parse_loadavg_short_witness: "parse_loadavg ''0.52 0.58\<newline>'' = Inl IndexError"
proof -
  have t: "py_split ''0.52 0.58\<newline>'' = [''0.52'', ''0.58'']" by (simp add: py_simps)
  have f: "py_float ''0.52'' = Inr 0.52" "py_float ''0.58'' = Inr 0.58" by (simp_all add: py_simps)
  have all: "\<forall>t\<in>set (py_split ''0.52 0.58\<newline>''). \<exists>x. py_float t = Inr x"
    unfolding t list.set using f by blast
  from t have len: "length (py_split ''0.52 0.58\<newline>'') < 3" by simp
  show ?thesis using parse_loadavg_short [OF len all] .
qed

lemma small_gib: "20 * n < (1024::nat) ^ 3 \<Longrightarrow> real n / 1024 ^ 3 < 1/20"
proof -
  assume h: "20 * n < (1024::nat) ^ 3"
  have "real (20 * n) < real ((1024::nat) ^ 3)" using h by (simp only: of_nat_less_iff)
  then have "20 * real n < 1024 ^ 3" by (simp only: of_nat_mult of_nat_power of_nat_numeral)
  then show ?thesis by (simp add: divide_less_eq)
qed

text \<open>C25: Rounding to a tenth of a GiB erases small file systems: whenever the file
  system is smaller than 0.05 GiB (and reports no more free blocks than blocks), total,
  used and free are all reported as 0.0. The spec's scenario (100 blocks of 4096
  bytes, 40 free) is one such file system, for which the spec expects about 0.0004.\<close>

theorem disk_of_small:
  assumes "20 * (f_blocks st * f_frsize st) < 1024 ^ 3" and "f_bfree st \<le> f_blocks st"
  shows "disk_of st = \<lparr>total_gb = 0, used_gb = 0, free_gb = 0\<rparr>"
proof -
  let ?t = "real (f_blocks st * f_frsize st)" and ?f = "real (f_bfree st * f_frsize st)"
  have tf: "?f \<le> ?t" using assms(2) by (simp add: mult_right_mono)
  have t: "?t / 1024 ^ 3 < 1/20" using assms(1) by (rule small_gib)
  have f: "?f / 1024 ^ 3 < 1/20"
    using divide_right_mono [OF tf, of "1024 ^ 3"] t by simp
  have "(?t - ?f) / 1024 ^ 3 \<le> ?t / 1024 ^ 3" by (rule divide_right_mono) simp_all
  then have u: "(?t - ?f) / 1024 ^ 3 < 1/20" using t by (rule le_less_trans)
  have "py_round1 (?t / 1024 ^ 3) = 0" by (rule py_round1_small [OF _ t]) simp
  moreover have "py_round1 (?f / 1024 ^ 3) = 0" by (rule py_round1_small [OF _ f]) simp
  moreover have "py_round1 ((?t - ?f) / 1024 ^ 3) = 0"
    by (rule py_round1_small [OF _ u]) (use tf in simp)
  ultimately show ?thesis by (simp add: disk_of_fields)
qed

theorem disk_of_small_witness:
  "disk_of \<lparr>f_blocks = 100, f_bfree = 40, f_frsize = 4096\<rparr> = \<lparr>total_gb = 0, used_gb = 0, free_gb = 0\<rparr>"
  by (rule disk_of_small) simp_all

lemma res_raises_meminfo_loop [raises_intros]: "S ValueError \<Longrightarrow> res_raises S (meminfo_loop info ls)"
  by (induction info ls rule: meminfo_loop.induct) (simp_all add: Let_def raises_intros)

end
