(* ===== verification/Clock.thy ===== *)
theory Clock
  imports Readers
begin

text \<open>
  \<open>get_boot_time\<close> (lines 30--32): \<open>/proc/uptime\<close> is read again, the clock is read,
  and \<open>time.gmtime(time.time() - uptime)\<close> is formatted with
  \<open>"%Y-%m-%dT%H:%M:%SZ"\<close>. \<open>time.gmtime\<close> and \<open>time.strftime\<close> are library code; they
  are modelled from their documented behaviour: \<open>gmtime\<close> rounds its float argument
  toward minus infinity to whole seconds and splits it into a proleptic Gregorian UTC
  date, and \<open>strftime\<close> prints the year in decimal and the other fields with two
  digits. The lemmas show that the date is valid, that \<open>timegm\<close> inverts \<open>gmtime\<close>, and
  the reader's result on a concrete clock.
\<close>

section \<open>\<open>time.gmtime\<close>\<close>

definition is_leap :: "int \<Rightarrow> bool" where
  "is_leap y \<longleftrightarrow> 4 dvd y \<and> (\<not> 100 dvd y \<or> 400 dvd y)"

definition year_len :: "int \<Rightarrow> int" where
  "year_len y = (if is_leap y then 366 else 365)"

text \<open>Whole years forward from a day offset that is not negative, and backward from a
  negative one: the result is a year and the day of that year, counted from 0.\<close>

function year_fwd :: "int \<Rightarrow> int \<Rightarrow> int \<times> int" where
  "year_fwd y d = (if d < year_len y then (y, d) else year_fwd (y + 1) (d - year_len y))"
  by pat_completeness auto
termination by (relation "measure (\<lambda>(y, d). nat d)") (auto simp: year_len_def split: if_splits)

function year_back :: "int \<Rightarrow> int \<Rightarrow> int \<times> int" where
  "year_back y d = (if 0 \<le> d then (y, d) else year_back (y - 1) (d + year_len (y - 1)))"
  by pat_completeness auto
termination by (relation "measure (\<lambda>(y, d). nat (- d))") (auto simp: year_len_def)

definition year_of_days :: "int \<Rightarrow> int \<times> int" where
  "year_of_days z = (if z < 0 then year_back 1970 z else year_fwd 1970 z)"

definition month_lens :: "int \<Rightarrow> int list" where
  "month_lens y = [31, if is_leap y then 29 else 28, 31, 30, 31, 30, 31, 31, 30, 31, 30, 31]"

text \<open>The month (from \<open>m\<close>) and the day of the month (from 1) of a day of the year.\<close>

fun month_split :: "int list \<Rightarrow> int \<Rightarrow> int \<Rightarrow> int \<times> int" where
  "month_split [] m d = (m, d + 1)"
| "month_split (l # ls) m d = (if d < l then (m, d + 1) else month_split ls (m + 1) (d - l))"

record struct_time =
  tm_year :: int
  tm_mon :: int
  tm_mday :: int
  tm_hour :: int
  tm_min :: int
  tm_sec :: int

definition gmtime :: "real \<Rightarrow> struct_time" where
  "gmtime t =
     (let s = \<lfloor>t\<rfloor>; secs = s mod 86400;
          (y, doy) = year_of_days (s div 86400);
          (m, d) = month_split (month_lens y) 1 doy
      in \<lparr>tm_year = y, tm_mon = m, tm_mday = d,
          tm_hour = secs div 3600, tm_min = secs mod 3600 div 60, tm_sec = secs mod 60\<rparr>)"

section \<open>\<open>time.strftime("%Y-%m-%dT%H:%M:%SZ", ...)\<close>\<close>

definition pad2 :: "int \<Rightarrow> string" where
  "pad2 n = (if 0 \<le> n \<and> n < 10 then CHR ''0'' # py_str_int n else py_str_int n)"

definition strftime_iso :: "struct_time \<Rightarrow> string" where
  "strftime_iso st =
     py_str_int (tm_year st) @ ''-'' @ pad2 (tm_mon st) @ ''-'' @ pad2 (tm_mday st) @ ''T'' @
     pad2 (tm_hour st) @ '':'' @ pad2 (tm_min st) @ '':'' @ pad2 (tm_sec st) @ ''Z''"

section \<open>The reader\<close>

definition get_boot_time :: "string io" where
  "get_boot_time =
     io_bind get_uptime (\<lambda>uptime.
     io_bind time_time (\<lambda>now.
     io_return (strftime_iso (gmtime (now - uptime)))))"

section \<open>The inverse of \<open>gmtime\<close>\<close>

text \<open>\<open>calendar.timegm\<close>: the day number of the first day of a year counted from
  1970-01-01, and the instant of a date.\<close>

definition year_start :: "int \<Rightarrow> int" where
  "year_start y =
     (if 1970 \<le> y then sum_list (map year_len [1970..y - 1]) else - sum_list (map year_len [y..1969]))"

definition timegm :: "struct_time \<Rightarrow> int" where
  "timegm st =
     (year_start (tm_year st) + sum_list (take (nat (tm_mon st - 1)) (month_lens (tm_year st)))
        + tm_mday st - 1) * 86400 + tm_hour st * 3600 + tm_min st * 60 + tm_sec st"

text \<open>A valid broken-down time: month 1 to 12, day within the month's length, hour,
  minute and second in range.\<close>

definition valid_tm :: "struct_time \<Rightarrow> bool" where
  "valid_tm st \<longleftrightarrow>
     1 \<le> tm_mon st \<and> tm_mon st \<le> 12 \<and> 1 \<le> tm_mday st \<and>
     tm_mday st \<le> month_lens (tm_year st) ! nat (tm_mon st - 1) \<and>
     0 \<le> tm_hour st \<and> tm_hour st < 24 \<and> 0 \<le> tm_min st \<and> tm_min st < 60 \<and>
     0 \<le> tm_sec st \<and> tm_sec st < 60"

section \<open>A machine for the scenario\<close>

text \<open>The machine has been up for an hour and half a second when the clock reads
  1700000000 (2023-11-14 22:13:20 UTC).\<close>

definition boot_world :: world where
  "boot_world = \<lparr>tick = 0, fs_at = (\<lambda>k. [(''/proc/uptime'', Some ''3600.5 7200.25\<newline>'')]),
     cmd_at = (\<lambda>k argv. CmdNotFound), clock_at = (\<lambda>k. 1700000000),
     statvfs_at = (\<lambda>k p. None), io_log = []\<rparr>"

section \<open>Lemmas\<close>

lemma get_boot_time_eq:
  "get_boot_time w =
     (case file_at w ''/proc/uptime'' of
        Inl e \<Rightarrow> (Inl e, advance w (ReadFile ''/proc/uptime''))
      | Inr s \<Rightarrow> (case parse_uptime s of
          Inl e \<Rightarrow> (Inl e, advance w (ReadFile ''/proc/uptime''))
        | Inr up \<Rightarrow> (Inr (strftime_iso (gmtime (clock_at w (Suc (tick w)) - up))),
                    advance (advance w (ReadFile ''/proc/uptime'')) TimeNow)))"
  by (simp add: get_boot_time_def io_bind_def get_uptime_eq time_time_def io_effect_def io_return_def
      rbind_def split: sum.split)

declare year_fwd.simps [simp del] year_back.simps [simp del]

lemma year_fwd_stop: "d < year_len y \<Longrightarrow> year_fwd y d = (y, d)"
  by (simp add: year_fwd.simps)

lemma year_fwd_next: "\<not> d < year_len y \<Longrightarrow> year_fwd y d = year_fwd (y + 1) (d - year_len y)"
  by (subst year_fwd.simps) simp

lemmas year_fwd_eval = year_fwd_stop year_fwd_next year_len_def is_leap_def

lemma year_start_next: "year_start (y + 1) = year_start y + year_len y"
proof -
  consider "1970 \<le> y" | "y = 1969" | "y < 1969" by linarith
  then show ?thesis
  proof cases
    case 1
    then have "[1970..y] = [1970..y - 1] @ [y]" by (simp add: upto_rec2)
    with 1 show ?thesis by (simp add: year_start_def)
  next
    case 2
    then show ?thesis by (simp add: year_start_def)
  next
    case 3
    then have "[y..1969] = y # [y + 1..1969]" by (simp add: upto_rec1)
    with 3 show ?thesis by (simp add: year_start_def)
  qed
qed

lemma year_len_pos: "365 \<le> year_len y"
  by (simp add: year_len_def)

lemma year_fwd_inv:
  "0 \<le> d \<Longrightarrow> year_fwd y d = (y', d') \<Longrightarrow>
     year_start y' + d' = year_start y + d \<and> 0 \<le> d' \<and> d' < year_len y'"
proof (induction y d rule: year_fwd.induct)
  case (1 y d)
  show ?case
  proof (cases "d < year_len y")
    case True
    with "1.prems" show ?thesis by (simp add: year_fwd_stop)
  next
    case False
    with "1.prems" "1.IH" [OF False] show ?thesis
      by (simp add: year_fwd_next year_start_next)
  qed
qed

lemma year_back_inv:
  "d < year_len y \<Longrightarrow> year_back y d = (y', d') \<Longrightarrow>
     year_start y' + d' = year_start y + d \<and> 0 \<le> d' \<and> d' < year_len y'"
proof (induction y d rule: year_back.induct)
  case (1 y d)
  show ?case
  proof (cases "0 \<le> d")
    case True
    with "1.prems" show ?thesis by (simp add: year_back.simps)
  next
    case False
    have "year_start y = year_start (y - 1) + year_len (y - 1)"
      using year_start_next [of "y - 1"] by simp
    with False "1.prems" "1.IH" [OF False] show ?thesis
      by (simp add: year_back.simps [of y d])
  qed
qed

lemma year_of_days_inv:
  "year_of_days z = (y, d) \<Longrightarrow> year_start y + d = z \<and> 0 \<le> d \<and> d < year_len y"
  using year_fwd_inv [of z 1970 y d] year_back_inv [of z 1970 y d] year_len_pos [of 1970]
  by (simp add: year_of_days_def year_start_def split: if_splits)

lemma month_split_inv:
  "0 \<le> d \<Longrightarrow> d < sum_list ls \<Longrightarrow> month_split ls m d = (m', d') \<Longrightarrow>
     m \<le> m' \<and> m' < m + int (length ls) \<and> 1 \<le> d' \<and> d' \<le> ls ! nat (m' - m) \<and>
     sum_list (take (nat (m' - m)) ls) + d' - 1 = d"
proof (induction ls arbitrary: m d)
  case Nil
  then show ?case by simp
next
  case (Cons l ls)
  show ?case
  proof (cases "d < l")
    case True
    with Cons.prems show ?thesis by auto
  next
    case False
    with Cons.prems have rec: "month_split ls (m + 1) (d - l) = (m', d')" by simp
    from False Cons.prems have "0 \<le> d - l" "d - l < sum_list ls" by simp_all
    from Cons.IH [OF this rec]
    have ih: "m + 1 \<le> m'" "m' < m + 1 + int (length ls)" "1 \<le> d'" "d' \<le> ls ! nat (m' - (m + 1))"
      "sum_list (take (nat (m' - (m + 1))) ls) + d' - 1 = d - l" by simp_all
    then have k: "nat (m' - m) = Suc (nat (m' - (m + 1)))" by simp
    from ih show ?thesis unfolding k by simp
  qed
qed

lemma sum_month_lens: "sum_list (month_lens y) = year_len y"
  by (simp add: month_lens_def year_len_def)

lemma day_seconds:
  fixes s :: int
  assumes "s < 86400"
  shows "s div 3600 * 3600 + s mod 3600 div 60 * 60 + s mod 60 = s \<and> s div 3600 < 24"
proof
  have "s mod 3600 mod 60 = s mod 60" by (rule mod_mod_cancel) simp
  then have "s mod 3600 div 60 * 60 + s mod 60 = s mod 3600" by (metis div_mult_mod_eq)
  then show "s div 3600 * 3600 + s mod 3600 div 60 * 60 + s mod 60 = s"
    by (metis add.assoc div_mult_mod_eq)
  have "s div 3600 \<le> 86399 div 3600" using assms by (intro zdiv_mono1) simp_all
  then show "s div 3600 < 24" by simp
qed

lemma minute_range: "0 \<le> (s::int) mod 3600 div 60 \<and> s mod 3600 div 60 < 60"
proof
  show "0 \<le> s mod 3600 div 60" by simp
  have "s mod 3600 \<le> 3599" using pos_mod_bound [of 3600 s] by simp
  then have "s mod 3600 div 60 \<le> 3599 div 60" by (rule zdiv_mono1) simp
  then show "s mod 3600 div 60 < 60" by simp
qed

text \<open>\<open>gmtime\<close> is right: the date it gives is valid and \<open>timegm\<close> maps it back to
  the instant, rounded down to a whole second.\<close>

lemma gmtime_correct: "timegm (gmtime t) = \<lfloor>t\<rfloor> \<and> valid_tm (gmtime t)"
proof -
  define s where "s = \<lfloor>t\<rfloor>"
  define r where "r = s mod 86400"
  obtain y doy where yd: "year_of_days (s div 86400) = (y, doy)" by fastforce
  obtain m d where md: "month_split (month_lens y) 1 doy = (m, d)" by fastforce
  from year_of_days_inv [OF yd]
  have y: "year_start y + doy = s div 86400" "0 \<le> doy" "doy < sum_list (month_lens y)"
    by (simp_all add: sum_month_lens)
  from month_split_inv [OF y(2,3) md]
  have m: "1 \<le> m" "m \<le> 12" "1 \<le> d" "d \<le> month_lens y ! nat (m - 1)"
    "sum_list (take (nat (m - 1)) (month_lens y)) + d - 1 = doy"
    by (simp_all add: month_lens_def)
  have g: "gmtime t = \<lparr>tm_year = y, tm_mon = m, tm_mday = d, tm_hour = r div 3600,
      tm_min = r mod 3600 div 60, tm_sec = r mod 60\<rparr>"
    using yd md by (simp add: gmtime_def Let_def r_def s_def)
  have r: "0 \<le> r" "r < 86400" by (simp_all add: r_def)
  then have sec: "r div 3600 * 3600 + r mod 3600 div 60 * 60 + r mod 60 = r" "r div 3600 < 24"
    using day_seconds [of r] by simp_all
  have "timegm (gmtime t) =
      (year_start y + sum_list (take (nat (m - 1)) (month_lens y)) + d - 1) * 86400 +
      (r div 3600 * 3600 + r mod 3600 div 60 * 60 + r mod 60)"
    by (simp only: g timegm_def struct_time.select_convs add.assoc)
  also have "\<dots> = (s div 86400) * 86400 + r"
    using y(1) m(5) sec(1) by (simp only: add.assoc [symmetric]) simp
  also have "\<dots> = s" by (simp add: r_def)
  finally have "timegm (gmtime t) = \<lfloor>t\<rfloor>" by (simp add: s_def)
  with m sec(2) r minute_range [of r] show ?thesis by (simp add: g valid_tm_def)
qed

text \<open>C16: The boot time is the instant \<open>time.time() - uptime\<close>, rounded down to a
  second and printed as a valid UTC date: when the uptime file reads and parses, the
  reader returns \<open>strftime_iso st\<close> for a valid \<open>st\<close> that \<open>timegm\<close> maps to that
  instant; otherwise it raises the read or parse error.\<close>

theorem get_boot_time_instant:
  "case fst (get_boot_time w) of
     Inl e \<Rightarrow> rbind (file_at w ''/proc/uptime'') parse_uptime = Inl e
   | Inr s \<Rightarrow> (\<exists>up st. rbind (file_at w ''/proc/uptime'') parse_uptime = Inr up \<and> s = strftime_iso st \<and>
        valid_tm st \<and> timegm st = \<lfloor>clock_at w (Suc (tick w)) - up\<rfloor>)"
  using gmtime_correct by (auto simp: get_boot_time_eq rbind_def split: sum.split)

text \<open>An evaluation of the calendar: up for 3600.5 s when the clock reads 1700000000, the
  machine reports its boot time as \<open>2023-11-14T21:13:19Z\<close>.\<close>

lemma get_boot_time_scenario: "fst (get_boot_time boot_world) = Inr ''2023-11-14T21:13:19Z''"
  by (simp add: get_boot_time_eq boot_world_def file_at_def read_at_def parse_uptime_def py_simps
      gmtime_def year_of_days_def year_fwd_eval month_lens_def strftime_iso_def pad2_def py_str_int_def
      nat_digits.simps)

end
