(* ===== verification/Json.thy ===== *)
theory Json
  imports Prelude
begin

text \<open>
  The values the agent hands to \<open>json.dumps\<close> and the library's serialisation of
  them, modelled from its documented behaviour (the library is not part of the
  repository): separators \<open>", "\<close> and \<open>": "\<close>, \<open>ensure_ascii\<close> on, so that every
  character outside the printable ASCII range is written as a \<open>\u\<close> escape, and floats
  written as \<open>repr\<close> writes them. Floats are exact reals in this development; the
  snapshot's floats are all finite decimals (parsed decimal text, thousandths, or
  values rounded to a tenth), whose \<open>repr\<close> is their shortest decimal form, in fixed
  notation between \<open>1e-4\<close> and \<open>1e16\<close> and in scientific notation outside. The
  lemmas show that the text is ASCII, so its length in characters is its length in
  bytes once encoded, and that a JSON reader recovers every string.
\<close>

datatype pyval =
    PyNone
  | PyInt int
  | PyFloat real
  | PyStr string
  | PyList "pyval list"
  | PyDict "(string \<times> pyval) list"

section \<open>\<open>repr\<close> of a float\<close>

text \<open>The number of decimal places of a finite decimal, searched up to 340 places (below
  the smallest double); a value with no such expansion is cut there.\<close>

fun dec_places :: "nat \<Rightarrow> nat \<Rightarrow> real \<Rightarrow> nat" where
  "dec_places k 0 x = k"
| "dec_places k (Suc fuel) x =
     (if of_int \<lfloor>x * 10 ^ k\<rfloor> = x * 10 ^ k then k else dec_places (Suc k) fuel x)"

definition strip_zeros :: "string \<Rightarrow> string" where
  "strip_zeros s = rev (dropWhile (\<lambda>c. c = CHR ''0'') (rev s))"

text \<open>Fixed notation: the digits of \<open>n\<close> with a point \<open>k\<close> places from the right and at
  least one digit on each side.\<close>

definition repr_fixed :: "string \<Rightarrow> nat \<Rightarrow> string" where
  "repr_fixed ds k =
     (if k = 0 then ds @ ''.0''
      else let ds' = replicate (Suc k - length ds) (CHR ''0'') @ ds
           in take (length ds' - k) ds' @ ''.'' @ drop (length ds' - k) ds')"

definition repr_sci :: "string \<Rightarrow> int \<Rightarrow> string" where
  "repr_sci ds e =
     (let frac = strip_zeros (tl ds)
      in [hd ds] @ (if frac = [] then [] else CHR ''.'' # frac) @ ''e'' @
         (if e < 0 then ''-'' else ''+'') @
         (if \<bar>e\<bar> < 10 then ''0'' else []) @ py_str_int \<bar>e\<bar>)"

definition repr_pos :: "real \<Rightarrow> string" where
  "repr_pos x =
     (let k = dec_places 0 340 x; ds = nat_digits (nat \<lfloor>x * 10 ^ k\<rfloor>);
          e = int (length ds) - 1 - int k
      in if e < -4 \<or> 16 \<le> e then repr_sci ds e else repr_fixed ds k)"

definition py_float_repr :: "real \<Rightarrow> string" where
  "py_float_repr x =
     (if x = 0 then ''0.0'' else if x < 0 then CHR ''-'' # repr_pos (- x) else repr_pos x)"

section \<open>Strings\<close>

definition hex_digit :: "nat \<Rightarrow> char" where
  "hex_digit n = ''0123456789abcdef'' ! n"

text \<open>The backslash and the double quote, \<open>CHR 0x5C\<close> and \<open>CHR 0x22\<close>.\<close>

abbreviation bsl :: char where "bsl \<equiv> CHR 0x5C"

abbreviation dq :: char where "dq \<equiv> CHR 0x22"

definition json_esc_char :: "char \<Rightarrow> string" where
  "json_esc_char c =
     (if c = dq then [bsl, dq]
      else if c = bsl then [bsl, bsl]
      else if c = CHR ''\<newline>'' then [bsl, CHR ''n'']
      else if c = CHR 0x0D then [bsl, CHR ''r'']
      else if c = CHR 0x09 then [bsl, CHR ''t'']
      else if c = CHR 0x08 then [bsl, CHR ''b'']
      else if c = CHR 0x0C then [bsl, CHR ''f'']
      else if (32::nat) \<le> of_char c \<and> of_char c \<le> (126::nat) then [c]
      else [bsl] @ ''u00'' @ [hex_digit (of_char c div 16), hex_digit (of_char c mod 16)])"

definition json_str :: "string \<Rightarrow> string" where
  "json_str s = dq # concat (map json_esc_char s) @ [dq]"

section \<open>\<open>json.dumps\<close>\<close>

fun json_dumps :: "pyval \<Rightarrow> string" where
  "json_dumps PyNone = ''null''"
| "json_dumps (PyInt i) = py_str_int i"
| "json_dumps (PyFloat x) = py_float_repr x"
| "json_dumps (PyStr s) = json_str s"
| "json_dumps (PyList vs) = ''['' @ py_join '', '' (map json_dumps vs) @ '']''"
| "json_dumps (PyDict kvs) =
     ''{'' @ py_join '', '' (map (\<lambda>(k, v). json_str k @ '': '' @ json_dumps v) kvs) @ ''}''"

section \<open>Reading a JSON string back\<close>

text \<open>The reader's side of a JSON string (RFC 8259, section 7), as a collector's JSON
  library reads it: a \<open>\u\<close> escape with four hexadecimal digits of either case, the
  eight two-character escapes, and any other character from U+0020 on taken as it is.
  A code point above U+00FF has no character in this development and is refused.\<close>

definition hex_val :: "char \<Rightarrow> nat option" where
  "hex_val c = map_of (zip ''0123456789abcdefABCDEF''
                           [0, 1, 2, 3, 4, 5, 6, 7, 8, 9, 10, 11, 12, 13, 14, 15, 10, 11, 12, 13, 14, 15]) c"

definition simple_escapes :: "(char \<times> char) list" where
  "simple_escapes = [(dq, dq), (bsl, bsl), (CHR ''/'', CHR ''/''), (CHR ''b'', CHR 0x08),
     (CHR ''f'', CHR 0x0C), (CHR ''n'', CHR ''\<newline>''), (CHR ''r'', CHR 0x0D), (CHR ''t'', CHR 0x09)]"

function json_str_body :: "string \<Rightarrow> (string \<times> string) option" where
  "json_str_body [] = None"
| "json_str_body (c # cs) =
     (if c = dq then Some ([], cs)
      else if c = bsl then
        (case cs of
           [] \<Rightarrow> None
         | e # cs' \<Rightarrow>
             if e = CHR ''u'' then
               (case cs' of
                  h1 # h2 # h3 # h4 # rest \<Rightarrow>
                    (case (hex_val h1, hex_val h2, hex_val h3, hex_val h4) of
                       (Some a, Some b, Some c', Some d) \<Rightarrow>
                         (let n = ((a * 16 + b) * 16 + c') * 16 + d in
                          if n < 256 then map_option (apfst (Cons (char_of n))) (json_str_body rest)
                          else None)
                     | _ \<Rightarrow> None)
                | _ \<Rightarrow> None)
             else (case map_of simple_escapes e of
                     Some d \<Rightarrow> map_option (apfst (Cons d)) (json_str_body cs')
                   | None \<Rightarrow> None))
      else if of_char c < (32::nat) then None
      else map_option (apfst (Cons c)) (json_str_body cs))"
  by pat_completeness auto
termination by (relation "measure length") auto

definition json_read_str :: "string \<Rightarrow> (string \<times> string) option" where
  "json_read_str s = (case s of [] \<Rightarrow> None | c # cs \<Rightarrow> if c = dq then json_str_body cs else None)"

text \<open>The characters below 128, which UTF-8 encodes in one byte each.\<close>

definition ascii_chars :: "char set" where
  "ascii_chars = {c. of_char c < (128::nat)}"

section \<open>Lemmas\<close>

lemma dec_places_numeral [simp]:
  "dec_places k (numeral n) x =
     (if of_int \<lfloor>x * 10 ^ k\<rfloor> = x * 10 ^ k then k else dec_places (Suc k) (pred_numeral n) x)"
  by (simp add: numeral_eq_Suc)

lemma hex_digit_val: "n < 16 \<Longrightarrow> hex_val (hex_digit n) = Some n"
proof -
  have "\<forall>n<16. hex_val (hex_digit n) = Some n"
    by (simp add: hex_val_def hex_digit_def numeral_eq_Suc All_less_Suc)
  then show "n < 16 \<Longrightarrow> ?thesis" by blast
qed

lemma json_esc_char_read:
  "json_str_body (json_esc_char c @ X) = map_option (apfst (Cons c)) (json_str_body X)"
proof (cases "c \<in> {dq, bsl, CHR ''\<newline>'', CHR 0x0D, CHR 0x09, CHR 0x08, CHR 0x0C}")
  case True
  then show ?thesis by (auto simp: json_esc_char_def simple_escapes_def)
next
  case sp: False
  show ?thesis
  proof (cases "(32::nat) \<le> of_char c \<and> of_char c \<le> (126::nat)")
    case True
    with sp show ?thesis by (simp add: json_esc_char_def)
  next
    case np: False
    let ?n = "of_char c :: nat"
    have lt: "?n < 256" by (rule nat_of_char_less_256)
    then have "?n div 16 < 16" "?n mod 16 < 16" by (simp_all add: div_less_iff_less_mult)
    then have h: "hex_val (hex_digit (?n div 16)) = Some (?n div 16)"
      "hex_val (hex_digit (?n mod 16)) = Some (?n mod 16)" by (simp_all add: hex_digit_val)
    have z: "hex_val (CHR ''0'') = Some 0" by (simp add: hex_val_def)
    have e: "?n div 16 * 16 + ?n mod 16 = ?n" by simp
    from sp np show ?thesis by (simp add: json_esc_char_def h z e lt Let_def)
  qed
qed

lemma json_str_body_escaped: "json_str_body (concat (map json_esc_char s) @ dq # rest) = Some (s, rest)"
  by (induction s) (simp_all add: json_esc_char_read)

text \<open>A JSON reader reads back every string \<open>json.dumps\<close> writes: what follows the
  closing quote is left untouched, so the keys and string values of the snapshot
  (hostname, zone names, boot dates, \<open>last\<close> log lines) reach the collector unchanged.\<close>

lemma json_str_roundtrip: "json_read_str (json_str s @ rest) = Some (s, rest)"
  by (simp add: json_read_str_def json_str_def json_str_body_escaped)

lemma digits_ascii: "set (nat_digits n) \<subseteq> ascii_chars"
proof -
  have "\<forall>c\<in>set decimal_digits. c \<in> ascii_chars" by (simp add: decimal_digits_def ascii_chars_def)
  with nat_digits_digits [of n] show ?thesis by (auto simp: list_all_iff is_digit_def)
qed

lemma py_str_int_ascii: "set (py_str_int i) \<subseteq> ascii_chars"
  using digits_ascii by (auto simp: py_str_int_def ascii_chars_def)

lemma repr_fixed_chars: "set (repr_fixed ds k) \<subseteq> set ds \<union> {CHR ''0'', CHR ''.''}"
  by (auto simp: repr_fixed_def Let_def dest: in_set_takeD in_set_dropD)

lemma strip_zeros_chars: "set (strip_zeros s) \<subseteq> set s"
  by (auto simp: strip_zeros_def dest: set_dropWhileD)

lemma repr_sci_chars:
  "ds \<noteq> [] \<Longrightarrow> set (repr_sci ds e) \<subseteq> set ds \<union> {CHR ''.'', CHR ''e'', CHR ''-'', CHR ''+'', CHR ''0''} \<union> set (py_str_int \<bar>e\<bar>)"
  using strip_zeros_chars [of "tl ds"] by (auto simp: repr_sci_def Let_def dest: list.set_sel(2))

lemma repr_pos_ascii: "set (repr_pos y) \<subseteq> ascii_chars"
proof -
  have lit: "{CHR ''.'', CHR ''e'', CHR ''-'', CHR ''+'', CHR ''0''} \<subseteq> ascii_chars"
    by (simp add: ascii_chars_def)
  define k where "k = dec_places 0 340 y"
  define ds where "ds = nat_digits (nat \<lfloor>y * 10 ^ k\<rfloor>)"
  define e where "e = int (length ds) - 1 - int k"
  have ds: "ds \<noteq> []" "set ds \<subseteq> ascii_chars" by (simp_all add: ds_def nat_digits_not_Nil digits_ascii)
  have "set (repr_sci ds e) \<subseteq> ascii_chars"
    using repr_sci_chars [OF ds(1), of e] ds(2) py_str_int_ascii [of "\<bar>e\<bar>"] lit by blast
  moreover have "set (repr_fixed ds k) \<subseteq> ascii_chars"
    using repr_fixed_chars [of ds k] ds(2) lit by blast
  ultimately show ?thesis
    unfolding repr_pos_def Let_def k_def [symmetric] ds_def [symmetric] e_def [symmetric] by simp
qed

lemma py_float_repr_ascii: "set (py_float_repr x) \<subseteq> ascii_chars"
  using repr_pos_ascii by (simp add: py_float_repr_def ascii_chars_def)

lemma hex_digit_ascii: "n < 16 \<Longrightarrow> hex_digit n \<in> ascii_chars"
proof -
  have "\<forall>n<16. hex_digit n \<in> ascii_chars"
    by (simp add: hex_digit_def ascii_chars_def numeral_eq_Suc All_less_Suc)
  then show "n < 16 \<Longrightarrow> ?thesis" by blast
qed

lemma json_esc_char_ascii: "set (json_esc_char c) \<subseteq> ascii_chars"
proof -
  have "of_char c div 16 < (16::nat)" "of_char c mod 16 < (16::nat)"
    using nat_of_char_less_256 [of c] by (simp_all add: div_less_iff_less_mult)
  then have "hex_digit (of_char c div 16) \<in> ascii_chars" "hex_digit (of_char c mod 16) \<in> ascii_chars"
    by (simp_all add: hex_digit_ascii)
  then show ?thesis by (auto simp: json_esc_char_def ascii_chars_def)
qed

lemma json_str_ascii: "set (json_str s) \<subseteq> ascii_chars"
  using json_esc_char_ascii by (auto simp: json_str_def ascii_chars_def)

lemma py_join_chars: "set (py_join sep xs) \<subseteq> set sep \<union> \<Union> (set ` set xs)"
  by (induction sep xs rule: py_join.induct) auto

lemma json_dumps_chars: "set (json_dumps v) \<subseteq> ascii_chars"
proof (induction v rule: json_dumps.induct)
  case (5 vs)
  have "\<Union> (set ` set (map json_dumps vs)) \<subseteq> ascii_chars" using "5.IH" by auto
  moreover have "set '', '' \<subseteq> ascii_chars" by (simp add: ascii_chars_def)
  ultimately have "set (py_join '', '' (map json_dumps vs)) \<subseteq> ascii_chars"
    using py_join_chars [of "'', ''" "map json_dumps vs"] by blast
  then show ?case by (simp add: ascii_chars_def)
next
  case (6 kvs)
  have "set (json_str k @ '': '' @ json_dumps v) \<subseteq> ascii_chars" if "(k, v) \<in> set kvs" for k v
    using "6.IH" [OF that refl] json_str_ascii [of k] by (simp add: ascii_chars_def)
  then have "\<Union> (set ` set (map (\<lambda>(k, v). json_str k @ '': '' @ json_dumps v) kvs)) \<subseteq> ascii_chars"
    by auto
  moreover have "set '', '' \<subseteq> ascii_chars" by (simp add: ascii_chars_def)
  ultimately have "set (py_join '', '' (map (\<lambda>(k, v). json_str k @ '': '' @ json_dumps v) kvs))
      \<subseteq> ascii_chars"
    using py_join_chars [of "'', ''" "map (\<lambda>(k, v). json_str k @ '': '' @ json_dumps v) kvs"] by blast
  then show ?case by (simp add: ascii_chars_def)
qed (simp_all add: py_str_int_ascii py_float_repr_ascii json_str_ascii, simp add: ascii_chars_def)

text \<open>\<open>json.dumps\<close> (with \<open>ensure_ascii\<close>) writes only ASCII characters, whatever the
  value: the body's length in bytes is its length in characters.\<close>

lemma json_dumps_ascii: "list_all (\<lambda>c. of_char c < (128::nat)) (json_dumps v)"
  using json_dumps_chars [of v] by (auto simp: list_all_iff ascii_chars_def)

end
