(* ===== verification/Aggregator.thy ===== *)
theory Aggregator
  imports CpuSampler Thermal Gpu BootLog Clock Json
begin

text \<open>
  \<open>collect_metrics\<close> (lines 191--204) calls every reader once, in the order of the
  dict display (Python evaluates the values left to right), and builds the snapshot.
  Any exception a reader lets out ends the call: the readers after it do not run and no
  snapshot is built. The snapshot is a record with one field per key; \<open>snapshot_dict\<close>
  is the dict \<open>json.dumps\<close> receives, with the keys in the source's order and the nested
  dicts of \<open>get_memory\<close>, \<open>get_disk\<close> and \<open>get_reboot_causes\<close>. The lemmas show what
  the agent may do to the machine (only the three known commands, with their timeouts,
  one sleep of 0.1 s, and \<open>statvfs\<close> of \<open>/\<close>) and, by composing the readers'
  postconditions along \<open>io_bind\<close>, that a machine without GPU sources gives a snapshot
  without GPU figures.
\<close>

record metrics =
  m_hostname :: string
  m_uptime_seconds :: real
  m_boot_time :: string
  m_temperatures :: "(string \<times> real) list"
  m_memory :: memory
  m_load_avg :: "real list"
  m_cpu_percent :: "real option"
  m_gpu_percent :: "real option"
  m_recent_boots :: "string list"
  m_reboot_causes :: "(string \<times> reboot_cause) list"
  m_disk :: disk

definition collect_metrics :: "metrics io" where
  "collect_metrics =
     io_bind get_hostname (\<lambda>hostname.
     io_bind get_uptime (\<lambda>uptime.
     io_bind get_boot_time (\<lambda>boot_time.
     io_bind get_temperatures (\<lambda>temperatures.
     io_bind get_memory (\<lambda>memory.
     io_bind get_load_avg (\<lambda>load_avg.
     io_bind get_cpu_percent (\<lambda>cpu_percent.
     io_bind get_gpu_percent (\<lambda>gpu_percent.
     io_bind get_recent_boots (\<lambda>recent_boots.
     io_bind get_reboot_causes (\<lambda>reboot_causes.
     io_bind get_disk (\<lambda>disk.
     io_return \<lparr>m_hostname = hostname, m_uptime_seconds = py_round1 uptime, m_boot_time = boot_time,
       m_temperatures = temperatures, m_memory = memory, m_load_avg = load_avg,
       m_cpu_percent = cpu_percent, m_gpu_percent = gpu_percent, m_recent_boots = recent_boots,
       m_reboot_causes = reboot_causes, m_disk = disk\<rparr>)))))))))))"

section \<open>The dict handed to \<open>json.dumps\<close>\<close>

definition py_opt_float :: "real option \<Rightarrow> pyval" where
  "py_opt_float r = (case r of None \<Rightarrow> PyNone | Some x \<Rightarrow> PyFloat x)"

definition memory_dict :: "memory \<Rightarrow> pyval" where
  "memory_dict m = PyDict [(''total_mb'', PyFloat (total_mb m)), (''used_mb'', PyFloat (used_mb m)),
     (''available_mb'', PyFloat (available_mb m)), (''swap_total_mb'', PyFloat (swap_total_mb m)),
     (''swap_used_mb'', PyFloat (swap_used_mb m))]"

definition disk_dict :: "disk \<Rightarrow> pyval" where
  "disk_dict d = PyDict [(''total_gb'', PyFloat (total_gb d)), (''used_gb'', PyFloat (used_gb d)),
     (''free_gb'', PyFloat (free_gb d))]"

definition causes_dict :: "(string \<times> reboot_cause) list \<Rightarrow> pyval" where
  "causes_dict cs = PyDict (map (\<lambda>(k, r). (k, PyDict [(''cause'', PyStr (cause r)),
     (''detail'', PyStr (detail r))])) cs)"

definition snapshot_dict :: "metrics \<Rightarrow> pyval" where
  "snapshot_dict m = PyDict [
     (''hostname'', PyStr (m_hostname m)),
     (''uptime_seconds'', PyFloat (m_uptime_seconds m)),
     (''boot_time'', PyStr (m_boot_time m)),
     (''temperatures'', PyDict (map (\<lambda>(k, t). (k, PyFloat t)) (m_temperatures m))),
     (''memory'', memory_dict (m_memory m)),
     (''load_avg'', PyList (map PyFloat (m_load_avg m))),
     (''cpu_percent'', py_opt_float (m_cpu_percent m)),
     (''gpu_percent'', py_opt_float (m_gpu_percent m)),
     (''recent_boots'', PyList (map PyStr (m_recent_boots m))),
     (''reboot_causes'', causes_dict (m_reboot_causes m)),
     (''disk'', disk_dict (m_disk m))]"

section \<open>What the agent does to the machine\<close>

text \<open>The interactions a request may perform: any file read, glob or clock read, but
  only the three known commands with their timeouts, only the 0.1 s sleep, and only
  \<open>statvfs("/")\<close>.\<close>

definition agent_event :: "io_event \<Rightarrow> bool" where
  "agent_event ev =
     (case ev of
        RunCmd argv t \<Rightarrow> (argv, t) \<in> set [(nvidia_temp_argv, 3), (nvidia_util_argv, 3), (last_argv, 5)]
      | Sleep d \<Rightarrow> d = 1 / 10
      | StatVfs p \<Rightarrow> p = ''/''
      | _ \<Rightarrow> True)"

section \<open>Machines for the scenarios\<close>

text \<open>\<open>node_world\<close>: the spec's memory figures, a load average, the CPU samples of the
  spec (the second sample is what \<open>/proc/stat\<close> shows after the sleep, at instant 9),
  the spec's disk, no thermal zone, no \<open>nvidia-smi\<close>, no Jetson file and no \<open>last\<close>.\<close>

definition node_stat :: "nat \<Rightarrow> string" where
  "node_stat k = (if k \<le> 8 then ''cpu  2000 500 1500 1000 0\<newline>'' else ''cpu  2100 500 1550 1050 0\<newline>'')"

definition node_world :: world where
  "node_world = \<lparr>tick = 0,
     fs_at = (\<lambda>k. [(''/etc/hostname'', Some ''node1\<newline>''), (''/proc/uptime'', Some ''3600.5 7200.25\<newline>''),
       (''/proc/meminfo'', Some ''MemTotal:       16384000 kB\<newline>MemAvailable:    8192000 kB\<newline>SwapTotal:       2048000 kB\<newline>SwapFree:        2048000 kB\<newline>''),
       (''/proc/loadavg'', Some ''0.52 0.58 0.59 1/389 12345\<newline>''),
       (''/proc/stat'', Some (node_stat k))]),
     cmd_at = (\<lambda>k argv. CmdNotFound), clock_at = (\<lambda>k. 1700000000),
     statvfs_at = (\<lambda>k p. if p = ''/'' then Some \<lparr>f_blocks = 100, f_bfree = 40, f_frsize = 4096\<rparr> else None),
     io_log = []\<rparr>"

section \<open>Lemmas\<close>


lemma agent_event_simps [simp]:
  "agent_event (ReadFile p)" "agent_event (GlobPaths p)" "agent_event TimeNow"
  "agent_event (Sleep (1 / 10))" "agent_event (StatVfs ''/'')"
  "agent_event (RunCmd nvidia_temp_argv 3)" "agent_event (RunCmd nvidia_util_argv 3)"
  "agent_event (RunCmd last_argv 5)"
  by (simp_all add: agent_event_def)

lemma io_all_primitives [io_ok_intros]:
  "io_all agent_event (read_file p)" "io_all agent_event (glob p)" "io_all agent_event time_time"
  "io_all agent_event (time_sleep (1 / 10))" "io_all agent_event (os_statvfs ''/'')"
  "io_all agent_event (run_cmd nvidia_temp_argv 3)" "io_all agent_event (run_cmd nvidia_util_argv 3)"
  "io_all agent_event (run_cmd last_argv 5)"
  by (simp_all add: read_file_def glob_def time_time_def time_sleep_def os_statvfs_def run_cmd_def
      io_all_effect)

lemma io_all_zones_loop [io_ok_intros]: "io_all agent_event (zones_loop acc zs)"
  by (induction acc zs rule: zones_loop.induct) (simp_all add: read_zone_def Let_def io_ok_intros)

lemma io_all_jetson_loop [io_ok_intros]: "io_all agent_event (jetson_loop ps)"
  by (induction ps) (simp_all add: Let_def io_ok_intros)

lemma io_all_readers:
  "io_all agent_event get_hostname" "io_all agent_event get_uptime" "io_all agent_event get_boot_time"
  "io_all agent_event get_temperatures" "io_all agent_event get_memory" "io_all agent_event get_load_avg"
  "io_all agent_event get_cpu_percent" "io_all agent_event get_gpu_percent"
  "io_all agent_event get_recent_boots" "io_all agent_event get_reboot_causes"
  "io_all agent_event get_disk"
  unfolding get_hostname_def get_uptime_def get_boot_time_def get_temperatures_def
    gpu_temp_fallback_def get_memory_def get_load_avg_def get_cpu_percent_def read_sample_def
    get_gpu_percent_def nvidia_util_def jetson_fallback_def get_recent_boots_def get_reboot_causes_def
    get_disk_def
  by (intro io_ok_intros)+

lemmas io_ok_readers = io_all_readers [THEN io_all_ok]

text \<open>C4: Whatever the machine, a request only runs \<open>nvidia-smi\<close> for the temperature
  and for the utilisation with a 3 s timeout and \<open>last reboot -F\<close> with a 5 s timeout,
  sleeps only 0.1 s and calls \<open>statvfs\<close> only on \<open>/\<close>; it does not change the machine
  (files, commands, clock and file systems are as before).\<close>

theorem collect_metrics_agent_events: "io_all agent_event collect_metrics"
  unfolding collect_metrics_def get_hostname_def get_uptime_def get_boot_time_def get_temperatures_def
    gpu_temp_fallback_def get_memory_def get_load_avg_def get_cpu_percent_def read_sample_def
    get_gpu_percent_def nvidia_util_def jetson_fallback_def get_recent_boots_def get_reboot_causes_def
    get_disk_def
  by (intro io_ok_intros)+


text \<open>An evaluation of the spec's scenario end to end: on \<open>node_world\<close> every field is as
  the readers compute it (the spec's memory and CPU figures, the disk rounded to 0.0).\<close>

lemma collect_metrics_no_gpu_scenario:
  "fst (collect_metrics node_world) = Inr \<lparr>m_hostname = ''node1'', m_uptime_seconds = 36005 / 10,
    m_boot_time = ''2023-11-14T21:13:19Z'', m_temperatures = [],
    m_memory = \<lparr>total_mb = 16000, used_mb = 8000, available_mb = 8000, swap_total_mb = 2000,
      swap_used_mb = 0\<rparr>,
    m_load_avg = [52 / 100, 58 / 100, 59 / 100], m_cpu_percent = Some 75, m_gpu_percent = None,
    m_recent_boots = [], m_reboot_causes = [], m_disk = \<lparr>total_gb = 0, used_gb = 0, free_gb = 0\<rparr>\<rparr>"
  by (simp add: collect_metrics_def io_bind_def get_hostname_eq get_uptime_eq get_boot_time_eq
      get_memory_eq get_load_avg_eq get_cpu_percent_eq get_recent_boots_eq get_reboot_causes_eq get_disk_eq
      get_temperatures_def glob_def io_effect_def io_return_def gpu_temp_fallback_def has_gpu_key_def
      run_cmd_def cmd_result_def io_catch_def io_lift_def thermal_glob_def
      get_gpu_percent_def nvidia_util_def jetson_fallback_def jetson_load_path_def
      node_world_def node_stat_def file_at_def read_at_def sample_at_def cpu_sample_def cpu_util_def
      parse_meminfo_def memory_of_info_def parse_loadavg_def disk_of_def os_statvfs_def
      gmtime_def year_of_days_def year_fwd_eval month_lens_def strftime_iso_def pad2_def py_str_int_def
      nat_digits.simps parse_uptime_def py_simps)

text \<open>C10: On any machine with no \<open>nvidia-smi\<close> (missing or timing out, for both
  queries, at every instant) and no Jetson load file, a snapshot has no GPU utilisation,
  and every temperature key it holds is a thermal zone's: no \<open>gpu\<close> key is made up.\<close>

theorem collect_metrics_no_gpu:
  assumes "\<forall>k. cmd_at w k nvidia_temp_argv \<in> {CmdNotFound, CmdTimeout} \<and>
      cmd_at w k nvidia_util_argv \<in> {CmdNotFound, CmdTimeout} \<and> jetson_load_path \<notin> set (map fst (fs_at w k))"
    and "fst (collect_metrics w) = Inr m"
  shows "m_gpu_percent m = None \<and> list_all (\<lambda>(k, v). py_startswith k ''thermal_zone'') (m_temperatures m)"
proof -
  define E :: "world \<Rightarrow> bool" where "E w \<longleftrightarrow> (\<forall>k. cmd_at w k nvidia_temp_argv \<in> {CmdNotFound, CmdTimeout} \<and>
      cmd_at w k nvidia_util_argv \<in> {CmdNotFound, CmdTimeout} \<and> jetson_load_path \<notin> set (map fst (fs_at w k)))"
    for w
  have e: "env_inv E" by (simp add: E_def env_inv_def same_env_def)
  have t: "io_post E (list_all (\<lambda>(k, v). py_startswith k ''thermal_zone'')) get_temperatures"
    by (rule io_post_weaken [OF get_temperatures_no_tool]) (simp add: E_def)
  have g: "io_post E (\<lambda>g. g = None) get_gpu_percent"
    by (rule io_post_weaken [OF get_gpu_percent_none_post]) (simp add: E_def)
  have "io_post E (\<lambda>m. m_gpu_percent m = None \<and>
      list_all (\<lambda>(k, v). py_startswith k ''thermal_zone'') (m_temperatures m)) collect_metrics"
    unfolding collect_metrics_def
    apply (rule io_post_bind_any [OF e io_ok_readers(1)])
    apply (rule io_post_bind_any [OF e io_ok_readers(2)])
    apply (rule io_post_bind_any [OF e io_ok_readers(3)])
    apply (rule io_post_bind [OF e io_ok_readers(4) t])
    apply (rule io_post_bind_any [OF e io_ok_readers(5)])
    apply (rule io_post_bind_any [OF e io_ok_readers(6)])
    apply (rule io_post_bind_any [OF e io_ok_readers(7)])
    apply (rule io_post_bind [OF e io_ok_readers(8) g])
    apply (rule io_post_bind_any [OF e io_ok_readers(9)])
    apply (rule io_post_bind_any [OF e io_ok_readers(10)])
    apply (rule io_post_bind_any [OF e io_ok_readers(11)])
    apply (rule io_post_return)
    apply simp
    done
  then show ?thesis using assms by (auto simp: E_def dest: io_postD)
qed

theorem collect_metrics_no_gpu_witness:
  "\<exists>m. fst (collect_metrics node_world) = Inr m \<and> m_gpu_percent m = None \<and>
     list_all (\<lambda>(k, v). py_startswith k ''thermal_zone'') (m_temperatures m)"
  using collect_metrics_no_gpu [OF _ collect_metrics_no_gpu_scenario] collect_metrics_no_gpu_scenario
  by (simp add: node_world_def nvidia_temp_argv_def nvidia_util_argv_def jetson_load_path_def)

text \<open>C11: No hung tool aborts a request: each of the three \<open>subprocess.run\<close> calls has
  its \<open>TimeoutExpired\<close> caught where it is made, so \<open>collect_metrics\<close> never raises
  \<open>TimeoutExpired\<close>, whatever the machine.\<close>

theorem collect_metrics_no_timeout: "fst (collect_metrics w) \<noteq> Inl TimeoutExpired"
proof -
  have "io_raises (\<lambda>e. e \<noteq> TimeoutExpired) collect_metrics"
    unfolding collect_metrics_def get_hostname_def get_uptime_def parse_uptime_def get_boot_time_def
      get_temperatures_def gpu_temp_fallback_def get_memory_def parse_meminfo_def get_load_avg_def
      parse_loadavg_def Let_def get_cpu_percent_def read_sample_def cpu_sample_def get_gpu_percent_def
      nvidia_util_def jetson_fallback_def get_recent_boots_def get_reboot_causes_def get_disk_def
    by (intro raises_intros) simp_all
  then show ?thesis by (auto simp: io_raises_def)
qed

end
