(* ===== verification/Http.thy ===== *)
theory Http
  imports Aggregator
begin

text \<open>
  \<open>MetricsHandler\<close> and the server (lines 207--227). \<open>do_GET\<close> answers \<open>/metrics\<close>
  with status 200, a JSON body and its \<open>Content-Type\<close> and \<open>Content-Length\<close> headers,
  and every other path with a bare 404. A request with another method never reaches
  the handler: \<open>BaseHTTPRequestHandler\<close> finds no \<open>do_\<close> method and sends its 501
  error page. An exception out of \<open>collect_metrics\<close> leaves \<open>do_GET\<close> before anything
  is sent; \<open>socketserver\<close> reports it and closes the connection, and the server goes
  on with the next request. The headers the library adds to every reply
  (\<open>Server\<close>, \<open>Date\<close>) and the text of its error page are not modelled.

  The server is a step relation: each step takes one request from any client and
  appends its outcome (a reply sent, or a request aborted by an exception) to the
  server's record. The lemmas show the 200 reply's headers against its body, the 404
  and 501 replies, that an exception sends nothing and becomes the request's outcome,
  and that every reachable state holds only well-formed replies.
\<close>

section \<open>Replies\<close>

text \<open>\<open>str.encode()\<close>: UTF-8, one byte below U+0080 and two bytes up to U+00FF.\<close>

definition utf8_encode :: "string \<Rightarrow> nat list" where
  "utf8_encode s =
     concat (map (\<lambda>c. let n = of_char c :: nat in if n < 128 then [n] else [192 + n div 64, 128 + n mod 64]) s)"

record request =
  req_method :: string
  req_path :: string

text \<open>A reply: a status, the headers the handler sends, and the body; or the library's
  error page for a status.\<close>

datatype reply =
    Reply nat "(string \<times> string) list" "nat list"
  | ErrorReply nat

definition metrics_reply :: "metrics \<Rightarrow> reply" where
  "metrics_reply data =
     (let body = utf8_encode (json_dumps (snapshot_dict data))
      in Reply 200 [(''Content-Type'', ''application/json''), (''Content-Length'', py_str_int (int (length body)))]
           body)"

definition do_GET :: "string \<Rightarrow> reply io" where
  "do_GET path = (if path = ''/metrics'' then io_map metrics_reply collect_metrics else io_return (Reply 404 [] []))"

definition handle_request :: "request \<Rightarrow> reply io" where
  "handle_request req = (if req_method req = ''GET'' then do_GET (req_path req) else io_return (ErrorReply 501))"

section \<open>The server\<close>

datatype outcome = Sent reply | Aborted py_error

record server =
  port :: int
  outcomes :: "outcome list"

definition serve_one :: "request \<Rightarrow> server \<times> world \<Rightarrow> server \<times> world" where
  "serve_one req sw =
     (let (r, w') = handle_request req (snd sw)
      in ((fst sw)\<lparr>outcomes := outcomes (fst sw) @ [case r of Inl e \<Rightarrow> Aborted e | Inr rep \<Rightarrow> Sent rep]\<rparr>, w'))"

inductive serve_step :: "server \<times> world \<Rightarrow> server \<times> world \<Rightarrow> bool" where
  serve: "serve_step sw (serve_one req sw)"

inductive reachable :: "int \<Rightarrow> world \<Rightarrow> server \<times> world \<Rightarrow> bool" for p w0 where
  init: "reachable p w0 (\<lparr>port = p, outcomes = []\<rparr>, w0)"
| step: "reachable p w0 sw \<Longrightarrow> serve_step sw sw' \<Longrightarrow> reachable p w0 sw'"

section \<open>Well-formed replies\<close>

definition reply_ok :: "reply \<Rightarrow> bool" where
  "reply_ok r =
     (case r of
        Reply st hs b \<Rightarrow>
          (st = 200 \<and> map fst hs = [''Content-Type'', ''Content-Length''] \<and>
           map_of hs ''Content-Type'' = Some ''application/json'' \<and>
           map_option py_int (map_of hs ''Content-Length'') = Some (Inr (int (length b))) \<and>
           list_all (\<lambda>n. n < 128) b) \<or>
          (st = 404 \<and> hs = [] \<and> b = [])
      | ErrorReply c \<Rightarrow> c = 501)"

definition outcome_ok :: "outcome \<Rightarrow> bool" where
  "outcome_ok oc = (case oc of Sent r \<Rightarrow> reply_ok r | Aborted e \<Rightarrow> True)"

section \<open>Lemmas\<close>


lemma utf8_encode_ascii:
  "list_all (\<lambda>c. of_char c < (128::nat)) s \<Longrightarrow> utf8_encode s = map of_char s"
  by (induction s) (simp_all add: utf8_encode_def)

lemma metrics_reply_ok: "reply_ok (metrics_reply m)"
proof -
  let ?s = "json_dumps (snapshot_dict m)"
  have a: "list_all (\<lambda>c. of_char c < (128::nat)) ?s" by (rule json_dumps_ascii)
  then have b: "utf8_encode ?s = map of_char ?s" by (rule utf8_encode_ascii)
  from a have "list_all (\<lambda>n. n < 128) (map of_char ?s :: nat list)" by (simp add: list_all_iff)
  then show ?thesis by (simp add: metrics_reply_def reply_ok_def b py_int_py_str_int)
qed

lemma handle_request_fst:
  "fst (handle_request req w) =
     (if req_method req = ''GET''
      then if req_path req = ''/metrics'' then map_sum id metrics_reply (fst (collect_metrics w))
           else Inr (Reply 404 [] [])
      else Inr (ErrorReply 501))"
  by (simp add: handle_request_def do_GET_def io_map_def io_bind_def io_return_def
      split: prod.split sum.split)

lemma reply_ok_404_501: "reply_ok (Reply 404 [] [])" "reply_ok (ErrorReply 501)"
  by (simp_all add: reply_ok_def)

lemma handle_request_ok: "case fst (handle_request req w) of Inl e \<Rightarrow> True | Inr r \<Rightarrow> reply_ok r"
  using metrics_reply_ok reply_ok_404_501
  by (cases "fst (collect_metrics w)") (simp_all add: handle_request_fst)

lemma serve_one_outcomes:
  "\<exists>oc. outcomes (fst (serve_one req sw)) = outcomes (fst sw) @ [oc] \<and> outcome_ok oc \<and>
       port (fst (serve_one req sw)) = port (fst sw)"
  using handle_request_ok [of req "snd sw"]
  by (auto simp: serve_one_def outcome_ok_def split: prod.split sum.split)

text \<open>C3: Every reachable state of the server holds only well-formed replies: a 200 reply
  is JSON with a \<open>Content-Length\<close> that reads back as the body's length in bytes and an
  ASCII body, a 404 reply is bare, any other reply is the 501 page; and the port never
  changes.\<close>

theorem reachable_outcomes_ok:
  "reachable p w0 sw \<Longrightarrow> list_all outcome_ok (outcomes (fst sw)) \<and> port (fst sw) = p"
proof (induction rule: reachable.induct)
  case init
  then show ?case by simp
next
  case (step sw sw')
  from step.hyps(2) obtain req where "sw' = serve_one req sw" by (cases rule: serve_step.cases) simp
  with step.IH serve_one_outcomes [of req sw] show ?case by auto
qed

theorem reachable_outcomes_ok_witness:
  "list_all outcome_ok (outcomes (fst (serve_one \<lparr>req_method = ''GET'', req_path = ''/''\<rparr>
      (\<lparr>port = 9100, outcomes = []\<rparr>, node_world)))) \<and>
   port (fst (serve_one \<lparr>req_method = ''GET'', req_path = ''/''\<rparr> (\<lparr>port = 9100, outcomes = []\<rparr>, node_world))) = 9100"
  by (rule reachable_outcomes_ok [OF reachable.step [OF reachable.init serve_step.serve]])

text \<open>C2: \<open>GET /metrics\<close> runs \<open>collect_metrics\<close>; when it raises, nothing is sent and
  the exception is the request's outcome; otherwise the reply is 200 with the JSON text
  of the snapshot as body, \<open>Content-Type: application/json\<close>, and a
  \<open>Content-Length\<close> equal to the length of that text, which is also its length in
  bytes.\<close>

theorem handle_metrics_request:
  "case fst (handle_request \<lparr>req_method = ''GET'', req_path = ''/metrics''\<rparr> w) of
     Inl e \<Rightarrow> fst (collect_metrics w) = Inl e
   | Inr r \<Rightarrow> (\<exists>m. fst (collect_metrics w) = Inr m \<and>
       r = Reply 200 [(''Content-Type'', ''application/json''),
             (''Content-Length'', py_str_int (int (length (json_dumps (snapshot_dict m)))))]
           (map of_char (json_dumps (snapshot_dict m))))"
  using json_dumps_ascii
  by (cases "fst (collect_metrics w)") (simp_all add: handle_request_fst metrics_reply_def utf8_encode_ascii)

text \<open>C9: A \<open>GET\<close> for any other path, \<open>/metrics?x=1\<close> and \<open>/metrics/\<close> included, gets a
  404 with no header of the handler's and an empty body, and reads nothing from the
  machine.\<close>

theorem handle_other_path:
  assumes "req_method req = ''GET''" and "req_path req \<noteq> ''/metrics''"
  shows "handle_request req w = (Inr (Reply 404 [] []), w)"
  using assms by (simp add: handle_request_def do_GET_def io_return_def)

theorem handle_other_path_witness:
  "handle_request \<lparr>req_method = ''GET'', req_path = ''/metrics?x=1''\<rparr> node_world =
     (Inr (Reply 404 [] []), node_world)"
  by (rule handle_other_path) simp_all

text \<open>C15: A request with any method other than \<open>GET\<close> (\<open>HEAD\<close>, \<open>POST\<close>, a lower-case
  \<open>get\<close>) gets the library's 501 page, not the 404 the spec asks for, whatever its path.\<close>

theorem handle_non_get:
  assumes "req_method req \<noteq> ''GET''"
  shows "handle_request req w = (Inr (ErrorReply 501), w)"
  using assms by (simp add: handle_request_def io_return_def)

theorem handle_non_get_witness:
  "handle_request \<lparr>req_method = ''HEAD'', req_path = ''/metrics''\<rparr> node_world = (Inr (ErrorReply 501), node_world)"
  by (rule handle_non_get) simp

end
