(* ===== verification/Config.thy ===== *)
theory Config
  imports Http
begin



section \<open>Lemmas\<close>



end
