(* ===== verification/Spec2Isabelle.thy ===== *)
theory Spec2Isabelle
  imports Config
begin

text \<open>
  \<^bold>\<open>A verification development of the fleet metrics agent\<close>
  (\<open>src/plugins/fleet-metrics/fleet_metrics.py\<close>).

  \<^bold>\<open>The program.\<close> A single Python process serves \<open>GET /metrics\<close> over HTTP. Each
  request calls \<open>collect_metrics\<close>, which calls eleven source readers in turn:
  hostname, uptime, boot time, temperatures, memory, load average, CPU and GPU
  utilisation, recent boots, reboot causes and disk. It serialises the resulting dict
  with \<open>json.dumps\<close> and sends it. The readers touch the machine through files under
  \<open>/proc\<close> and \<open>/sys\<close>, \<open>glob\<close>, \<open>subprocess.run\<close> (\<open>nvidia-smi\<close>, \<open>last\<close>),
  \<open>time.time\<close>, \<open>time.sleep\<close> and \<open>os.statvfs\<close>.

  \<^bold>\<open>The machine.\<close> \<open>OsWorld\<close> models the machine as a record \<open>world\<close>. Its oracles give,
  at each instant (a tick), the file system, each command's outcome, the clock and
  \<open>statvfs\<close>. It also keeps a log of the interactions performed. The readers are
  operations \<open>'a io = world \<Rightarrow> (py_error + 'a) \<times> world\<close>. In this exception-and-state
  monad, \<open>io_bind\<close> is Python's sequencing and \<open>io_catch\<close> its
  \<open>try/except\<close> with the caught classes as a predicate. Every primitive interaction
  reads the oracle at the current tick, advances the tick and logs one event, so a
  file read after \<open>time.sleep\<close> sees the file as it is then. \<open>io_ok\<close> and \<open>io_all\<close>
  are frame predicates: an operation never changes the oracles, and every event it
  logs satisfies a given predicate. Their closure rules form the collection
  \<open>io_ok_intros\<close>. \<open>io_post E Q m\<close> is a partial-correctness postcondition: on
  every machine satisfying \<open>E\<close>, a value \<open>m\<close> returns satisfies \<open>Q\<close>. When \<open>E\<close>
  speaks of the oracles only (\<open>env_inv\<close>), postconditions compose along \<open>io_bind\<close>
  (\<open>io_post_bind\<close>), which is how the readers' guarantees are carried through
  \<open>collect_metrics\<close>. \<open>io_raises S m\<close> is an exception specification: every exception
  \<open>m\<close> lets out is in the class \<open>S\<close>. Its closure rules (\<open>raises_intros\<close>, with
  \<open>res_raises\<close> for the pure parsers) follow \<open>try/except\<close>: a handler removes the
  classes it names.

  \<^bold>\<open>Theories and correspondence.\<close>
  \<^item> \<open>Prelude\<close>: the Python built-ins the code uses, as executable functions:
    \<open>str.split\<close>, \<open>strip\<close>, \<open>startswith\<close>, \<open>join\<close>, indexing and slicing,
    \<open>int()\<close>, \<open>float()\<close>, \<open>round(x, 1)\<close>, \<open>str(int)\<close> and insertion-ordered dicts;
    the exception classes \<open>py_error\<close>; shared lemmas such as
    \<open>py_int (py_str_int i) = Inr i\<close> and the rounding bounds.
  \<^item> \<open>Readers\<close>: \<open>get_hostname\<close>, \<open>get_uptime\<close>, \<open>get_memory\<close>, \<open>get_load_avg\<close>,
    \<open>get_disk\<close> (lines 20--27, 64--89, 179--188).
  \<^item> \<open>CpuSampler\<close>: \<open>get_cpu_percent\<close> (lines 92--111), two samples of
    \<open>/proc/stat\<close> around \<open>time.sleep(0.1)\<close>.
  \<^item> \<open>Thermal\<close>: \<open>get_temperatures\<close> (lines 35--61), the thermal-zone loop and the
    \<open>nvidia-smi\<close> fallback.
  \<^item> \<open>Gpu\<close>: \<open>get_gpu_percent\<close> (lines 114--136), \<open>nvidia-smi\<close> and then the Jetson
    load file.
  \<^item> \<open>BootLog\<close>: \<open>get_recent_boots\<close> and \<open>get_reboot_causes\<close> (lines 139--176).
  \<^item> \<open>Clock\<close>: \<open>get_boot_time\<close> (lines 30--32), with \<open>time.gmtime\<close> and
    \<open>time.strftime\<close> modelled from their documentation and \<open>timegm\<close> as their
    inverse.
  \<^item> \<open>Json\<close>: the values handed to \<open>json.dumps\<close> (\<open>pyval\<close>), the library's
    serialisation with \<open>ensure_ascii\<close> and float \<open>repr\<close>, and a JSON string reader
    for the collector's side.
  \<^item> \<open>Aggregator\<close>: \<open>collect_metrics\<close> (lines 191--204) as the readers in dict order
    giving a record \<open>metrics\<close>, and \<open>snapshot_dict\<close>, the dict it serialises.
  \<^item> \<open>Http\<close>: \<open>MetricsHandler.do_GET\<close> (lines 207--218), the library's 501 for other
    methods, and \<open>serve_forever\<close> (line 227) as the step relation \<open>serve_step\<close>. Its
    reachable states are \<open>reachable\<close>.
  \<^item> \<open>Config\<close>: \<open>PORT\<close> (line 17) and the binding of the server (line 225).

  \<^bold>\<open>What is proved.\<close> Every property holds for all machines (all oracles), under
  the hypotheses it states; the \<open>_witness\<close> theorems apply each one to a concrete
  machine.
  \<^item> CPU utilisation: the reading is absent exactly when the total tick count did not
    move, and lies in [0, 100] when the counters move forward. It is not clamped: a
    backward idle counter gives more than 100, by the backward step's share. The
    reader never raises. Its interactions are read, sleep, read.
  \<^item> Memory and disk: used equals total minus available or free, up to rounding, and
    lies between 0 and the total. A file system below 0.05 GiB is reported as 0.0
    throughout (the spec expects 0.0004 for its scenario). A malformed
    \<open>/proc/meminfo\<close> raises. The load average is the first three tokens; with fewer,
    all floats, it raises \<open>IndexError\<close>.
  \<^item> Temperatures and GPU:
    \<^item> Each fallback chain gives its result on every branch: no sources give
      \<open>None\<close>, an unusable \<open>nvidia-smi\<close> falls through to the Jetson file, read as
      its value over 10.
    \<^item> A non-numeric line from \<open>nvidia-smi\<close> (such as \<open>[N/A]\<close>) makes both readers
      raise \<open>ValueError\<close>, the GPU reader without trying the Jetson file.
    \<^item> A GPU temperature key is the line's position in the output, blank lines
      counted.
  \<^item> Boot history:
    \<^item> At most ten boots, one for each of the first ten reboot lines, short lines
      included (the \<open>except IndexError\<close> is dead).
    \<^item> The causes map is empty or holds the single key \<open>last\<close>, with the first reboot
      line.
    \<^item> The two separate \<open>last\<close> runs agree when the tool answers both alike.
  \<^item> Boot time: a valid UTC date that \<open>timegm\<close> maps back to \<open>now - uptime\<close>.
  \<^item> Aggregation:
    \<^item> A request runs only the three known commands with their timeouts, sleeps only
      0.1 s, and calls \<open>statvfs\<close> only on \<open>/\<close>.
    \<^item> On a machine without GPU sources a snapshot has no GPU utilisation and only
      thermal-zone temperature keys.
    \<^item> No request is aborted by \<open>TimeoutExpired\<close>: every command timeout is caught.
  \<^item> HTTP:
    \<^item> The 200 reply's \<open>Content-Length\<close> reads back as the byte length of its ASCII
      JSON body; an exception out of \<open>collect_metrics\<close> sends nothing.
    \<^item> Other paths get a bare 404.
    \<^item> Other methods get 501.
    \<^item> Every reachable server state holds only well-formed replies (an invariant by
      rule induction).
  \<^item> Configuration: \<open>PORT\<close> with surrounding whitespace gives its integer, and
    \<open>bind\<close> refuses one outside 0--65535 with \<open>OverflowError\<close>.

  \<^bold>\<open>Modelling choices, bounds and fuel.\<close>
  \<^item> Python floats are exact reals, and \<open>float()\<close> does not accept the \<open>inf\<close> and
    \<open>nan\<close> spellings. Every float in the snapshot is a finite decimal, since each is
    parsed decimal text, a thousandth or a rounded tenth. For such values, \<open>repr\<close> is
    their shortest decimal form, as in Python for up to 15 significant digits.
  \<^item> \<open>dec_places\<close> looks for the decimal expansion through at most 340 places, the
    range of doubles. No other loop needs fuel: every loop of the program is over a
    finite list and is structural recursion. The calendar functions terminate by a
    measure on the day count.
  \<^item> Characters are 8-bit, so \<open>str.encode\<close> is UTF-8 on code points up to U+00FF.
  \<^item> \<open>/proc/meminfo\<close> is read whole, and the file-iteration loop is its list of
    lines.
  \<^item> \<open>time.gmtime\<close> rounds toward minus infinity. Years are printed without padding,
    as glibc's \<open>%Y\<close> does.

  \<^bold>\<open>Not modelled.\<close>
  \<^item> The byte-level HTTP request parsing and the library's \<open>Server\<close> and \<open>Date\<close>
    headers and error-page text belong to \<open>http.server\<close>. The model starts from a
    parsed method and path.
  \<^item> \<open>log_message\<close> (lines 220--221) only suppresses output. The start-up \<open>print\<close>
    (line 226) is output only.
  \<^item> Concurrency is out of scope, since \<open>HTTPServer\<close> serves one request at a time.
    Python's \<open>OverflowError\<close> from \<open>gmtime\<close> on years beyond the platform's range is
    also out of scope.
\<close>

end
